theory Spec2Isabelle
  imports Main "HOL-Library.Word" "HOL-Library.AList"
begin

section \<open>The CDC flow orchestrator of flow/workflows/cdc_flow.go\<close>

text \<open>
  The workflow \<open>CDCFlowWorkflow\<close> is a deterministic, single-threaded program that blocks
  only in \<open>selector.Select\<close> and in \<open>Get\<close> on a future. The embedding passes the
  mutable objects of the Go code (the config \<open>cfg\<close>, the state \<open>state\<close>, the
  cancellation flag of \<open>ctx\<close>) explicitly, records every command the workflow issues
  (local activities, activities, child workflows, timers, query handlers, warnings) in a
  list of calls, and takes what the environment delivers to the selectors as a script of
  events, one per \<open>Select\<close>.
\<close>

subsection \<open>Protos\<close>

text \<open>
  Modelled from the spec: the enum \<open>protos.FlowStatus\<close> (generated code, not in the
  sources at hand); section 3 of the specification lists its values.
\<close>

datatype FlowStatus =
    STATUS_SETUP | STATUS_SNAPSHOT | STATUS_RUNNING | STATUS_PAUSED
  | STATUS_TERMINATING | STATUS_TERMINATED | STATUS_COMPLETED | STATUS_RESYNC

text \<open>
  Modelled from the spec: the enum \<open>protos.TableEngine\<close>; the workflow only compares it
  with \<open>CH_ENGINE_NULL\<close>, every other value is kept by its number.
\<close>

datatype TableEngine = CH_ENGINE_NULL | CH_ENGINE_OTHER nat

text \<open>The four values of \<open>model.CDCFlowSignal\<close> that the workflow names.\<close>

datatype CDCFlowSignal = NoopSignal | PauseSignal | TerminateSignal | ResyncSignal

type_synonym time = int \<comment> \<open>an instant of \<open>time.Time\<close>, in nanoseconds after the zero time\<close>

record TableMapping =
  SourceTableIdentifier :: string
  DestinationTableIdentifier :: string
  Engine :: TableEngine
  PartitionKey :: string
  Exclude :: "string list"

text \<open>
  Fields that several protos share carry a prefix here: \<open>cfg_\<close> for
  \<open>FlowConnectionConfigs\<close>, \<open>opt_\<close> for \<open>SyncFlowOptions\<close>, \<open>upd_\<close> for
  \<open>CDCFlowConfigUpdate\<close>, \<open>req_\<close> for \<open>FlowStateChangeRequest\<close>, \<open>drop_\<close> for
  \<open>DropFlowInput\<close>, \<open>ren_\<close> for \<open>RenameTablesInput\<close>. A Go map is an association
  list with distinct keys, \<open>None\<close> for the nil map.
\<close>

record FlowConnectionConfigs =
  cfg_FlowJobName :: string
  cfg_SourceName :: string
  cfg_DestinationName :: string
  cfg_TableMappings :: "TableMapping list"
  cfg_MaxBatchSize :: nat
  cfg_IdleTimeoutSeconds :: nat
  cfg_DoInitialSnapshot :: bool
  cfg_InitialSnapshotOnly :: bool
  cfg_Resync :: bool
  cfg_SyncedAtColName :: string
  cfg_SoftDeleteColName :: string
  cfg_Env :: "(string \<times> string) list option"
  cfg_SnapshotNumRowsPerPartition :: nat
  cfg_SnapshotMaxParallelWorkers :: nat
  cfg_SnapshotNumTablesInParallel :: nat

record SyncFlowOptions =
  opt_BatchSize :: nat
  opt_IdleTimeoutSeconds :: nat
  opt_TableMappings :: "TableMapping list"
  opt_NumberOfSyncs :: int
  opt_SrcTableIdNameMapping :: "(nat \<times> string) list option"

record CDCFlowConfigUpdate =
  upd_AdditionalTables :: "TableMapping list"
  upd_RemovedTables :: "TableMapping list"
  upd_BatchSize :: nat
  upd_IdleTimeout :: nat
  upd_NumberOfSyncs :: int
  upd_UpdatedEnv :: "(string \<times> string) list option"
  upd_SnapshotNumRowsPerPartition :: nat
  upd_SnapshotMaxParallelWorkers :: nat
  upd_SnapshotNumTablesInParallel :: nat

record FlowStateChangeRequest =
  req_RequestedFlowState :: FlowStatus
  req_DropMirrorStats :: bool
  req_SkipDestinationDrop :: bool

record DropFlowInput =
  drop_FlowJobName :: string
  drop_FlowConnectionConfigs :: "FlowConnectionConfigs option"
  drop_DropFlowStats :: bool
  drop_SkipDestinationDrop :: bool
  drop_Resync :: bool

record RenameTableOption =
  CurrentName :: string
  NewName :: string

record RenameTablesInput =
  ren_FlowJobName :: string
  ren_PeerName :: string
  ren_SyncedAtColName :: string
  ren_SoftDeleteColName :: string
  ren_RenameTableOptions :: "RenameTableOption list"

record SetupFlowOutput =
  out_SrcTableIdNameMapping :: "(nat \<times> string) list option"

subsection \<open>The workflow state\<close>

text \<open>\<open>ErrorCount\<close> is an \<open>int32\<close>: a 32-bit word read with \<open>sint\<close>.\<close>

record CDCFlowWorkflowState =
  FlowConfigUpdate :: "CDCFlowConfigUpdate option"
  SyncFlowOptions :: SyncFlowOptions
  DropFlowInput :: "DropFlowInput option"
  LastError :: time
  ErrorCount :: "32 word"
  ActiveSignal :: CDCFlowSignal
  CurrentFlowStatus :: FlowStatus
  SnapshotNumRowsPerPartition :: nat
  SnapshotMaxParallelWorkers :: nat
  SnapshotNumTablesInParallel :: nat

subsection \<open>Errors, calls and events\<close>

text \<open>
  Go errors as values. \<open>External\<close> is an error that an activity, a child workflow or the
  workflow library hands back; \<open>Panic\<close> is a run-time panic of the workflow code, kept in
  the error position; the two continue-as-new errors carry the arguments of the next run.
\<close>

datatype error =
    ErrorsNew string
  | Errorf string error
  | ErrCanceled
  | External string
  | Panic string
  | ContinueAsNew_DropFlowWorkflow "DropFlowInput option"
  | ContinueAsNew_CDCFlowWorkflow FlowConnectionConfigs CDCFlowWorkflowState

text \<open>
  What the callback of the sync future asks of the error of the \<open>SyncFlow\<close> activity:
  whether it is \<open>workflow.ErrCanceled\<close>, whether \<open>errors.As\<close> finds a
  \<open>temporal.PanicError\<close>, whether \<open>temporal.IsApplicationError\<close> holds, and its text.
\<close>

record sync_failure =
  is_ErrCanceled :: bool
  as_PanicError :: bool
  IsApplicationError :: bool
  Error_text :: string

datatype child_workflow = SetupFlowWorkflow | SnapshotFlowWorkflow | ChildCDCFlowWorkflow

datatype call =
    SetQueryHandler string
  | UpdateFlowStatusInCatalog FlowStatus
  | UpdateCDCConfigInCatalog FlowConnectionConfigs
  | GetFlowMetadataContext FlowStatus bool
  | ExecuteChildWorkflow string child_workflow FlowConnectionConfigs
  | AddTablesToPublication FlowConnectionConfigs "TableMapping list"
  | RemoveTablesFromPublication FlowConnectionConfigs "TableMapping list"
  | RemoveTablesFromRawTable FlowConnectionConfigs "TableMapping list"
  | RemoveTablesFromCatalog FlowConnectionConfigs "TableMapping list"
  | RenameTables RenameTablesInput
  | SyncFlow FlowConnectionConfigs SyncFlowOptions
  | SleepFuture "64 word"
  | CancelSync
  | LoggerWarn string

text \<open>
  What a selector can deliver. \<open>CtxDone\<close> is the cancellation of the workflow context
  (from then on \<open>ctx.Err()\<close> is not nil). \<open>SyncFlowDone\<close> carries the value of
  \<open>workflow.Now\<close> at its delivery. \<open>SelectorIdle b\<close> marks a point where
  \<open>HasPending\<close> is false; \<open>b\<close> is what \<open>ShouldWorkflowContinueAsNew\<close> answers there.
\<close>

datatype event =
    CtxDone
  | FlowSignal CDCFlowSignal
  | FlowSignalStateChange FlowStateChangeRequest
  | CDCDynamicPropertiesSignal CDCFlowConfigUpdate
  | ChildCDCFlowDone "CDCFlowWorkflowState option" "error option"
  | SetupFlowDone "SetupFlowOutput option" "error option"
  | SnapshotFlowDone "error option"
  | RenameTablesDone "error option"
  | SyncFlowDone "sync_failure option" time
  | SleepFired
  | SelectorIdle bool

text \<open>
  What the environment decides besides the events: \<open>model.FlowSignalHandler\<close> (not in
  the sources at hand, so a parameter), the results of \<open>SetQueryHandler\<close> and of
  \<open>GetFlowMetadataContext\<close>, the run id, the UUID of the side effect, and the results
  of the four activities that the workflow awaits with a plain \<open>Get\<close> (each runs at most
  once in a run).
\<close>

record env =
  FlowSignalHandler :: "CDCFlowSignal \<Rightarrow> CDCFlowSignal \<Rightarrow> CDCFlowSignal"
  SetQueryHandler_result :: "string \<Rightarrow> error option"
  GetFlowMetadataContext_result :: "error option"
  OriginalRunID :: string
  GetUUID :: string
  AddTablesToPublication_result :: "error option"
  RemoveTablesFromPublication_result :: "error option"
  RemoveTablesFromRawTable_result :: "error option"
  RemoveTablesFromCatalog_result :: "error option"

text \<open>The objects a run works on: \<open>cfg\<close>, \<open>state\<close>, the calls issued so far, and
  whether \<open>ctx.Err()\<close> is not nil.\<close>

record exec =
  x_cfg :: FlowConnectionConfigs
  x_state :: CDCFlowWorkflowState
  x_calls :: "call list"
  x_canceled :: bool

text \<open>
  How a part of the run ends: \<open>Waiting\<close> when it is blocked in a \<open>Select\<close> (the
  script has ended; inside a loop: the loop selects again), \<open>Leave a\<close> when a loop is
  left with \<open>a\<close> and the function goes on, \<open>Return r\<close> when the function returns
  \<open>r\<close>.
\<close>

datatype ('a, 'r) flow = Waiting | Leave 'a | Return 'r

type_synonym result = "(unit, CDCFlowWorkflowState option \<times> error option) flow"

subsection \<open>Strings and maps of the Go library\<close>

fun strings_HasPrefix :: "string \<Rightarrow> string \<Rightarrow> bool" where
  "strings_HasPrefix s [] = True"
| "strings_HasPrefix [] (c # p) = False"
| "strings_HasPrefix (a # s) (c # p) = (a = c \<and> strings_HasPrefix s p)"

fun strings_Contains :: "string \<Rightarrow> string \<Rightarrow> bool" where
  "strings_Contains [] sub = (sub = [])"
| "strings_Contains (a # s) sub = (strings_HasPrefix (a # s) sub \<or> strings_Contains s sub)"

definition strings_HasSuffix :: "string \<Rightarrow> string \<Rightarrow> bool" where
  "strings_HasSuffix s suffix =
     (length suffix \<le> length s \<and> drop (length s - length suffix) s = suffix)"

definition strings_TrimSuffix :: "string \<Rightarrow> string \<Rightarrow> string" where
  "strings_TrimSuffix s suffix =
     (if strings_HasSuffix s suffix then take (length s - length suffix) s else s)"

definition maps_Copy :: "('k \<times> 'v) list \<Rightarrow> ('k \<times> 'v) list \<Rightarrow> ('k \<times> 'v) list" where
  "maps_Copy dst src = fold (\<lambda>(k, v) d. AList.update k v d) src dst"

text \<open>\<open>maps.Copy\<close> on maps that may be nil: writing an entry into the nil map panics
  (\<open>None\<close>), copying nothing into it does not.\<close>

definition maps_Copy_nilable ::
  "('k \<times> 'v) list option \<Rightarrow> ('k \<times> 'v) list option \<Rightarrow> ('k \<times> 'v) list option option" where
  "maps_Copy_nilable dst src =
     (case src of
        None \<Rightarrow> Some dst
      | Some s \<Rightarrow>
          (case dst of
             None \<Rightarrow> if s = [] then Some None else None
           | Some d \<Rightarrow> Some (Some (maps_Copy d s))))"

definition maps_DeleteFunc :: "('k \<times> 'v) list \<Rightarrow> ('k \<Rightarrow> 'v \<Rightarrow> bool) \<Rightarrow> ('k \<times> 'v) list" where
  "maps_DeleteFunc m del = filter (\<lambda>(k, v). \<not> del k v) m"

definition slices_DeleteFunc :: "'a list \<Rightarrow> ('a \<Rightarrow> bool) \<Rightarrow> 'a list" where
  "slices_DeleteFunc s del = filter (\<lambda>a. \<not> del a) s"

text \<open>
  Modelled from the spec: \<open>internal.AdditionalTablesHasOverlap\<close> (package
  \<open>internal\<close> is not in the sources at hand). Section 4.5: the additional tables overlap
  the existing mappings by source or by destination identifier.
\<close>

definition AdditionalTablesHasOverlap :: "TableMapping list \<Rightarrow> TableMapping list \<Rightarrow> bool" where
  "AdditionalTablesHasOverlap currentTableMappings additionalTableMappings =
     (list_ex (\<lambda>a. list_ex (\<lambda>c. SourceTableIdentifier c = SourceTableIdentifier a)
                      currentTableMappings) additionalTableMappings
      \<or> list_ex (\<lambda>a. list_ex (\<lambda>c. DestinationTableIdentifier c = DestinationTableIdentifier a)
                      currentTableMappings) additionalTableMappings)"

subsection \<open>State creation and the catalog\<close>

definition issue :: "call \<Rightarrow> exec \<Rightarrow> exec" where
  "issue c x = x\<lparr>x_calls := x_calls x @ [c]\<rparr>"

definition syncStatusToCatalog :: "FlowStatus \<Rightarrow> call list" where
  "syncStatusToCatalog status = [UpdateFlowStatusInCatalog status]"

definition NewCDCFlowWorkflowState :: "FlowConnectionConfigs \<Rightarrow> CDCFlowWorkflowState \<times> call list" where
  "NewCDCFlowWorkflowState c =
     (let st = \<lparr> FlowConfigUpdate = None,
                 SyncFlowOptions = \<lparr> opt_BatchSize = cfg_MaxBatchSize c,
                                      opt_IdleTimeoutSeconds = cfg_IdleTimeoutSeconds c,
                                      opt_TableMappings = cfg_TableMappings c,
                                      opt_NumberOfSyncs = 0,
                                      opt_SrcTableIdNameMapping = None \<rparr>,
                 DropFlowInput = None,
                 LastError = 0,
                 ErrorCount = 0,
                 ActiveSignal = NoopSignal,
                 CurrentFlowStatus = STATUS_SETUP,
                 SnapshotNumRowsPerPartition = cfg_SnapshotNumRowsPerPartition c,
                 SnapshotMaxParallelWorkers = cfg_SnapshotMaxParallelWorkers c,
                 SnapshotNumTablesInParallel = cfg_SnapshotNumTablesInParallel c \<rparr>
      in (st, syncStatusToCatalog (CurrentFlowStatus st)))"

definition updateStatus :: "FlowStatus \<Rightarrow> exec \<Rightarrow> exec" where
  "updateStatus newStatus x =
     (let st = (x_state x)\<lparr>CurrentFlowStatus := newStatus\<rparr>
      in x\<lparr>x_state := st, x_calls := x_calls x @ syncStatusToCatalog (CurrentFlowStatus st)\<rparr>)"

definition GetChildWorkflowID :: "string \<Rightarrow> string \<Rightarrow> string \<Rightarrow> string" where
  "GetChildWorkflowID prefix peerFlowName uuid = prefix @ ''-'' @ peerFlowName @ ''-'' @ uuid"

definition updateFlowConfigWithLatestSettings ::
  "FlowConnectionConfigs \<Rightarrow> CDCFlowWorkflowState \<Rightarrow> FlowConnectionConfigs" where
  "updateFlowConfigWithLatestSettings c st =
     c\<lparr> cfg_MaxBatchSize := opt_BatchSize (SyncFlowOptions st),
        cfg_IdleTimeoutSeconds := opt_IdleTimeoutSeconds (SyncFlowOptions st),
        cfg_TableMappings := opt_TableMappings (SyncFlowOptions st),
        cfg_SnapshotNumRowsPerPartition := SnapshotNumRowsPerPartition st,
        cfg_SnapshotMaxParallelWorkers := SnapshotMaxParallelWorkers st,
        cfg_SnapshotNumTablesInParallel := SnapshotNumTablesInParallel st \<rparr>"

definition uploadConfigToCatalog :: "FlowConnectionConfigs \<Rightarrow> exec \<Rightarrow> exec" where
  "uploadConfigToCatalog c x = issue (UpdateCDCConfigInCatalog c) x"

definition syncStateToConfigProtoInCatalog :: "exec \<Rightarrow> FlowConnectionConfigs \<times> exec" where
  "syncStateToConfigProtoInCatalog x =
     (let cloneCfg = updateFlowConfigWithLatestSettings (x_cfg x) (x_state x)
      in (cloneCfg, uploadConfigToCatalog cloneCfg x))"

subsection \<open>Config update processing\<close>

text \<open>
  Of the log lines only the warnings that the code writes on its own decisions are
  calls (\<open>LoggerWarn\<close>); the warnings on a failed catalog write are not, since the
  outcome of the two catalog activities changes nothing else.
\<close>

definition addTables_FlowSignalStateChange :: "FlowStateChangeRequest \<Rightarrow> exec \<Rightarrow> exec" where
  "addTables_FlowSignalStateChange val x =
     (if req_RequestedFlowState val = STATUS_TERMINATING then
        (let x1 = x\<lparr>x_state := (x_state x)\<lparr>ActiveSignal := TerminateSignal\<rparr>\<rparr>;
             dropCfg = fst (syncStateToConfigProtoInCatalog x1);
             x2 = snd (syncStateToConfigProtoInCatalog x1)
         in x2\<lparr>x_state := (x_state x2)\<lparr>DropFlowInput := Some
              \<lparr> drop_FlowJobName = cfg_FlowJobName dropCfg,
                drop_FlowConnectionConfigs = Some dropCfg,
                drop_DropFlowStats = req_DropMirrorStats val,
                drop_SkipDestinationDrop = req_SkipDestinationDrop val,
                drop_Resync = False \<rparr>\<rparr>\<rparr>)
      else if req_RequestedFlowState val = STATUS_RESYNC then
        x\<lparr>x_cfg := (x_cfg x)\<lparr>cfg_Resync := True, cfg_DoInitialSnapshot := True\<rparr>,
          x_state := (x_state x)\<lparr>ActiveSignal := ResyncSignal, DropFlowInput := Some
              \<lparr> drop_FlowJobName = [],
                drop_FlowConnectionConfigs = None,
                drop_DropFlowStats = req_DropMirrorStats val,
                drop_SkipDestinationDrop = req_SkipDestinationDrop val,
                drop_Resync = True \<rparr>\<rparr>\<rparr>
      else x)"

text \<open>The selector \<open>AddTables\<close>: what it is registered for, and one \<open>Select\<close>, which
  gives the new objects and the values of \<open>res\<close> and \<open>addTablesFlowErr\<close> it has set.\<close>

fun addTables_registered :: "event \<Rightarrow> bool" where
  "addTables_registered CtxDone = True"
| "addTables_registered (FlowSignalStateChange val) = True"
| "addTables_registered (ChildCDCFlowDone res err) = True"
| "addTables_registered _ = False"

fun addTables_Select ::
  "event \<Rightarrow> exec \<Rightarrow> exec \<times> CDCFlowWorkflowState option \<times> error option" where
  "addTables_Select CtxDone x = (x\<lparr>x_canceled := True\<rparr>, None, None)"
| "addTables_Select (FlowSignalStateChange val) x =
     (addTables_FlowSignalStateChange val x, None, None)"
| "addTables_Select (ChildCDCFlowDone res err) x = (x, res, err)"
| "addTables_Select _ x = (x, None, None)"

text \<open>The body of \<open>for res == nil\<close> after its \<open>Select\<close>.\<close>

definition addTables_after_Select ::
  "CDCFlowConfigUpdate \<Rightarrow> exec \<Rightarrow> CDCFlowWorkflowState option \<Rightarrow> error option
     \<Rightarrow> (CDCFlowWorkflowState, error option) flow \<times> exec" where
  "addTables_after_Select flowConfigUpdate x res addTablesFlowErr =
     (if ActiveSignal (x_state x) = TerminateSignal \<or> ActiveSignal (x_state x) = ResyncSignal then
        (if ActiveSignal (x_state x) = ResyncSignal then
           (let x1 = x\<lparr>x_state := (x_state x)\<lparr>SyncFlowOptions := (SyncFlowOptions (x_state x))
                        \<lparr>opt_TableMappings := opt_TableMappings (SyncFlowOptions (x_state x))
                            @ upd_AdditionalTables flowConfigUpdate\<rparr>\<rparr>\<rparr>;
                resyncCfg = fst (syncStateToConfigProtoInCatalog x1);
                x2 = snd (syncStateToConfigProtoInCatalog x1)
            in case DropFlowInput (x_state x2) of
                 None \<Rightarrow> (Return (Some (Panic ''nil pointer dereference'')), x2)
               | Some d \<Rightarrow>
                   (let x3 = x2\<lparr>x_state := (x_state x2)\<lparr>DropFlowInput := Some
                          (d\<lparr>drop_FlowJobName := cfg_FlowJobName resyncCfg,
                             drop_FlowConnectionConfigs := Some resyncCfg\<rparr>)\<rparr>\<rparr>
                    in (Return (Some (ContinueAsNew_DropFlowWorkflow (DropFlowInput (x_state x3)))), x3)))
         else (Return (Some (ContinueAsNew_DropFlowWorkflow (DropFlowInput (x_state x)))), x))
      else if x_canceled x then (Return (Some ErrCanceled), x)
      else case addTablesFlowErr of
             Some err \<Rightarrow>
               (Return (Some (Errorf ''failed to execute child CDCFlow for additional tables'' err)), x)
           | None \<Rightarrow> (case res of None \<Rightarrow> (Waiting, x) | Some r \<Rightarrow> (Leave r, x)))"

fun addTables_loop ::
  "CDCFlowConfigUpdate \<Rightarrow> event list \<Rightarrow> exec
     \<Rightarrow> (CDCFlowWorkflowState, error option) flow \<times> exec \<times> event list" where
  "addTables_loop flowConfigUpdate [] x = (Waiting, x, [])"
| "addTables_loop flowConfigUpdate (e # script) x =
     (if \<not> addTables_registered e then addTables_loop flowConfigUpdate script x
      else case addTables_after_Select flowConfigUpdate (fst (addTables_Select e x))
                  (fst (snd (addTables_Select e x))) (snd (snd (addTables_Select e x))) of
             (Waiting, x1) \<Rightarrow> addTables_loop flowConfigUpdate script x1
           | (Leave r, x1) \<Rightarrow> (Leave r, x1, script)
           | (Return err, x1) \<Rightarrow> (Return err, x1, script))"

text \<open>The end of \<open>processTableAdditions\<close>: the merged id map is stored and
  \<open>AdditionalTables\<close> is appended to the live mappings.\<close>

definition processTableAdditions_append ::
  "CDCFlowConfigUpdate \<Rightarrow> exec \<Rightarrow> (nat \<times> string) list option \<Rightarrow> event list
     \<Rightarrow> (unit, error option) flow \<times> exec \<times> event list" where
  "processTableAdditions_append flowConfigUpdate x merged script =
     (Return None,
      x\<lparr>x_state := (x_state x)\<lparr>SyncFlowOptions := (SyncFlowOptions (x_state x))
          \<lparr>opt_SrcTableIdNameMapping := merged,
           opt_TableMappings := opt_TableMappings (SyncFlowOptions (x_state x))
               @ upd_AdditionalTables flowConfigUpdate\<rparr>\<rparr>\<rparr>,
      script)"

definition processTableAdditions ::
  "env \<Rightarrow> event list \<Rightarrow> exec \<Rightarrow> (unit, error option) flow \<times> exec \<times> event list" where
  "processTableAdditions en script x =
     (case FlowConfigUpdate (x_state x) of
        None \<Rightarrow> (Return (Some (Panic ''nil pointer dereference'')), x, script)
      | Some flowConfigUpdate \<Rightarrow>
          if upd_AdditionalTables flowConfigUpdate = [] then
            (Return None, snd (syncStateToConfigProtoInCatalog x), script)
          else if AdditionalTablesHasOverlap (opt_TableMappings (SyncFlowOptions (x_state x)))
                    (upd_AdditionalTables flowConfigUpdate) then
            (Return None,
             snd (syncStateToConfigProtoInCatalog
               (issue (LoggerWarn ''duplicate source/destination tables found in additionalTables'') x)),
             script)
          else
            (let x1 = updateStatus STATUS_SNAPSHOT x;
                 x2 = issue (AddTablesToPublication (x_cfg x1) (upd_AdditionalTables flowConfigUpdate)) x1
             in case AddTablesToPublication_result en of
                  Some err \<Rightarrow> (Return (Some err), x2, script)
                | None \<Rightarrow>
                   (let childAdditionalTablesCDCFlowID =
                          GetChildWorkflowID ''additional-cdc-flow'' (cfg_FlowJobName (x_cfg x2)) (GetUUID en);
                        additionalTablesCfg = (x_cfg x2)
                          \<lparr> cfg_DoInitialSnapshot := True,
                            cfg_InitialSnapshotOnly := True,
                            cfg_TableMappings := upd_AdditionalTables flowConfigUpdate,
                            cfg_Resync := False,
                            cfg_SnapshotNumRowsPerPartition := SnapshotNumRowsPerPartition (x_state x2),
                            cfg_SnapshotMaxParallelWorkers := SnapshotMaxParallelWorkers (x_state x2),
                            cfg_SnapshotNumTablesInParallel := SnapshotNumTablesInParallel (x_state x2) \<rparr>;
                        x3 = issue (ExecuteChildWorkflow childAdditionalTablesCDCFlowID
                                      ChildCDCFlowWorkflow additionalTablesCfg) x2
                    in case addTables_loop flowConfigUpdate script x3 of
                         (Waiting, x4, script') \<Rightarrow> (Waiting, x4, script')
                       | (Return err, x4, script') \<Rightarrow> (Return err, x4, script')
                       | (Leave res, x4, script') \<Rightarrow>
                           (case maps_Copy_nilable
                                   (opt_SrcTableIdNameMapping (SyncFlowOptions (x_state x4)))
                                   (opt_SrcTableIdNameMapping (SyncFlowOptions res)) of
                              None \<Rightarrow> (Return (Some (Panic ''assignment to entry in nil map'')), x4, script')
                            | Some merged \<Rightarrow>
                                processTableAdditions_append flowConfigUpdate x4 merged script'))))"

definition processTableRemovals :: "env \<Rightarrow> exec \<Rightarrow> error option \<times> exec" where
  "processTableRemovals en x =
     (case FlowConfigUpdate (x_state x) of
        None \<Rightarrow> (Some (Panic ''nil pointer dereference''), x)
      | Some flowConfigUpdate \<Rightarrow>
         (let x1 = issue (RemoveTablesFromPublication (x_cfg x) (upd_RemovedTables flowConfigUpdate)) x
          in case RemoveTablesFromPublication_result en of
               Some err \<Rightarrow> (Some err, x1)
             | None \<Rightarrow>
                (let x2 = issue (RemoveTablesFromRawTable (x_cfg x1) (upd_RemovedTables flowConfigUpdate)) x1
                 in case RemoveTablesFromRawTable_result en of
                      Some err \<Rightarrow> (Some err, x2)
                    | None \<Rightarrow>
                       (let x3 = issue (RemoveTablesFromCatalog (x_cfg x2) (upd_RemovedTables flowConfigUpdate)) x2
                        in case RemoveTablesFromCatalog_result en of
                             Some err \<Rightarrow> (Some err, x3)
                           | None \<Rightarrow>
                              (let removedTables = map SourceTableIdentifier (upd_RemovedTables flowConfigUpdate)
                               in (None,
                                   x3\<lparr>x_state := (x_state x3)\<lparr>SyncFlowOptions := (SyncFlowOptions (x_state x3))
                                     \<lparr>opt_SrcTableIdNameMapping :=
                                        map_option (\<lambda>m. maps_DeleteFunc m (\<lambda>k v. v \<in> set removedTables))
                                          (opt_SrcTableIdNameMapping (SyncFlowOptions (x_state x3))),
                                      opt_TableMappings :=
                                        slices_DeleteFunc (opt_TableMappings (SyncFlowOptions (x_state x3)))
                                          (\<lambda>tm. SourceTableIdentifier tm \<in> set removedTables)\<rparr>\<rparr>\<rparr>))))))"

text \<open>The settings that \<open>processCDCFlowConfigUpdate\<close> copies before it looks at the
  tables.\<close>

definition apply_update_settings :: "CDCFlowConfigUpdate \<Rightarrow> exec \<Rightarrow> exec" where
  "apply_update_settings flowConfigUpdate x =
     (let st = x_state x;
          o1 = SyncFlowOptions st;
          o2 = (if upd_BatchSize flowConfigUpdate > 0
                then o1\<lparr>opt_BatchSize := upd_BatchSize flowConfigUpdate\<rparr> else o1);
          o3 = (if upd_IdleTimeout flowConfigUpdate > 0
                then o2\<lparr>opt_IdleTimeoutSeconds := upd_IdleTimeout flowConfigUpdate\<rparr> else o2);
          o4 = (if upd_NumberOfSyncs flowConfigUpdate > 0
                then o3\<lparr>opt_NumberOfSyncs := upd_NumberOfSyncs flowConfigUpdate\<rparr>
                else if upd_NumberOfSyncs flowConfigUpdate < 0
                then o3\<lparr>opt_NumberOfSyncs := 0\<rparr> else o3);
          c = (case upd_UpdatedEnv flowConfigUpdate of
                 None \<Rightarrow> x_cfg x
               | Some updatedEnv \<Rightarrow>
                   (x_cfg x)\<lparr>cfg_Env := Some (maps_Copy
                      (case cfg_Env (x_cfg x) of None \<Rightarrow> [] | Some m \<Rightarrow> m) updatedEnv)\<rparr>);
          s1 = st\<lparr>SyncFlowOptions := o4\<rparr>;
          s2 = (if upd_SnapshotNumRowsPerPartition flowConfigUpdate > 0
                then s1\<lparr>SnapshotNumRowsPerPartition := upd_SnapshotNumRowsPerPartition flowConfigUpdate\<rparr>
                else s1);
          s3 = (if upd_SnapshotMaxParallelWorkers flowConfigUpdate > 0
                then s2\<lparr>SnapshotMaxParallelWorkers := upd_SnapshotMaxParallelWorkers flowConfigUpdate\<rparr>
                else s2);
          s4 = (if upd_SnapshotNumTablesInParallel flowConfigUpdate > 0
                then s3\<lparr>SnapshotNumTablesInParallel := upd_SnapshotNumTablesInParallel flowConfigUpdate\<rparr>
                else s3)
      in x\<lparr>x_cfg := c, x_state := s4\<rparr>)"

definition processCDCFlowConfigUpdate ::
  "env \<Rightarrow> event list \<Rightarrow> exec \<Rightarrow> (unit, error option) flow \<times> exec \<times> event list" where
  "processCDCFlowConfigUpdate en script x =
     (case FlowConfigUpdate (x_state x) of
        None \<Rightarrow> (Return (Some (Panic ''nil pointer dereference'')), x, script)
      | Some flowConfigUpdate \<Rightarrow>
         (let x1 = apply_update_settings flowConfigUpdate x;
              tablesAreAdded = (upd_AdditionalTables flowConfigUpdate \<noteq> []);
              tablesAreRemoved = (upd_RemovedTables flowConfigUpdate \<noteq> [])
          in if \<not> tablesAreAdded \<and> \<not> tablesAreRemoved then
               (Return None, snd (syncStateToConfigProtoInCatalog x1), script)
             else
               (case (if tablesAreAdded then processTableAdditions en script x1
                      else (Return None, x1, script)) of
                  (Return None, x2, script') \<Rightarrow>
                    (case (if tablesAreRemoved then processTableRemovals en x2 else (None, x2)) of
                       (Some err, x3) \<Rightarrow> (Return (Some err), x3, script')
                     | (None, x3) \<Rightarrow>
                         (Return None, snd (syncStateToConfigProtoInCatalog x3), script'))
                | (Return (Some err), x2, script') \<Rightarrow> (Return (Some err), x2, script')
                | (other, x2, script') \<Rightarrow> (Waiting, x2, script'))))"

subsection \<open>The pause loop\<close>

definition pauseLoop_FlowSignalStateChange :: "FlowStateChangeRequest \<Rightarrow> exec \<Rightarrow> exec" where
  "pauseLoop_FlowSignalStateChange val x =
     (case req_RequestedFlowState val of
        STATUS_TERMINATING \<Rightarrow>
          (let x1 = x\<lparr>x_state := (x_state x)\<lparr>ActiveSignal := TerminateSignal\<rparr>\<rparr>;
               dropCfg = fst (syncStateToConfigProtoInCatalog x1);
               x2 = snd (syncStateToConfigProtoInCatalog x1)
           in x2\<lparr>x_state := (x_state x2)\<lparr>DropFlowInput := Some
                \<lparr> drop_FlowJobName = cfg_FlowJobName dropCfg,
                  drop_FlowConnectionConfigs = Some dropCfg,
                  drop_DropFlowStats = req_DropMirrorStats val,
                  drop_SkipDestinationDrop = req_SkipDestinationDrop val,
                  drop_Resync = False \<rparr>\<rparr>\<rparr>)
      | STATUS_RESYNC \<Rightarrow>
          (let x1 = x\<lparr>x_state := (x_state x)\<lparr>ActiveSignal := ResyncSignal\<rparr>,
                      x_cfg := (x_cfg x)\<lparr>cfg_Resync := True, cfg_DoInitialSnapshot := True\<rparr>\<rparr>;
               resyncCfg = fst (syncStateToConfigProtoInCatalog x1);
               x2 = snd (syncStateToConfigProtoInCatalog x1)
           in x2\<lparr>x_state := (x_state x2)\<lparr>DropFlowInput := Some
                \<lparr> drop_FlowJobName = cfg_FlowJobName resyncCfg,
                  drop_FlowConnectionConfigs = Some resyncCfg,
                  drop_DropFlowStats = req_DropMirrorStats val,
                  drop_SkipDestinationDrop = req_SkipDestinationDrop val,
                  drop_Resync = True \<rparr>\<rparr>\<rparr>)
      | _ \<Rightarrow> x)"

text \<open>One \<open>Select\<close> of the selector \<open>PauseLoop\<close>; an event it is not registered for
  is not delivered.\<close>

fun pauseLoop_Select :: "env \<Rightarrow> event \<Rightarrow> exec \<Rightarrow> exec" where
  "pauseLoop_Select en CtxDone x = x\<lparr>x_canceled := True\<rparr>"
| "pauseLoop_Select en (FlowSignal val) x =
     x\<lparr>x_state := (x_state x)\<lparr>ActiveSignal := FlowSignalHandler en (ActiveSignal (x_state x)) val\<rparr>\<rparr>"
| "pauseLoop_Select en (FlowSignalStateChange val) x = pauseLoop_FlowSignalStateChange val x"
| "pauseLoop_Select en (CDCDynamicPropertiesSignal cdcConfigUpdate) x =
     x\<lparr>x_state := (x_state x)\<lparr>FlowConfigUpdate := Some cdcConfigUpdate\<rparr>\<rparr>"
| "pauseLoop_Select en _ x = x"

text \<open>The inner loop, the only place where the pause loop blocks.\<close>

definition pauseLoop_blocks :: "exec \<Rightarrow> bool" where
  "pauseLoop_blocks x =
     (ActiveSignal (x_state x) = PauseSignal \<and> FlowConfigUpdate (x_state x) = None \<and> \<not> x_canceled x)"

fun pauseLoop_receive :: "env \<Rightarrow> event list \<Rightarrow> exec \<Rightarrow> (unit, unit) flow \<times> exec \<times> event list" where
  "pauseLoop_receive en [] x = (if pauseLoop_blocks x then (Waiting, x, []) else (Leave (), x, []))"
| "pauseLoop_receive en (e # script) x =
     (if pauseLoop_blocks x then pauseLoop_receive en script (pauseLoop_Select en e x)
      else (Leave (), x, e # script))"

text \<open>The loop \<open>for state.ActiveSignal == model.PauseSignal\<close> and what follows it.\<close>

lemma pauseLoop_receive_leaves:
  "pauseLoop_receive en script x = (Leave u, x1, script1) \<Longrightarrow> \<not> pauseLoop_blocks x1"
  by (induction script arbitrary: x) (auto split: if_splits)

function pauseLoop :: "env \<Rightarrow> event list \<Rightarrow> exec \<Rightarrow> result \<times> exec" where
  "pauseLoop en script x =
     (if ActiveSignal (x_state x) = PauseSignal then
        (case pauseLoop_receive en script x of
           (Leave u, x1, script1) \<Rightarrow>
             if x_canceled x1 then (Return (Some (x_state x1), Some ErrCanceled), x1)
             else if ActiveSignal (x_state x1) = TerminateSignal
                     \<or> ActiveSignal (x_state x1) = ResyncSignal then
               (Return (Some (x_state x1),
                        Some (ContinueAsNew_DropFlowWorkflow (DropFlowInput (x_state x1)))), x1)
             else if FlowConfigUpdate (x_state x1) \<noteq> None then
               (case processCDCFlowConfigUpdate en script1 x1 of
                  (Return None, x2, script2) \<Rightarrow>
                    pauseLoop en script2
                      (x2\<lparr>x_state := (x_state x2)\<lparr>FlowConfigUpdate := None, ActiveSignal := NoopSignal\<rparr>\<rparr>)
                | (Return (Some err), x2, script2) \<Rightarrow> (Return (Some (x_state x2), Some err), x2)
                | (other, x2, script2) \<Rightarrow> (Waiting, x2))
             else pauseLoop en script1 x1
         | (other, x1, script1) \<Rightarrow> (Waiting, x1))
      else
        (let x1 = updateStatus STATUS_RUNNING x
         in (Return (Some (x_state x1),
                     Some (ContinueAsNew_CDCFlowWorkflow (x_cfg x1) (x_state x1))), x1)))"
  by pat_completeness auto
termination
proof (relation "measure (\<lambda>(en, script, x). if ActiveSignal (x_state x) = PauseSignal then 1 else 0)")
  show "wf (measure (\<lambda>(en :: env, script :: event list, x).
              if ActiveSignal (x_state x) = PauseSignal then 1 else (0 :: nat)))"
    by simp
qed (auto dest!: pauseLoop_receive_leaves [OF sym] simp: pauseLoop_blocks_def)

definition pausePhase :: "env \<Rightarrow> event list \<Rightarrow> exec \<Rightarrow> result \<times> exec" where
  "pausePhase en script x = pauseLoop en script (updateStatus STATUS_PAUSED x)"

subsection \<open>The setup and snapshot phase\<close>

definition add_resync_suffix :: "TableMapping \<Rightarrow> TableMapping" where
  "add_resync_suffix mapping =
     (if Engine mapping \<noteq> CH_ENGINE_NULL
      then mapping\<lparr>DestinationTableIdentifier := DestinationTableIdentifier mapping @ ''_resync''\<rparr>
      else mapping)"

definition rename_back :: "TableMapping \<Rightarrow> TableMapping" where
  "rename_back mapping =
     (if Engine mapping \<noteq> CH_ENGINE_NULL
      then mapping\<lparr>DestinationTableIdentifier :=
             strings_TrimSuffix (DestinationTableIdentifier mapping) ''_resync''\<rparr>
      else mapping)"

definition rename_option :: "TableMapping \<Rightarrow> RenameTableOption" where
  "rename_option mapping =
     (if Engine mapping \<noteq> CH_ENGINE_NULL
      then \<lparr> CurrentName = DestinationTableIdentifier mapping,
             NewName = strings_TrimSuffix (DestinationTableIdentifier mapping) ''_resync'' \<rparr>
      else \<lparr> CurrentName = DestinationTableIdentifier mapping,
             NewName = DestinationTableIdentifier mapping \<rparr>)"

definition setupSnapshot_FlowSignalStateChange ::
  "TableMapping list \<Rightarrow> FlowStateChangeRequest \<Rightarrow> exec \<Rightarrow> exec" where
  "setupSnapshot_FlowSignalStateChange originalTableMappings val x =
     (case req_RequestedFlowState val of
        STATUS_PAUSED \<Rightarrow> issue (LoggerWarn ''pause requested during setup, ignoring'') x
      | STATUS_TERMINATING \<Rightarrow>
          (let x1 = x\<lparr>x_state := (x_state x)\<lparr>ActiveSignal := TerminateSignal\<rparr>\<rparr>;
               dropCfg = fst (syncStateToConfigProtoInCatalog x1);
               x2 = snd (syncStateToConfigProtoInCatalog x1)
           in x2\<lparr>x_state := (x_state x2)\<lparr>DropFlowInput := Some
                \<lparr> drop_FlowJobName = cfg_FlowJobName dropCfg,
                  drop_FlowConnectionConfigs = Some dropCfg,
                  drop_DropFlowStats = req_DropMirrorStats val,
                  drop_SkipDestinationDrop = req_SkipDestinationDrop val,
                  drop_Resync = False \<rparr>\<rparr>\<rparr>)
      | STATUS_RESYNC \<Rightarrow>
          (let x1 = x\<lparr>x_state := (x_state x)\<lparr>ActiveSignal := ResyncSignal\<rparr>,
                      x_cfg := (x_cfg x)\<lparr>cfg_Resync := True, cfg_DoInitialSnapshot := True,
                                         cfg_TableMappings := originalTableMappings\<rparr>\<rparr>;
               x2 = uploadConfigToCatalog (x_cfg x1) x1
           in x2\<lparr>x_state := (x_state x2)\<lparr>DropFlowInput := Some
                \<lparr> drop_FlowJobName = cfg_FlowJobName (x_cfg x2),
                  drop_FlowConnectionConfigs = Some (x_cfg x2),
                  drop_DropFlowStats = req_DropMirrorStats val,
                  drop_SkipDestinationDrop = req_SkipDestinationDrop val,
                  drop_Resync = True \<rparr>\<rparr>\<rparr>)
      | _ \<Rightarrow> x)"

text \<open>One \<open>Select\<close> of the selector \<open>Setup/Snapshot\<close>, as far as it changes the
  objects; the futures only set local variables, read off the event below.\<close>

fun setupSnapshot_Select :: "TableMapping list \<Rightarrow> event \<Rightarrow> exec \<Rightarrow> exec" where
  "setupSnapshot_Select originalTableMappings CtxDone x = x\<lparr>x_canceled := True\<rparr>"
| "setupSnapshot_Select originalTableMappings (FlowSignalStateChange val) x =
     setupSnapshot_FlowSignalStateChange originalTableMappings val x"
| "setupSnapshot_Select originalTableMappings _ x = x"

text \<open>The three checks that follow every \<open>Select\<close> of this phase; the last one is on
  the error of the awaited future, already wrapped as it is returned.\<close>

definition setupSnapshot_exits ::
  "exec \<Rightarrow> error option \<Rightarrow> (CDCFlowWorkflowState option \<times> error option) option" where
  "setupSnapshot_exits x futureError =
     (if ActiveSignal (x_state x) = TerminateSignal \<or> ActiveSignal (x_state x) = ResyncSignal then
        Some (Some (x_state x), Some (ContinueAsNew_DropFlowWorkflow (DropFlowInput (x_state x))))
      else if x_canceled x then Some (None, Some ErrCanceled)
      else case futureError of
             Some err \<Rightarrow> Some (Some (x_state x), Some err)
           | None \<Rightarrow> None)"

fun setupFlow_registered :: "event \<Rightarrow> bool" where
  "setupFlow_registered CtxDone = True"
| "setupFlow_registered (FlowSignalStateChange val) = True"
| "setupFlow_registered (SetupFlowDone out err) = True"
| "setupFlow_registered _ = False"

fun setupFlowOutput_of :: "event \<Rightarrow> SetupFlowOutput option" where
  "setupFlowOutput_of (SetupFlowDone out err) = out"
| "setupFlowOutput_of _ = None"

fun setupFlowError_of :: "event \<Rightarrow> error option" where
  "setupFlowError_of (SetupFlowDone out err) = err"
| "setupFlowError_of _ = None"

text \<open>\<open>for setupFlowOutput == nil\<close>\<close>

fun setupFlow_loop ::
  "TableMapping list \<Rightarrow> event list \<Rightarrow> exec
     \<Rightarrow> (SetupFlowOutput, CDCFlowWorkflowState option \<times> error option) flow \<times> exec \<times> event list" where
  "setupFlow_loop orig [] x = (Waiting, x, [])"
| "setupFlow_loop orig (e # script) x =
     (if \<not> setupFlow_registered e then setupFlow_loop orig script x
      else case setupSnapshot_exits (setupSnapshot_Select orig e x)
                  (map_option (Errorf ''failed to execute setup workflow'') (setupFlowError_of e)) of
             Some r \<Rightarrow> (Return r, setupSnapshot_Select orig e x, script)
           | None \<Rightarrow>
               (case setupFlowOutput_of e of
                  Some out \<Rightarrow> (Leave out, setupSnapshot_Select orig e x, script)
                | None \<Rightarrow> setupFlow_loop orig script (setupSnapshot_Select orig e x)))"

fun snapshotFlow_registered :: "event \<Rightarrow> bool" where
  "snapshotFlow_registered CtxDone = True"
| "snapshotFlow_registered (FlowSignalStateChange val) = True"
| "snapshotFlow_registered (SnapshotFlowDone err) = True"
| "snapshotFlow_registered _ = False"

fun snapshotDone_of :: "event \<Rightarrow> bool" where
  "snapshotDone_of (SnapshotFlowDone err) = True"
| "snapshotDone_of _ = False"

fun snapshotError_of :: "event \<Rightarrow> error option" where
  "snapshotError_of (SnapshotFlowDone err) = err"
| "snapshotError_of _ = None"

text \<open>\<open>for !snapshotDone\<close>\<close>

fun snapshotFlow_loop ::
  "TableMapping list \<Rightarrow> event list \<Rightarrow> exec
     \<Rightarrow> (unit, CDCFlowWorkflowState option \<times> error option) flow \<times> exec \<times> event list" where
  "snapshotFlow_loop orig [] x = (Waiting, x, [])"
| "snapshotFlow_loop orig (e # script) x =
     (if \<not> snapshotFlow_registered e then snapshotFlow_loop orig script x
      else case setupSnapshot_exits (setupSnapshot_Select orig e x)
                  (map_option (Errorf ''failed to execute snapshot workflow'') (snapshotError_of e)) of
             Some r \<Rightarrow> (Return r, setupSnapshot_Select orig e x, script)
           | None \<Rightarrow>
               if snapshotDone_of e then (Leave (), setupSnapshot_Select orig e x, script)
               else snapshotFlow_loop orig script (setupSnapshot_Select orig e x))"

fun renameTables_registered :: "event \<Rightarrow> bool" where
  "renameTables_registered CtxDone = True"
| "renameTables_registered (FlowSignalStateChange val) = True"
| "renameTables_registered (RenameTablesDone err) = True"
| "renameTables_registered _ = False"

fun renameTablesDone_of :: "event \<Rightarrow> bool" where
  "renameTablesDone_of (RenameTablesDone err) = True"
| "renameTablesDone_of _ = False"

fun renameTablesError_of :: "event \<Rightarrow> error option" where
  "renameTablesError_of (RenameTablesDone err) =
     map_option (Errorf ''failed to execute rename tables activity'') err"
| "renameTablesError_of _ = None"

text \<open>\<open>for !renameTablesDone\<close>\<close>

fun renameTables_loop ::
  "TableMapping list \<Rightarrow> event list \<Rightarrow> exec
     \<Rightarrow> (unit, CDCFlowWorkflowState option \<times> error option) flow \<times> exec \<times> event list" where
  "renameTables_loop orig [] x = (Waiting, x, [])"
| "renameTables_loop orig (e # script) x =
     (if \<not> renameTables_registered e then renameTables_loop orig script x
      else case setupSnapshot_exits (setupSnapshot_Select orig e x) (renameTablesError_of e) of
             Some r \<Rightarrow> (Return r, setupSnapshot_Select orig e x, script)
           | None \<Rightarrow>
               if renameTablesDone_of e then (Leave (), setupSnapshot_Select orig e x, script)
               else renameTables_loop orig script (setupSnapshot_Select orig e x))"

text \<open>
  The phase in its order: the saved copy of the mappings, the suffix, the setup child,
  the snapshot child, the rename, the last status. From the suffix on, and as long as no
  resync request has set it back, \<open>cfg.TableMappings\<close> is the very slice of
  \<open>state.SyncFlowOptions.TableMappings\<close>, so the rename step changes both.
\<close>

definition setupSnapshot_suffix :: "exec \<Rightarrow> exec" where
  "setupSnapshot_suffix x =
     (if cfg_Resync (x_cfg x) then
        (let renamed = map add_resync_suffix (opt_TableMappings (SyncFlowOptions (x_state x)))
         in x\<lparr>x_state := (x_state x)\<lparr>SyncFlowOptions := (SyncFlowOptions (x_state x))
                \<lparr>opt_TableMappings := renamed\<rparr>\<rparr>,
              x_cfg := (x_cfg x)\<lparr>cfg_TableMappings := renamed\<rparr>\<rparr>)
      else x)"

definition setupSnapshot_finish :: "exec \<Rightarrow> result \<times> exec" where
  "setupSnapshot_finish x =
     (let x1 = (if cfg_InitialSnapshotOnly (x_cfg x) then updateStatus STATUS_COMPLETED x
                else updateStatus STATUS_RUNNING x)
      in (Return (Some (x_state x1),
                  Some (ContinueAsNew_CDCFlowWorkflow (x_cfg x1) (x_state x1))), x1))"

definition setupSnapshot_rename :: "TableMapping list \<Rightarrow> event list \<Rightarrow> exec \<Rightarrow> result \<times> exec" where
  "setupSnapshot_rename originalTableMappings script x =
     (if cfg_Resync (x_cfg x) then
        (let mappings = opt_TableMappings (SyncFlowOptions (x_state x));
             renameOpts = \<lparr> ren_FlowJobName = cfg_FlowJobName (x_cfg x),
                            ren_PeerName = cfg_DestinationName (x_cfg x),
                            ren_SyncedAtColName = cfg_SyncedAtColName (x_cfg x),
                            ren_SoftDeleteColName = cfg_SoftDeleteColName (x_cfg x),
                            ren_RenameTableOptions = map rename_option mappings \<rparr>;
             x1 = x\<lparr>x_state := (x_state x)\<lparr>SyncFlowOptions := (SyncFlowOptions (x_state x))
                     \<lparr>opt_TableMappings := map rename_back mappings\<rparr>\<rparr>,
                   x_cfg := (x_cfg x)\<lparr>cfg_TableMappings := map rename_back mappings\<rparr>\<rparr>;
             x2 = issue (RenameTables renameOpts) x1
         in case renameTables_loop originalTableMappings script x2 of
              (Leave u, x3, script') \<Rightarrow> setupSnapshot_finish x3
            | (Return r, x3, script') \<Rightarrow> (Return r, x3)
            | (Waiting, x3, script') \<Rightarrow> (Waiting, x3))
      else setupSnapshot_finish x)"

definition setupSnapshotPhase :: "env \<Rightarrow> event list \<Rightarrow> exec \<Rightarrow> result \<times> exec" where
  "setupSnapshotPhase en script x =
     (let originalTableMappings = cfg_TableMappings (x_cfg x);
          x1 = setupSnapshot_suffix x;
          setupFlowID = GetChildWorkflowID ''setup-flow'' (cfg_FlowJobName (x_cfg x1)) (OriginalRunID en);
          x2 = issue (ExecuteChildWorkflow setupFlowID SetupFlowWorkflow (x_cfg x1)) x1
      in case setupFlow_loop originalTableMappings script x2 of
           (Waiting, x3, script3) \<Rightarrow> (Waiting, x3)
         | (Return r, x3, script3) \<Rightarrow> (Return r, x3)
         | (Leave setupFlowOutput, x3, script3) \<Rightarrow>
            (let x4 = updateStatus STATUS_SNAPSHOT
                        (x3\<lparr>x_state := (x_state x3)\<lparr>SyncFlowOptions := (SyncFlowOptions (x_state x3))
                           \<lparr>opt_SrcTableIdNameMapping := out_SrcTableIdNameMapping setupFlowOutput\<rparr>\<rparr>\<rparr>);
                 snapshotFlowID =
                   GetChildWorkflowID ''snapshot-flow'' (cfg_FlowJobName (x_cfg x4)) (OriginalRunID en);
                 x5 = issue (ExecuteChildWorkflow snapshotFlowID SnapshotFlowWorkflow (x_cfg x4)) x4
             in case snapshotFlow_loop originalTableMappings script3 x5 of
                  (Waiting, x6, script6) \<Rightarrow> (Waiting, x6)
                | (Return r, x6, script6) \<Rightarrow> (Return r, x6)
                | (Leave u, x6, script6) \<Rightarrow> setupSnapshot_rename originalTableMappings script6 x6))"

subsection \<open>The main loop\<close>

text \<open>The local variables of the main loop next to the objects: \<open>finished\<close>,
  \<open>finishedError\<close>, whether the callback of the sync future has run, whether the sleep
  future has been added to the selector, and whether its callback has run.\<close>

record mainLoop =
  m_exec :: exec
  finished :: bool
  finishedError :: bool
  syncFlowFuture_fired :: bool
  sleepFuture_added :: bool
  sleepFuture_fired :: bool

definition Minute :: "64 word" where
  "Minute = 60000000000"

definition Hour :: int where
  "Hour = 3600000000000"

text \<open>The builtin \<open>min\<close> at type \<open>int32\<close>.\<close>

definition min_int32 :: "32 word \<Rightarrow> 32 word \<Rightarrow> 32 word" where
  "min_int32 a b = (if sint a < sint b then a else b)"

text \<open>\<open>sleepFor\<close>: the sum is computed in \<open>int32\<close>, converted to
  \<open>time.Duration\<close> (an \<open>int64\<close> of nanoseconds) and multiplied by \<open>time.Minute\<close>.\<close>

definition sleepFor_of :: "32 word \<Rightarrow> sync_failure \<Rightarrow> 64 word" where
  "sleepFor_of errorCount err =
     (if as_PanicError err then scast (10 + min_int32 errorCount 3 * 15) * Minute
      else if \<not> IsApplicationError err \<or> strings_Contains (Error_text err) ''(SQLSTATE 55006)''
      then scast (1 + min_int32 errorCount 9) * Minute
      else scast (5 + min_int32 errorCount 5 * 15) * Minute)"

definition syncFlowFuture_callback :: "sync_failure option \<Rightarrow> time \<Rightarrow> mainLoop \<Rightarrow> mainLoop" where
  "syncFlowFuture_callback failure now m =
     (case failure of
        Some err \<Rightarrow>
          if finished m \<or> is_ErrCanceled err then m
          else
            (let st = x_state (m_exec m);
                 st1 = (if LastError st + 24 * Hour < now then st\<lparr>ErrorCount := 0\<rparr> else st);
                 st2 = st1\<lparr>LastError := now\<rparr>;
                 sleepFor = sleepFor_of (ErrorCount st2) err
             in m\<lparr>m_exec := issue (SleepFuture sleepFor) ((m_exec m)\<lparr>x_state := st2\<rparr>),
                  sleepFuture_added := True\<rparr>)
      | None \<Rightarrow>
          m\<lparr>finished := True,
            m_exec := (if opt_NumberOfSyncs (SyncFlowOptions (x_state (m_exec m))) > 0
                       then (m_exec m)\<lparr>x_state := (x_state (m_exec m))\<lparr>ActiveSignal := PauseSignal\<rparr>\<rparr>
                       else m_exec m)\<rparr>)"

definition sleepFuture_callback :: "mainLoop \<Rightarrow> mainLoop" where
  "sleepFuture_callback m =
     m\<lparr>finished := True, finishedError := True,
       m_exec := (if opt_NumberOfSyncs (SyncFlowOptions (x_state (m_exec m))) > 0
                  then (m_exec m)\<lparr>x_state := (x_state (m_exec m))\<lparr>ActiveSignal := PauseSignal\<rparr>\<rparr>
                  else m_exec m)\<rparr>"

definition mainLoop_FlowSignal :: "env \<Rightarrow> CDCFlowSignal \<Rightarrow> mainLoop \<Rightarrow> mainLoop" where
  "mainLoop_FlowSignal en val m =
     (let x = (m_exec m)\<lparr>x_state := (x_state (m_exec m))
                \<lparr>ActiveSignal := FlowSignalHandler en (ActiveSignal (x_state (m_exec m))) val\<rparr>\<rparr>
      in if ActiveSignal (x_state x) = PauseSignal then m\<lparr>m_exec := x, finished := True\<rparr>
         else m\<lparr>m_exec := x\<rparr>)"

definition mainLoop_FlowSignalStateChange :: "FlowStateChangeRequest \<Rightarrow> exec \<Rightarrow> exec" where
  "mainLoop_FlowSignalStateChange val x =
     (case req_RequestedFlowState val of
        STATUS_TERMINATING \<Rightarrow>
          (let x1 = x\<lparr>x_state := (x_state x)\<lparr>ActiveSignal := TerminateSignal\<rparr>\<rparr>;
               dropCfg = fst (syncStateToConfigProtoInCatalog x1);
               x2 = snd (syncStateToConfigProtoInCatalog x1)
           in x2\<lparr>x_state := (x_state x2)\<lparr>DropFlowInput := Some
                \<lparr> drop_FlowJobName = cfg_FlowJobName dropCfg,
                  drop_FlowConnectionConfigs = Some dropCfg,
                  drop_DropFlowStats = req_DropMirrorStats val,
                  drop_SkipDestinationDrop = req_SkipDestinationDrop val,
                  drop_Resync = False \<rparr>\<rparr>\<rparr>)
      | STATUS_RESYNC \<Rightarrow>
          (let x1 = x\<lparr>x_state := (x_state x)\<lparr>ActiveSignal := ResyncSignal\<rparr>,
                      x_cfg := (x_cfg x)\<lparr>cfg_Resync := True, cfg_DoInitialSnapshot := True\<rparr>\<rparr>;
               resyncCfg = fst (syncStateToConfigProtoInCatalog x1);
               x2 = snd (syncStateToConfigProtoInCatalog x1)
           in x2\<lparr>x_state := (x_state x2)\<lparr>DropFlowInput := Some
                \<lparr> drop_FlowJobName = cfg_FlowJobName resyncCfg,
                  drop_FlowConnectionConfigs = Some resyncCfg,
                  drop_DropFlowStats = req_DropMirrorStats val,
                  drop_SkipDestinationDrop = req_SkipDestinationDrop val,
                  drop_Resync = True \<rparr>\<rparr>\<rparr>)
      | _ \<Rightarrow> x)"

text \<open>One \<open>Select\<close> of the selector \<open>MainLoop\<close>. A future fires once, and the sleep
  future only after it has been added; any other event is not delivered.\<close>

fun mainLoop_Select :: "env \<Rightarrow> event \<Rightarrow> mainLoop \<Rightarrow> mainLoop" where
  "mainLoop_Select en CtxDone m = m\<lparr>m_exec := (m_exec m)\<lparr>x_canceled := True\<rparr>, finished := True\<rparr>"
| "mainLoop_Select en (SyncFlowDone failure now) m =
     (if syncFlowFuture_fired m then m
      else syncFlowFuture_callback failure now (m\<lparr>syncFlowFuture_fired := True\<rparr>))"
| "mainLoop_Select en SleepFired m =
     (if sleepFuture_added m \<and> \<not> sleepFuture_fired m
      then sleepFuture_callback (m\<lparr>sleepFuture_fired := True\<rparr>) else m)"
| "mainLoop_Select en (FlowSignal val) m = mainLoop_FlowSignal en val m"
| "mainLoop_Select en (FlowSignalStateChange val) m =
     m\<lparr>m_exec := mainLoop_FlowSignalStateChange val (m_exec m), finished := True\<rparr>"
| "mainLoop_Select en (CDCDynamicPropertiesSignal cdcConfigUpdate) m =
     m\<lparr>m_exec := (m_exec m)\<lparr>x_state := (x_state (m_exec m))
         \<lparr>FlowConfigUpdate := Some cdcConfigUpdate\<rparr>\<rparr>\<rparr>"
| "mainLoop_Select en _ m = m"

fun is_SelectorIdle :: "event \<Rightarrow> bool" where
  "is_SelectorIdle (SelectorIdle b) = True"
| "is_SelectorIdle _ = False"

fun is_SyncFlowDone :: "event \<Rightarrow> bool" where
  "is_SyncFlowDone (SyncFlowDone failure now) = True"
| "is_SyncFlowDone _ = False"

text \<open>\<open>for ctx.Err() == nil && mainLoopSelector.HasPending() { Select }\<close>: a context
  found cancelled ends the loop before the next \<open>Select\<close>.\<close>

fun mainLoop_drain :: "env \<Rightarrow> event list \<Rightarrow> mainLoop \<Rightarrow> mainLoop \<times> event list" where
  "mainLoop_drain en [] m = (m, [])"
| "mainLoop_drain en (e # script) m =
     (if x_canceled (m_exec m) \<or> is_SelectorIdle e then (m, e # script)
      else if e = CtxDone then (m\<lparr>m_exec := (m_exec m)\<lparr>x_canceled := True\<rparr>\<rparr>, script)
      else mainLoop_drain en script (mainLoop_Select en e m))"

text \<open>\<open>ShouldWorkflowContinueAsNew\<close>, asked where the selector has gone idle.\<close>

fun ShouldWorkflowContinueAsNew :: "event list \<Rightarrow> bool" where
  "ShouldWorkflowContinueAsNew (SelectorIdle b # script) = b"
| "ShouldWorkflowContinueAsNew _ = False"

fun after_idle :: "event list \<Rightarrow> event list" where
  "after_idle (SelectorIdle b # script) = script"
| "after_idle script = script"

text \<open>
  \<open>syncFlowFuture.Get\<close> after \<open>cancelSync\<close>: it returns once the future is ready. What
  arrives until then waits in the selector (no callback runs inside \<open>Get\<close>); a
  cancellation among it leaves the context cancelled when \<open>Get\<close> returns.
\<close>

definition syncFlowFuture_Get :: "event list \<Rightarrow> mainLoop \<Rightarrow> (unit, unit) flow \<times> mainLoop \<times> event list" where
  "syncFlowFuture_Get script m =
     (if syncFlowFuture_fired m then (Leave (), m, script)
      else case dropWhile (\<lambda>e. \<not> is_SyncFlowDone e) script of
             [] \<Rightarrow> (Waiting, m, [])
           | d # rest \<Rightarrow>
               (let arrived = takeWhile (\<lambda>e. \<not> is_SyncFlowDone e) script
                in if CtxDone \<in> set arrived
                   then (Leave (), m\<lparr>m_exec := (m_exec m)\<lparr>x_canceled := True\<rparr>\<rparr>, d # rest)
                   else (Leave (), m, filter (\<lambda>e. \<not> is_SelectorIdle e) arrived @ d # rest)))"

text \<open>The block \<open>if finished\<close>.\<close>

definition mainLoop_finish :: "env \<Rightarrow> event list \<Rightarrow> mainLoop \<Rightarrow> result \<times> mainLoop" where
  "mainLoop_finish en script m =
     (case syncFlowFuture_Get script (m\<lparr>m_exec := issue CancelSync (m_exec m)\<rparr>) of
        (Leave u, m1, script1) \<Rightarrow>
          (let m2 = fst (mainLoop_drain en script1 m1)
           in if x_canceled (m_exec m2) then
                (Return (None, Some ErrCanceled),
                 m2\<lparr>m_exec := updateStatus STATUS_TERMINATED (m_exec m2)\<rparr>)
              else
                (let st = x_state (m_exec m2);
                     st1 = (if finishedError m2 then st\<lparr>ErrorCount := ErrorCount st + 1\<rparr>
                            else st\<lparr>ErrorCount := 0\<rparr>);
                     m3 = m2\<lparr>m_exec := (m_exec m2)\<lparr>x_state := st1\<rparr>\<rparr>
                 in if ActiveSignal st1 = TerminateSignal \<or> ActiveSignal st1 = ResyncSignal then
                      (Return (Some st1, Some (ContinueAsNew_DropFlowWorkflow (DropFlowInput st1))), m3)
                    else
                      (Return (Some st1, Some (ContinueAsNew_CDCFlowWorkflow (x_cfg (m_exec m3)) st1)), m3)))
      | (other, m1, script1) \<Rightarrow> (Waiting, m1))"

lemma mainLoop_drain_length: "length (snd (mainLoop_drain en script m)) \<le> length script"
  by (induction script arbitrary: m) (auto intro: le_SucI)

lemma after_idle_length: "length (after_idle script) \<le> length script"
  by (cases script rule: after_idle.cases) auto

function mainLoop_run :: "env \<Rightarrow> event list \<Rightarrow> mainLoop \<Rightarrow> result \<times> mainLoop" where
  "mainLoop_run en script m =
     (case dropWhile is_SelectorIdle script of
        [] \<Rightarrow> (Waiting, m)
      | e # script1 \<Rightarrow>
         (let m1 = mainLoop_Select en e m;
              m2 = fst (mainLoop_drain en script1 m1);
              script2 = snd (mainLoop_drain en script1 m1)
          in if x_canceled (m_exec m2) then
               (Return (Some (x_state (m_exec m2)), Some ErrCanceled), m2)
             else
               (let m3 = (if ShouldWorkflowContinueAsNew script2 then m2\<lparr>finished := True\<rparr> else m2)
                in if finished m3 then mainLoop_finish en (after_idle script2) m3
                   else mainLoop_run en (after_idle script2) m3)))"
  by pat_completeness auto
termination
proof (relation "measure (\<lambda>(en, script, m). length script)")
  show "wf (measure (\<lambda>(en :: env, script :: event list, m :: mainLoop). length script))"
    by simp
next
  fix en :: env and script :: "event list" and m :: mainLoop and e script1 m1 m2 script2 m3
  assume d: "dropWhile is_SelectorIdle script = e # script1"
    and s2: "script2 = snd (mainLoop_drain en script1 m1)"
  have "length (after_idle script2) \<le> length script1"
    using after_idle_length [of script2] mainLoop_drain_length [of en script1 m1] s2 by simp
  moreover have "length (e # script1) \<le> length script"
    using length_dropWhile_le [of is_SelectorIdle script] d by simp
  ultimately show "((en, after_idle script2, m3), en, script, m) \<in> measure (\<lambda>(en, script, m). length script)"
    by simp
qed

definition mainPhase :: "env \<Rightarrow> event list \<Rightarrow> exec \<Rightarrow> result \<times> exec" where
  "mainPhase en script x =
     (let x1 = issue (SyncFlow (x_cfg x) (SyncFlowOptions (x_state x))) x;
          x2 = updateStatus STATUS_RUNNING x1;
          r = mainLoop_run en script
                \<lparr> m_exec = x2, finished = False, finishedError = False,
                  syncFlowFuture_fired = False, sleepFuture_added = False, sleepFuture_fired = False \<rparr>
      in (fst r, m_exec (snd r)))"

subsection \<open>The workflow\<close>

text \<open>
  Modelled from the spec: the names \<open>shared.CDCFlowStateQuery\<close> and
  \<open>shared.FlowStatusQuery\<close> (package \<open>shared\<close> is not in the sources at hand);
  section 6 gives the two strings.
\<close>

definition CDCFlowStateQuery :: string where
  "CDCFlowStateQuery = ''cdc-flow-state''"

definition FlowStatusQuery :: string where
  "FlowStatusQuery = ''flow-status''"

text \<open>What a run leaves: its result (or \<open>Waiting\<close>), the calls it has issued in their
  order, and the state object as it stands (\<open>None\<close> when none was passed or created).\<close>

definition leaving :: "result \<times> exec \<Rightarrow> result \<times> call list \<times> CDCFlowWorkflowState option" where
  "leaving r = (fst r, x_calls (snd r), Some (x_state (snd r)))"

definition CDCFlowWorkflow ::
  "env \<Rightarrow> event list \<Rightarrow> FlowConnectionConfigs option \<Rightarrow> CDCFlowWorkflowState option
     \<Rightarrow> result \<times> call list \<times> CDCFlowWorkflowState option" where
  "CDCFlowWorkflow en script cfg0 state0 =
     (case cfg0 of
        None \<Rightarrow> (Return (None, Some (ErrorsNew ''invalid connection configs'')), [], state0)
      | Some c \<Rightarrow>
         (let new = (case state0 of None \<Rightarrow> NewCDCFlowWorkflowState c | Some s \<Rightarrow> (s, []));
              x0 = \<lparr> x_cfg = c, x_state = fst new, x_calls = snd new, x_canceled = False \<rparr>;
              x1 = issue (SetQueryHandler CDCFlowStateQuery) x0
          in case SetQueryHandler_result en CDCFlowStateQuery of
               Some err \<Rightarrow>
                 leaving (Return (Some (x_state x1),
                                  Some (Errorf ''failed to set `cdc-flow-state` query handler'' err)), x1)
             | None \<Rightarrow>
                (let x2 = issue (SetQueryHandler FlowStatusQuery) x1
                 in case SetQueryHandler_result en FlowStatusQuery of
                      Some err \<Rightarrow>
                        leaving (Return (Some (x_state x2),
                                         Some (Errorf ''failed to set `flow-status` query handler'' err)), x2)
                    | None \<Rightarrow>
                        if CurrentFlowStatus (x_state x2) = STATUS_COMPLETED then
                          leaving (Return (Some (x_state x2), None), x2)
                        else if ActiveSignal (x_state x2) = PauseSignal then
                          leaving (pausePhase en script x2)
                        else
                          (let x3 = issue (GetFlowMetadataContext (CurrentFlowStatus (x_state x2))
                                             (cfg_Resync (x_cfg x2))) x2
                           in case GetFlowMetadataContext_result en of
                                Some err \<Rightarrow>
                                  leaving (Return (Some (x_state x3),
                                                   Some (Errorf ''failed to get flow metadata context'' err)), x3)
                              | None \<Rightarrow>
                                  if CurrentFlowStatus (x_state x3) \<noteq> STATUS_RUNNING
                                  then leaving (setupSnapshotPhase en script x3)
                                  else leaving (mainPhase en script x3)))))"

subsection \<open>Status updates in a list of calls\<close>

fun status_of_call :: "call \<Rightarrow> FlowStatus list" where
  "status_of_call (UpdateFlowStatusInCatalog status) = [status]"
| "status_of_call _ = []"

definition status_calls :: "call list \<Rightarrow> FlowStatus list" where
  "status_calls cs = concat (map status_of_call cs)"

subsection \<open>Auxiliary notions for the setup and snapshot phase\<close>

text \<open>Calls that are warnings; two runs that differ by warnings only.\<close>

fun is_LoggerWarn :: "call \<Rightarrow> bool" where
  "is_LoggerWarn (LoggerWarn w) = True"
| "is_LoggerWarn _ = False"

definition more_warnings :: "exec \<Rightarrow> exec \<Rightarrow> bool" where
  "more_warnings x x' = (\<exists>ws. list_all is_LoggerWarn ws \<and> x' = x\<lparr>x_calls := x_calls x @ ws\<rparr>)"

text \<open>The configs uploaded in a list of calls.\<close>

fun config_of_call :: "call \<Rightarrow> FlowConnectionConfigs list" where
  "config_of_call (UpdateCDCConfigInCatalog c) = [c]"
| "config_of_call _ = []"

definition config_uploads :: "call list \<Rightarrow> FlowConnectionConfigs list" where
  "config_uploads cs = concat (map config_of_call cs)"

text \<open>How the setup and snapshot phase is left on a resync request: from the objects
  \<open>x\<close> at the start of one of its loops to the objects \<open>x'\<close> at the return.\<close>

definition resync_exit ::
  "TableMapping list \<Rightarrow> exec \<Rightarrow> exec \<Rightarrow> CDCFlowWorkflowState \<Rightarrow> DropFlowInput option \<Rightarrow> bool" where
  "resync_exit orig x x' st' d =
     (let C = (x_cfg x)\<lparr>cfg_Resync := True, cfg_DoInitialSnapshot := True, cfg_TableMappings := orig\<rparr>
      in x_cfg x' = C \<and> st' = x_state x' \<and> d = DropFlowInput st'
         \<and> SyncFlowOptions st' = SyncFlowOptions (x_state x)
         \<and> (\<exists>ws. list_all is_LoggerWarn ws \<and> x_calls x' = x_calls x @ ws @ [UpdateCDCConfigInCatalog C])
         \<and> (\<exists>stats skip. DropFlowInput st' = Some
               \<lparr> drop_FlowJobName = cfg_FlowJobName C, drop_FlowConnectionConfigs = Some C,
                 drop_DropFlowStats = stats, drop_SkipDestinationDrop = skip, drop_Resync = True \<rparr>))"

text \<open>The calls of a resync pass that runs to its end.\<close>

definition completed_resync_calls ::
  "env \<Rightarrow> FlowConnectionConfigs \<Rightarrow> TableMapping list \<Rightarrow> call list \<Rightarrow> bool" where
  "completed_resync_calls en c suffixed cs =
     (\<exists>ws1 ws2 ws3 status.
        list_all is_LoggerWarn ws1 \<and> list_all is_LoggerWarn ws2 \<and> list_all is_LoggerWarn ws3
      \<and> cs = [ExecuteChildWorkflow (GetChildWorkflowID ''setup-flow'' (cfg_FlowJobName c) (OriginalRunID en))
                 SetupFlowWorkflow (c\<lparr>cfg_TableMappings := suffixed\<rparr>)]
             @ ws1
             @ [UpdateFlowStatusInCatalog STATUS_SNAPSHOT,
                ExecuteChildWorkflow (GetChildWorkflowID ''snapshot-flow'' (cfg_FlowJobName c) (OriginalRunID en))
                  SnapshotFlowWorkflow (c\<lparr>cfg_TableMappings := suffixed\<rparr>)]
             @ ws2
             @ [RenameTables \<lparr> ren_FlowJobName = cfg_FlowJobName c,
                                ren_PeerName = cfg_DestinationName c,
                                ren_SyncedAtColName = cfg_SyncedAtColName c,
                                ren_SoftDeleteColName = cfg_SoftDeleteColName c,
                                ren_RenameTableOptions = map rename_option suffixed \<rparr>]
             @ ws3
             @ [UpdateFlowStatusInCatalog status])"

subsection \<open>Auxiliary notions for the main loop\<close>

text \<open>What the main loop keeps true of the error counter, for the count \<open>e0\<close> and the
  time \<open>t0\<close> of the last error that the state came in with; and what its result then
  says when the flow finishes.\<close>

definition error_count_inv :: "32 word \<Rightarrow> time \<Rightarrow> mainLoop \<Rightarrow> bool" where
  "error_count_inv e0 t0 m =
     (finishedError m = sleepFuture_fired m
      \<and> (if sleepFuture_added m
          then syncFlowFuture_fired m
               \<and> ErrorCount (x_state (m_exec m))
                   = (if t0 + 24 * Hour < LastError (x_state (m_exec m)) then 0 else e0)
          else \<not> sleepFuture_fired m
               \<and> ErrorCount (x_state (m_exec m)) = e0 \<and> LastError (x_state (m_exec m)) = t0))"

definition finish_counts :: "32 word \<Rightarrow> time \<Rightarrow> result \<Rightarrow> mainLoop \<Rightarrow> bool" where
  "finish_counts e0 t0 r m' =
     (\<forall>st' err. r = Return (Some st', Some err) \<and> err \<noteq> ErrCanceled \<longrightarrow>
        st' = x_state (m_exec m') \<and> finishedError m' = sleepFuture_fired m'
      \<and> ErrorCount st' = (if sleepFuture_fired m'
                           then (if t0 + 24 * Hour < LastError st' then 0 else e0) + 1
                           else 0))"

text \<open>Where the main loop stands once a result of the sync has been delivered: finished
  with no error pending; with the sleep of an error registered and not yet fired, the
  count being \<open>ec\<close>; finished after that sleep has fired. The context is not cancelled
  in any of them.\<close>

definition clean_done :: "mainLoop \<Rightarrow> bool" where
  "clean_done m = (finished m \<and> syncFlowFuture_fired m \<and> \<not> sleepFuture_added m
                   \<and> \<not> finishedError m \<and> \<not> x_canceled (m_exec m))"

definition sleep_pending :: "32 word \<Rightarrow> mainLoop \<Rightarrow> bool" where
  "sleep_pending ec m = (syncFlowFuture_fired m \<and> sleepFuture_added m \<and> \<not> sleepFuture_fired m
                         \<and> \<not> x_canceled (m_exec m) \<and> ErrorCount (x_state (m_exec m)) = ec)"

definition error_done :: "32 word \<Rightarrow> mainLoop \<Rightarrow> bool" where
  "error_done ec m = (finished m \<and> syncFlowFuture_fired m \<and> finishedError m
                      \<and> \<not> x_canceled (m_exec m) \<and> ErrorCount (x_state (m_exec m)) = ec)"

subsection \<open>Auxiliary notions for the status\<close>

text \<open>
  From the objects \<open>x\<close> to the objects \<open>x'\<close> later in the same run: the status
  updates issued in between are all in \<open>S\<close>, and the status of the state is the last
  of them, or the status it had when there was none.
\<close>

definition status_trail :: "FlowStatus set \<Rightarrow> exec \<Rightarrow> exec \<Rightarrow> bool" where
  "status_trail S x x' =
     (\<exists>sts. set sts \<subseteq> S
          \<and> status_calls (x_calls x') = status_calls (x_calls x) @ sts
          \<and> CurrentFlowStatus (x_state x') = last (CurrentFlowStatus (x_state x) # sts))"

text \<open>A nil result of the main loop comes with the cancellation error, after status
  Terminated has been written and sent.\<close>

definition nil_result_terminated :: "result \<Rightarrow> mainLoop \<Rightarrow> bool" where
  "nil_result_terminated r m' =
     (\<forall>err. r = Return (None, err) \<longrightarrow>
        err = Some ErrCanceled
      \<and> CurrentFlowStatus (x_state (m_exec m')) = STATUS_TERMINATED
      \<and> x_calls (m_exec m') \<noteq> []
      \<and> last (x_calls (m_exec m')) = UpdateFlowStatusInCatalog STATUS_TERMINATED)"

text \<open>The objects at the entry of \<open>CDCFlowWorkflow\<close>, once the state is there.\<close>

definition entry_exec :: "FlowConnectionConfigs \<Rightarrow> CDCFlowWorkflowState option \<Rightarrow> exec" where
  "entry_exec c state0 =
     (let new = (case state0 of None \<Rightarrow> NewCDCFlowWorkflowState c | Some s \<Rightarrow> (s, []))
      in \<lparr> x_cfg = c, x_state = fst new, x_calls = snd new, x_canceled = False \<rparr>)"

subsection \<open>Example inputs\<close>

definition table_a :: TableMapping where
  "table_a = \<lparr> SourceTableIdentifier = ''public.a'', DestinationTableIdentifier = ''a'',
               Engine = CH_ENGINE_OTHER 0, PartitionKey = [], Exclude = [] \<rparr>"

definition table_b :: TableMapping where
  "table_b = \<lparr> SourceTableIdentifier = ''public.b'', DestinationTableIdentifier = ''b'',
               Engine = CH_ENGINE_OTHER 0, PartitionKey = [], Exclude = [] \<rparr>"

definition table_n :: TableMapping where
  "table_n = \<lparr> SourceTableIdentifier = ''public.n'', DestinationTableIdentifier = ''n'',
               Engine = CH_ENGINE_NULL, PartitionKey = [], Exclude = [] \<rparr>"

definition cfg_m1 :: FlowConnectionConfigs where
  "cfg_m1 = \<lparr> cfg_FlowJobName = ''m1'', cfg_SourceName = ''pg'', cfg_DestinationName = ''ch'',
              cfg_TableMappings = [table_a, table_n], cfg_MaxBatchSize = 1000,
              cfg_IdleTimeoutSeconds = 60, cfg_DoInitialSnapshot = True,
              cfg_InitialSnapshotOnly = False, cfg_Resync = False,
              cfg_SyncedAtColName = ''_synced'', cfg_SoftDeleteColName = ''_deleted'',
              cfg_Env = None, cfg_SnapshotNumRowsPerPartition = 100000,
              cfg_SnapshotMaxParallelWorkers = 4, cfg_SnapshotNumTablesInParallel = 1 \<rparr>"

definition state_m1 :: CDCFlowWorkflowState where
  "state_m1 = \<lparr> FlowConfigUpdate = None,
                SyncFlowOptions = \<lparr> opt_BatchSize = 1000, opt_IdleTimeoutSeconds = 60,
                                     opt_TableMappings = [table_a, table_n], opt_NumberOfSyncs = 0,
                                     opt_SrcTableIdNameMapping = Some [(1, ''public.a''), (2, ''public.n'')] \<rparr>,
                DropFlowInput = None, LastError = 0, ErrorCount = 2,
                ActiveSignal = NoopSignal, CurrentFlowStatus = STATUS_RUNNING,
                SnapshotNumRowsPerPartition = 100000, SnapshotMaxParallelWorkers = 4,
                SnapshotNumTablesInParallel = 1 \<rparr>"

definition env_ok :: env where
  "env_ok = \<lparr> FlowSignalHandler = (\<lambda>activeSignal v. v),
              SetQueryHandler_result = (\<lambda>name. None),
              GetFlowMetadataContext_result = None,
              OriginalRunID = ''run'',
              GetUUID = ''uuid'',
              AddTablesToPublication_result = None,
              RemoveTablesFromPublication_result = None,
              RemoveTablesFromRawTable_result = None,
              RemoveTablesFromCatalog_result = None \<rparr>"

definition exec_m1 :: exec where
  "exec_m1 = \<lparr> x_cfg = cfg_m1, x_state = state_m1, x_calls = [], x_canceled = False \<rparr>"

definition mainLoop_m1 :: mainLoop where
  "mainLoop_m1 = \<lparr> m_exec = exec_m1, finished = False, finishedError = False,
                   syncFlowFuture_fired = False, sleepFuture_added = False,
                   sleepFuture_fired = False \<rparr>"

definition panic_failure :: sync_failure where
  "panic_failure = \<lparr> is_ErrCanceled = False, as_PanicError = True, IsApplicationError = False,
                     Error_text = ''panic'' \<rparr>"

definition update_add_b :: CDCFlowConfigUpdate where
  "update_add_b = \<lparr> upd_AdditionalTables = [table_b], upd_RemovedTables = [], upd_BatchSize = 0,
                    upd_IdleTimeout = 0, upd_NumberOfSyncs = 0, upd_UpdatedEnv = None,
                    upd_SnapshotNumRowsPerPartition = 0, upd_SnapshotMaxParallelWorkers = 0,
                    upd_SnapshotNumTablesInParallel = 0 \<rparr>"

definition update_remove_n :: CDCFlowConfigUpdate where
  "update_remove_n = \<lparr> upd_AdditionalTables = [], upd_RemovedTables = [table_n], upd_BatchSize = 0,
                       upd_IdleTimeout = 0, upd_NumberOfSyncs = 0, upd_UpdatedEnv = None,
                       upd_SnapshotNumRowsPerPartition = 0, upd_SnapshotMaxParallelWorkers = 0,
                       upd_SnapshotNumTablesInParallel = 0 \<rparr>"

definition resync_request :: FlowStateChangeRequest where
  "resync_request = \<lparr> req_RequestedFlowState = STATUS_RESYNC, req_DropMirrorStats = False,
                      req_SkipDestinationDrop = False \<rparr>"

definition terminate_request :: FlowStateChangeRequest where
  "terminate_request = \<lparr> req_RequestedFlowState = STATUS_TERMINATING, req_DropMirrorStats = True,
                         req_SkipDestinationDrop = False \<rparr>"

text \<open>The three removal activities in their order, and the state after a removal.\<close>

definition removal_calls :: "FlowConnectionConfigs \<Rightarrow> TableMapping list \<Rightarrow> call list" where
  "removal_calls c removed =
     [RemoveTablesFromPublication c removed, RemoveTablesFromRawTable c removed,
      RemoveTablesFromCatalog c removed]"

definition removed_gone :: "TableMapping list \<Rightarrow> CDCFlowWorkflowState \<Rightarrow> bool" where
  "removed_gone removed st =
     ((\<forall>tm \<in> set (opt_TableMappings (SyncFlowOptions st)).
          SourceTableIdentifier tm \<notin> SourceTableIdentifier ` set removed)
      \<and> (\<forall>m. opt_SrcTableIdNameMapping (SyncFlowOptions st) = Some m \<longrightarrow>
            (\<forall>(k, v) \<in> set m. v \<notin> SourceTableIdentifier ` set removed)))"

definition paused_with :: "CDCFlowConfigUpdate \<Rightarrow> exec" where
  "paused_with u = exec_m1\<lparr>x_state := state_m1\<lparr>FlowConfigUpdate := Some u,
                     ActiveSignal := PauseSignal, CurrentFlowStatus := STATUS_PAUSED\<rparr>\<rparr>"

definition child_b :: CDCFlowWorkflowState where
  "child_b = \<lparr> FlowConfigUpdate = None,
               SyncFlowOptions = \<lparr> opt_BatchSize = 1000, opt_IdleTimeoutSeconds = 60,
                                    opt_TableMappings = [table_b], opt_NumberOfSyncs = 0,
                                    opt_SrcTableIdNameMapping = Some [(3, ''public.b'')] \<rparr>,
               DropFlowInput = None, LastError = 0, ErrorCount = 0,
               ActiveSignal = NoopSignal, CurrentFlowStatus = STATUS_COMPLETED,
               SnapshotNumRowsPerPartition = 100000, SnapshotMaxParallelWorkers = 4,
               SnapshotNumTablesInParallel = 1 \<rparr>"

definition cfg_resync :: FlowConnectionConfigs where
  "cfg_resync = cfg_m1\<lparr>cfg_Resync := True\<rparr>"

definition exec_resync :: exec where
  "exec_resync = \<lparr> x_cfg = cfg_resync, x_state = fst (NewCDCFlowWorkflowState cfg_resync),
                    x_calls = [], x_canceled = False \<rparr>"

definition setup_output :: SetupFlowOutput where
  "setup_output = \<lparr> out_SrcTableIdNameMapping = Some [(1, ''public.a''), (2, ''public.n'')] \<rparr>"

definition script_resync :: "event list" where
  "script_resync = [SetupFlowDone (Some setup_output) None, SnapshotFlowDone None, RenameTablesDone None]"

definition state_after_resync :: CDCFlowWorkflowState where
  "state_after_resync =
     (fst (NewCDCFlowWorkflowState cfg_resync))
       \<lparr> SyncFlowOptions := (SyncFlowOptions (fst (NewCDCFlowWorkflowState cfg_resync)))
             \<lparr>opt_SrcTableIdNameMapping := out_SrcTableIdNameMapping setup_output\<rparr>,
         CurrentFlowStatus := STATUS_RUNNING \<rparr>"

definition drop_resync_m1 :: DropFlowInput where
  "drop_resync_m1 = \<lparr> drop_FlowJobName = ''m1'', drop_FlowConnectionConfigs = Some cfg_resync,
                       drop_DropFlowStats = False, drop_SkipDestinationDrop = False,
                       drop_Resync = True \<rparr>"

definition state_nested_resync :: CDCFlowWorkflowState where
  "state_nested_resync =
     (fst (NewCDCFlowWorkflowState cfg_resync))
       \<lparr> SyncFlowOptions := (SyncFlowOptions (fst (NewCDCFlowWorkflowState cfg_resync)))
             \<lparr>opt_TableMappings := map add_resync_suffix [table_a, table_n]\<rparr>,
         DropFlowInput := Some drop_resync_m1,
         ActiveSignal := ResyncSignal \<rparr>"

definition script_error :: "event list" where
  "script_error = [SyncFlowDone (Some panic_failure) 1, SleepFired, SelectorIdle False]"

definition state_after_error :: CDCFlowWorkflowState where
  "state_after_error = state_m1\<lparr>LastError := 1, ErrorCount := 3\<rparr>"

definition state_paused :: CDCFlowWorkflowState where
  "state_paused = state_m1\<lparr>ActiveSignal := PauseSignal\<rparr>"

definition canceled_failure :: sync_failure where
  "canceled_failure = \<lparr> is_ErrCanceled = True, as_PanicError = False, IsApplicationError = False,
                        Error_text = ''canceled'' \<rparr>"

definition script_cancel_late :: "event list" where
  "script_cancel_late = [FlowSignalStateChange terminate_request, SelectorIdle False, CtxDone,
                         SyncFlowDone (Some canceled_failure) 5]"

definition mainLoop_count :: "32 word \<Rightarrow> mainLoop" where
  "mainLoop_count ec = mainLoop_m1\<lparr>m_exec := exec_m1\<lparr>x_state := state_m1\<lparr>ErrorCount := ec\<rparr>\<rparr>\<rparr>"

definition script_clean :: "event list" where
  "script_clean = [SyncFlowDone None 1, SelectorIdle False]"

definition state_after_clean :: CDCFlowWorkflowState where
  "state_after_clean = state_m1\<lparr>ErrorCount := 0\<rparr>"

section \<open>Properties\<close>

subsection \<open>The primitives\<close>

lemma issue_simps [simp]:
  "x_state (issue c x) = x_state x" "x_cfg (issue c x) = x_cfg x"
  "x_canceled (issue c x) = x_canceled x" "x_calls (issue c x) = x_calls x @ [c]"
  by (simp_all add: issue_def)

lemma updateStatus_simps [simp]:
  "x_state (updateStatus s x) = (x_state x)\<lparr>CurrentFlowStatus := s\<rparr>"
  "x_cfg (updateStatus s x) = x_cfg x"
  "x_canceled (updateStatus s x) = x_canceled x"
  "x_calls (updateStatus s x) = x_calls x @ [UpdateFlowStatusInCatalog s]"
  by (simp_all add: updateStatus_def syncStatusToCatalog_def Let_def)

lemma syncStateToConfigProtoInCatalog_simps [simp]:
  "fst (syncStateToConfigProtoInCatalog x) = updateFlowConfigWithLatestSettings (x_cfg x) (x_state x)"
  "x_state (snd (syncStateToConfigProtoInCatalog x)) = x_state x"
  "x_cfg (snd (syncStateToConfigProtoInCatalog x)) = x_cfg x"
  "x_canceled (snd (syncStateToConfigProtoInCatalog x)) = x_canceled x"
  "x_calls (snd (syncStateToConfigProtoInCatalog x)) =
     x_calls x @ [UpdateCDCConfigInCatalog (updateFlowConfigWithLatestSettings (x_cfg x) (x_state x))]"
  by (simp_all add: syncStateToConfigProtoInCatalog_def uploadConfigToCatalog_def Let_def)


subsection \<open>A nil config\<close>

text \<open>
  C10. Called with a nil config, \<open>CDCFlowWorkflow\<close> returns a nil result and the error
  \<open>invalid connection configs\<close> at once: it issues no call (no query handler, no child
  workflow, no activity, no catalog write) and creates no state. This holds whatever the
  environment, the events and the state argument are.
\<close>

theorem CDCFlowWorkflow_nil_config:
  "CDCFlowWorkflow en script None state0 =
     (Return (None, Some (ErrorsNew ''invalid connection configs'')), [], state0)"
  by (simp add: CDCFlowWorkflow_def)

theorem CDCFlowWorkflow_nil_config_witness:
  "CDCFlowWorkflow env_ok [CtxDone] None None =
     (Return (None, Some (ErrorsNew ''invalid connection configs'')), [], None)"
  using CDCFlowWorkflow_nil_config [of env_ok "[CtxDone]" None] by simp

subsection \<open>The sleep after a failed sync\<close>

lemma sint_Minute: "sint Minute = 60000000000"
  by (simp add: Minute_def)

lemma sint_int32_of_int: "sint (word_of_int k :: 32 word) = signed_take_bit 31 k"
  by (simp add: sint_sbintrunc')

lemma sint_linear_int32:
  fixes k :: "32 word"
  shows "sint (a + k * b) = signed_take_bit 31 (sint a + sint k * sint b)"
proof -
  have "a + k * b = word_of_int (sint a + sint k * sint b)"
    by simp
  then show ?thesis
    by (simp only: sint_int32_of_int)
qed

lemma sint_Duration_Minute:
  fixes w :: "32 word"
  shows "sint (scast w * Minute :: 64 word) = signed_take_bit 63 (sint w * sint Minute)"
  by (simp add: sint_word_mult sint_up_scast is_up)

lemma min_int32_sint: "sint (min_int32 a b) = min (sint a) (sint b)"
  by (simp add: min_int32_def min_def)

lemma sleepFor_of_wraps:
  "sint (sleepFor_of ec err) =
     signed_take_bit 63
       (signed_take_bit 31
          (if as_PanicError err then 10 + min (sint ec) 3 * 15
           else if \<not> IsApplicationError err \<or> strings_Contains (Error_text err) ''(SQLSTATE 55006)''
           then 1 + min (sint ec) 9
           else 5 + min (sint ec) 5 * 15) * sint Minute)"
proof -
  have p: "sint (10 + min_int32 ec 3 * 15) = signed_take_bit 31 (10 + min (sint ec) 3 * 15)"
    using sint_linear_int32 [of 10 "min_int32 ec 3" 15] by (simp add: min_int32_sint)
  have s: "sint (1 + min_int32 ec 9) = signed_take_bit 31 (1 + min (sint ec) 9)"
    using sint_linear_int32 [of 1 "min_int32 ec 9" 1] by (simp add: min_int32_sint)
  have a: "sint (5 + min_int32 ec 5 * 15) = signed_take_bit 31 (5 + min (sint ec) 5 * 15)"
    using sint_linear_int32 [of 5 "min_int32 ec 5" 15] by (simp add: min_int32_sint)
  show ?thesis
    by (simp add: sleepFor_of_def sint_Duration_Minute p s a)
qed

lemma wraps_exact_iff:
  fixes k :: int
  assumes "k \<le> 80"
  shows "signed_take_bit 63 (signed_take_bit 31 k * 60000000000) = k * 60000000000
           \<longleftrightarrow> - 153722867 \<le> k"
proof
  assume "- 153722867 \<le> k"
  with assms have "signed_take_bit 31 k = k"
    by (intro signed_take_bit_int_eq_self) simp_all
  moreover have "signed_take_bit 63 (k * 60000000000) = k * 60000000000"
    using assms \<open>- 153722867 \<le> k\<close> by (intro signed_take_bit_int_eq_self) simp_all
  ultimately show "signed_take_bit 63 (signed_take_bit 31 k * 60000000000) = k * 60000000000"
    by simp
next
  assume e: "signed_take_bit 63 (signed_take_bit 31 k * 60000000000) = k * 60000000000"
  have "- (2 ^ 63) \<le> signed_take_bit 63 (signed_take_bit 31 k * 60000000000)"
    by (rule signed_take_bit_int_greater_eq_minus_exp)
  with e have "- 9223372036854775808 \<le> k * 60000000000"
    by simp
  then show "- 153722867 \<le> k"
    by simp
qed


lemma minutes_bound:
  fixes e :: int
  shows "- 153722867 \<le> 10 + min e 3 * 15 \<longleftrightarrow> - 10248191 \<le> e"
    and "- 153722867 \<le> 1 + min e 9 \<longleftrightarrow> - 153722868 \<le> e"
    and "- 153722867 \<le> 5 + min e 5 * 15 \<longleftrightarrow> - 10248191 \<le> e"
  by (auto simp: min_def)

lemma sleepFor_of_exact_iff:
  fixes ec :: "32 word" and err :: sync_failure
  defines "minutes \<equiv> (if as_PanicError err then 10 + min (sint ec) 3 * 15
            else if \<not> IsApplicationError err \<or> strings_Contains (Error_text err) ''(SQLSTATE 55006)''
            then 1 + min (sint ec) 9
            else 5 + min (sint ec) 5 * 15)"
  shows "sint (sleepFor_of ec err) = minutes * sint Minute
           \<longleftrightarrow> (if \<not> as_PanicError err
                    \<and> (\<not> IsApplicationError err \<or> strings_Contains (Error_text err) ''(SQLSTATE 55006)'')
                 then - 153722868 else - 10248191) \<le> sint ec"
proof -
  have r: "minutes \<le> 80"
    by (auto simp: minutes_def min_def)
  have "sint (sleepFor_of ec err) = signed_take_bit 63 (signed_take_bit 31 minutes * 60000000000)"
    unfolding minutes_def sleepFor_of_wraps sint_Minute ..
  then have "sint (sleepFor_of ec err) = minutes * sint Minute \<longleftrightarrow> - 153722867 \<le> minutes"
    using wraps_exact_iff [OF r] by (simp add: sint_Minute)
  also have "\<dots> \<longleftrightarrow> (if \<not> as_PanicError err
                    \<and> (\<not> IsApplicationError err \<or> strings_Contains (Error_text err) ''(SQLSTATE 55006)'')
                 then - 153722868 else - 10248191) \<le> sint ec"
    using minutes_bound [of "sint ec"] by (auto simp: minutes_def)
  finally show ?thesis .
qed

text \<open>
  C3 (amended). When the selector of the main loop delivers a failed \<open>SyncFlow\<close> (the
  flow not finished, the error not \<open>ErrCanceled\<close>), the callback registers exactly one
  sleep. With \<open>ec\<close> the error count after the 24-hour reset check, its duration is the
  value of \<open>10 + min(ec,3)*15\<close> minutes for a panic, of \<open>1 + min(ec,9)\<close> minutes for an
  error that is no application error or whose text contains \<open>(SQLSTATE 55006)\<close>, and of
  \<open>5 + min(ec,5)*15\<close> minutes for any other application error, as Go computes it: the
  minutes in \<open>int32\<close>, the duration in \<open>int64\<close> nanoseconds, both wrapping around; the
  panic test comes first. The duration is exactly the stated number of minutes if and
  only if \<open>ec\<close> is at least \<open>-10248191\<close> (panic, other application error) or
  \<open>-153722868\<close> (no application error, SQLSTATE 55006): for every count from zero up and
  for negative ones down to these bounds. \<open>ec\<close> is also the count that the state holds
  afterwards.
\<close>

theorem sync_failure_sleep_minutes:
  fixes en :: env and m :: mainLoop and err :: sync_failure and now :: time
  defines "ec \<equiv> (if LastError (x_state (m_exec m)) + 24 * Hour < now then 0
                  else ErrorCount (x_state (m_exec m)))"
  defines "m' \<equiv> mainLoop_Select en (SyncFlowDone (Some err) now) m"
  defines "minutes \<equiv> (if as_PanicError err then 10 + min (sint ec) 3 * 15
            else if \<not> IsApplicationError err \<or> strings_Contains (Error_text err) ''(SQLSTATE 55006)''
            then 1 + min (sint ec) 9
            else 5 + min (sint ec) 5 * 15)"
  assumes "\<not> syncFlowFuture_fired m" and "\<not> finished m" and "\<not> is_ErrCanceled err"
  shows "\<exists>sleepFor.
           x_calls (m_exec m') = x_calls (m_exec m) @ [SleepFuture sleepFor]
         \<and> ErrorCount (x_state (m_exec m')) = ec
         \<and> sint sleepFor = signed_take_bit 63 (signed_take_bit 31 minutes * sint Minute)
         \<and> (sint sleepFor = minutes * sint Minute
              \<longleftrightarrow> (if \<not> as_PanicError err
                       \<and> (\<not> IsApplicationError err
                            \<or> strings_Contains (Error_text err) ''(SQLSTATE 55006)'')
                    then - 153722868 else - 10248191) \<le> sint ec)"
proof -
  have calls: "x_calls (m_exec m') = x_calls (m_exec m) @ [SleepFuture (sleepFor_of ec err)]"
    using assms(4-6) by (simp add: m'_def ec_def syncFlowFuture_callback_def issue_def Let_def)
  have count: "ErrorCount (x_state (m_exec m')) = ec"
    using assms(4-6) by (simp add: m'_def ec_def syncFlowFuture_callback_def issue_def Let_def)
  have wraps: "sint (sleepFor_of ec err) = signed_take_bit 63 (signed_take_bit 31 minutes * sint Minute)"
    unfolding minutes_def by (rule sleepFor_of_wraps)
  have exact: "sint (sleepFor_of ec err) = minutes * sint Minute
              \<longleftrightarrow> (if \<not> as_PanicError err
                       \<and> (\<not> IsApplicationError err
                            \<or> strings_Contains (Error_text err) ''(SQLSTATE 55006)'')
                    then - 153722868 else - 10248191) \<le> sint ec"
    unfolding minutes_def by (rule sleepFor_of_exact_iff)
  show ?thesis
    using calls count wraps exact by blast
qed

text \<open>
  The claim as stated fails where the arithmetic wraps: with \<open>ErrorCount\<close> at the least
  \<open>int32\<close>, a panic registers a sleep of 278190235966861312 nanoseconds, which is not
  \<open>10 + min(ErrorCount,3)*15\<close> minutes (a negative number of minutes).
\<close>

theorem min_count_sleep_wraps:
  "\<not> syncFlowFuture_fired (mainLoop_count (- 2147483648))
   \<and> \<not> finished (mainLoop_count (- 2147483648))
   \<and> \<not> is_ErrCanceled panic_failure \<and> as_PanicError panic_failure
   \<and> sint (ErrorCount (x_state (m_exec (mainLoop_count (- 2147483648))))) = - 2147483648
   \<and> x_calls (m_exec (mainLoop_Select env_ok (SyncFlowDone (Some panic_failure) 1)
                         (mainLoop_count (- 2147483648))))
       = [SleepFuture 278190235966861312]
   \<and> sint (ErrorCount (x_state (m_exec (mainLoop_Select env_ok (SyncFlowDone (Some panic_failure) 1)
                                           (mainLoop_count (- 2147483648))))))
       = - 2147483648
   \<and> sint (278190235966861312 :: 64 word) = 278190235966861312
   \<and> (10 + min (- 2147483648) 3 * 15) * sint Minute = - 1932735282600000000000
   \<and> sint (278190235966861312 :: 64 word) \<noteq> (10 + min (- 2147483648) 3 * 15) * sint Minute"
  by (simp add: mainLoop_count_def mainLoop_m1_def exec_m1_def state_m1_def panic_failure_def
        syncFlowFuture_callback_def Let_def Hour_def issue_def sleepFor_of_def min_int32_def
        Minute_def)

theorem sync_failure_sleep_minutes_witness:
  "\<not> syncFlowFuture_fired mainLoop_m1 \<and> \<not> finished mainLoop_m1 \<and> \<not> is_ErrCanceled panic_failure
   \<and> (\<exists>sleepFor.
         x_calls (m_exec (mainLoop_Select env_ok (SyncFlowDone (Some panic_failure) 1) mainLoop_m1))
           = [SleepFuture sleepFor]
       \<and> sint sleepFor = 40 * sint Minute)
   \<and> \<not> syncFlowFuture_fired (mainLoop_count (- 1)) \<and> \<not> finished (mainLoop_count (- 1))
   \<and> (\<exists>sleepFor.
         x_calls (m_exec (mainLoop_Select env_ok (SyncFlowDone (Some panic_failure) 1) (mainLoop_count (- 1))))
           = [SleepFuture sleepFor]
       \<and> sint sleepFor = - 5 * sint Minute)"
proof -
  have h1: "\<not> syncFlowFuture_fired mainLoop_m1" "\<not> finished mainLoop_m1"
    by (simp_all add: mainLoop_m1_def)
  have h2: "\<not> is_ErrCanceled panic_failure"
    by (simp add: panic_failure_def)
  have e: "(if LastError (x_state (m_exec mainLoop_m1)) + 24 * Hour < 1 then 0
            else ErrorCount (x_state (m_exec mainLoop_m1))) = 2"
    by (simp add: mainLoop_m1_def exec_m1_def state_m1_def Hour_def)
  have c: "x_calls (m_exec mainLoop_m1) = []"
    by (simp add: mainLoop_m1_def exec_m1_def)
  have p: "as_PanicError panic_failure"
    by (simp add: panic_failure_def)
  have g1: "\<not> syncFlowFuture_fired (mainLoop_count (- 1))" "\<not> finished (mainLoop_count (- 1))"
    by (simp_all add: mainLoop_count_def mainLoop_m1_def)
  have e1: "(if LastError (x_state (m_exec (mainLoop_count (- 1)))) + 24 * Hour < 1 then 0
            else ErrorCount (x_state (m_exec (mainLoop_count (- 1))))) = - 1"
    by (simp add: mainLoop_count_def mainLoop_m1_def exec_m1_def state_m1_def Hour_def)
  have c1: "x_calls (m_exec (mainLoop_count (- 1))) = []"
    by (simp add: mainLoop_count_def mainLoop_m1_def exec_m1_def)
  have a: "\<exists>sleepFor.
         x_calls (m_exec (mainLoop_Select env_ok (SyncFlowDone (Some panic_failure) 1) mainLoop_m1))
           = [SleepFuture sleepFor]
       \<and> sint sleepFor = 40 * sint Minute"
    using sync_failure_sleep_minutes
            [where m = mainLoop_m1 and err = panic_failure and now = 1 and en = env_ok, OF h1 h2]
    by (auto simp: e c p)
  have b: "\<exists>sleepFor.
         x_calls (m_exec (mainLoop_Select env_ok (SyncFlowDone (Some panic_failure) 1) (mainLoop_count (- 1))))
           = [SleepFuture sleepFor]
       \<and> sint sleepFor = - 5 * sint Minute"
    using sync_failure_sleep_minutes
            [where m = "mainLoop_count (- 1)" and err = panic_failure and now = 1 and en = env_ok,
             OF g1 h2]
    by (auto simp: e1 c1 p)
  show ?thesis
    using h1 h2 g1 a b by blast
qed

subsection \<open>The drop input of a state change request\<close>

text \<open>
  C8. Each of the four callbacks that answer a \<open>FlowStateChange\<close> request (pause loop,
  setup and snapshot phase, main loop, add-tables loop) leaves a \<open>DropFlowInput\<close> with
  \<open>Resync = true\<close> for a resync request and with \<open>Resync = false\<close> for a terminating
  request; in the add-tables loop this is also the input that the continue-as-new into
  \<open>DropFlowWorkflow\<close> carries, after the loop has filled in the config.
\<close>

theorem DropFlowInput_Resync_of_request:
  "(req_RequestedFlowState val = STATUS_RESYNC \<longrightarrow>
       map_option drop_Resync (DropFlowInput (x_state (pauseLoop_FlowSignalStateChange val x))) = Some True
     \<and> map_option drop_Resync (DropFlowInput (x_state (setupSnapshot_FlowSignalStateChange orig val x))) = Some True
     \<and> map_option drop_Resync (DropFlowInput (x_state (mainLoop_FlowSignalStateChange val x))) = Some True
     \<and> map_option drop_Resync (DropFlowInput (x_state (addTables_FlowSignalStateChange val x))) = Some True
     \<and> (\<exists>d x'. addTables_loop upd (FlowSignalStateChange val # script) x
                  = (Return (Some (ContinueAsNew_DropFlowWorkflow (Some d))), x', script)
              \<and> drop_Resync d))
   \<and> (req_RequestedFlowState val = STATUS_TERMINATING \<longrightarrow>
       map_option drop_Resync (DropFlowInput (x_state (pauseLoop_FlowSignalStateChange val x))) = Some False
     \<and> map_option drop_Resync (DropFlowInput (x_state (setupSnapshot_FlowSignalStateChange orig val x))) = Some False
     \<and> map_option drop_Resync (DropFlowInput (x_state (mainLoop_FlowSignalStateChange val x))) = Some False
     \<and> map_option drop_Resync (DropFlowInput (x_state (addTables_FlowSignalStateChange val x))) = Some False
     \<and> (\<exists>d x'. addTables_loop upd (FlowSignalStateChange val # script) x
                  = (Return (Some (ContinueAsNew_DropFlowWorkflow (Some d))), x', script)
              \<and> \<not> drop_Resync d))"
  by (simp add: pauseLoop_FlowSignalStateChange_def setupSnapshot_FlowSignalStateChange_def
      mainLoop_FlowSignalStateChange_def addTables_FlowSignalStateChange_def
      addTables_after_Select_def syncStateToConfigProtoInCatalog_def uploadConfigToCatalog_def
      issue_def Let_def)

theorem DropFlowInput_Resync_of_request_witness:
  "req_RequestedFlowState resync_request = STATUS_RESYNC
   \<and> map_option drop_Resync (DropFlowInput (x_state (mainLoop_FlowSignalStateChange resync_request exec_m1)))
       = Some True
   \<and> req_RequestedFlowState terminate_request = STATUS_TERMINATING
   \<and> map_option drop_Resync (DropFlowInput (x_state (pauseLoop_FlowSignalStateChange terminate_request exec_m1)))
       = Some False"
  using DropFlowInput_Resync_of_request
          [where val = resync_request and x = exec_m1 and orig = "[]" and upd = update_add_b
             and script = "[]"]
        DropFlowInput_Resync_of_request
          [where val = terminate_request and x = exec_m1 and orig = "[]" and upd = update_add_b
             and script = "[]"]
  by (simp add: resync_request_def terminate_request_def)

subsection \<open>Added tables\<close>

lemma addTables_step_frame:
  assumes "addTables_after_Select upd (fst (addTables_Select e x))
             (fst (snd (addTables_Select e x))) (snd (snd (addTables_Select e x))) = (r, x1)"
    and "\<And>err. r \<noteq> Return err"
  shows "x1 = x"
  using assms
  by (cases e)
     (auto simp: addTables_after_Select_def addTables_FlowSignalStateChange_def Let_def
           split: if_splits option.splits)

lemma addTables_loop_Leave:
  "addTables_loop upd script x = (Leave res, x', script') \<Longrightarrow> x' = x"
proof (induction script arbitrary: x)
  case Nil
  then show ?case by simp
next
  case (Cons e script)
  show ?case
  proof (cases "addTables_registered e")
    case False
    with Cons show ?thesis by simp
  next
    case True
    obtain r x1 where step: "addTables_after_Select upd (fst (addTables_Select e x))
             (fst (snd (addTables_Select e x))) (snd (snd (addTables_Select e x))) = (r, x1)"
      by (cases "addTables_after_Select upd (fst (addTables_Select e x))
             (fst (snd (addTables_Select e x))) (snd (snd (addTables_Select e x)))")
    show ?thesis
    proof (cases r)
      case Waiting
      then have "x1 = x" using addTables_step_frame [OF step] by simp
      with Cons True step Waiting show ?thesis by simp
    next
      case (Leave r')
      then have "x1 = x" using addTables_step_frame [OF step] by simp
      with Cons.prems True step Leave show ?thesis by simp
    next
      case (Return err)
      with Cons.prems True step show ?thesis by simp
    qed
  qed
qed

lemma addTables_after_Select_Return:
  "addTables_after_Select upd x res err = (Return r, x1) \<Longrightarrow> r \<noteq> None"
  by (auto simp: addTables_after_Select_def Let_def split: if_splits option.splits)

lemma addTables_loop_Return:
  "addTables_loop upd script x = (Return r, x', script') \<Longrightarrow> r \<noteq> None"
  by (induction script arbitrary: x)
     (auto split: if_splits prod.splits flow.splits dest: addTables_after_Select_Return)

lemma processTableAdditions_success:
  assumes upd: "FlowConfigUpdate (x_state x) = Some upd"
    and ne: "upd_AdditionalTables upd \<noteq> []"
    and no: "\<not> AdditionalTablesHasOverlap (opt_TableMappings (SyncFlowOptions (x_state x)))
               (upd_AdditionalTables upd)"
    and ok: "processTableAdditions en script x = (Return None, x', script')"
  shows "opt_TableMappings (SyncFlowOptions (x_state x'))
           = opt_TableMappings (SyncFlowOptions (x_state x)) @ upd_AdditionalTables upd"
    and "FlowConfigUpdate (x_state x') = Some upd"
  using ok upd ne no
  by (auto simp: processTableAdditions_def processTableAdditions_append_def Let_def
           split: option.splits prod.splits flow.splits
           dest!: addTables_loop_Leave addTables_loop_Return)

lemma processTableAdditions_skip:
  assumes upd: "FlowConfigUpdate (x_state x) = Some upd"
  shows "upd_AdditionalTables upd = [] \<Longrightarrow>
           processTableAdditions en script x =
             (Return None,
              x\<lparr>x_calls := x_calls x @
                 [UpdateCDCConfigInCatalog (updateFlowConfigWithLatestSettings (x_cfg x) (x_state x))]\<rparr>,
              script)"
    and "upd_AdditionalTables upd \<noteq> [] \<Longrightarrow>
         AdditionalTablesHasOverlap (opt_TableMappings (SyncFlowOptions (x_state x)))
               (upd_AdditionalTables upd) \<Longrightarrow>
           processTableAdditions en script x =
             (Return None,
              x\<lparr>x_calls := x_calls x @
                 [LoggerWarn ''duplicate source/destination tables found in additionalTables'',
                  UpdateCDCConfigInCatalog (updateFlowConfigWithLatestSettings (x_cfg x) (x_state x))]\<rparr>,
              script)"
  using upd
  by (simp_all add: processTableAdditions_def syncStateToConfigProtoInCatalog_def
        uploadConfigToCatalog_def issue_def Let_def)

lemma apply_update_settings_frame [simp]:
  "FlowConfigUpdate (x_state (apply_update_settings u x)) = FlowConfigUpdate (x_state x)"
  "opt_TableMappings (SyncFlowOptions (x_state (apply_update_settings u x)))
     = opt_TableMappings (SyncFlowOptions (x_state x))"
  "opt_SrcTableIdNameMapping (SyncFlowOptions (x_state (apply_update_settings u x)))
     = opt_SrcTableIdNameMapping (SyncFlowOptions (x_state x))"
  "x_calls (apply_update_settings u x) = x_calls x"
  "CurrentFlowStatus (x_state (apply_update_settings u x)) = CurrentFlowStatus (x_state x)"
  by (simp_all add: apply_update_settings_def Let_def)

lemma processCDCFlowConfigUpdate_additions:
  assumes upd: "FlowConfigUpdate (x_state x) = Some upd"
    and ne: "upd_AdditionalTables upd \<noteq> []"
    and rm: "upd_RemovedTables upd = []"
    and no: "\<not> AdditionalTablesHasOverlap (opt_TableMappings (SyncFlowOptions (x_state x)))
               (upd_AdditionalTables upd)"
    and ok: "processCDCFlowConfigUpdate en script x = (Return None, x', script')"
  shows "opt_TableMappings (SyncFlowOptions (x_state x'))
           = opt_TableMappings (SyncFlowOptions (x_state x)) @ upd_AdditionalTables upd"
proof -
  obtain r x2 s2 where pa: "processTableAdditions en script (apply_update_settings upd x) = (r, x2, s2)"
    by (cases "processTableAdditions en script (apply_update_settings upd x)")
  from ok upd ne rm pa have r: "r = Return None" and x': "x' = snd (syncStateToConfigProtoInCatalog x2)"
    by (auto simp: processCDCFlowConfigUpdate_def Let_def split: flow.splits option.splits)
  have "opt_TableMappings (SyncFlowOptions (x_state x2))
           = opt_TableMappings (SyncFlowOptions (x_state (apply_update_settings upd x))) @ upd_AdditionalTables upd"
    by (rule processTableAdditions_success(1) [OF _ ne _ pa [unfolded r]]) (simp_all add: upd no)
  then show ?thesis by (simp add: x')
qed

text \<open>
  C5 (amended). Let \<open>AdditionalTables\<close> be the additional tables of the pending update.
  If it is not empty and does not overlap the live mappings, then a
  \<open>processTableAdditions\<close> that returns no error has appended it to the live
  \<open>TableMappings\<close>, which so grow by exactly \<open>len(AdditionalTables)\<close>; the same holds
  for \<open>processCDCFlowConfigUpdate\<close> when the update removes no table. If it overlaps,
  the addition is skipped with the warning and nothing but the two calls changes. If it
  is empty, the addition is skipped with no warning at all: the only call is the upload
  of the config. In both skips \<open>TableMappings\<close> stays as it was.
\<close>

theorem table_additions_grow_or_skip:
  assumes upd: "FlowConfigUpdate (x_state x) = Some upd"
  defines "live \<equiv> opt_TableMappings (SyncFlowOptions (x_state x))"
  defines "upload \<equiv> UpdateCDCConfigInCatalog (updateFlowConfigWithLatestSettings (x_cfg x) (x_state x))"
  shows "(upd_AdditionalTables upd \<noteq> [] \<and> \<not> AdditionalTablesHasOverlap live (upd_AdditionalTables upd) \<longrightarrow>
            (fst (processTableAdditions en script x) = Return None \<longrightarrow>
               opt_TableMappings (SyncFlowOptions (x_state (fst (snd (processTableAdditions en script x)))))
                 = live @ upd_AdditionalTables upd
             \<and> length (opt_TableMappings (SyncFlowOptions (x_state (fst (snd (processTableAdditions en script x))))))
                 = length live + length (upd_AdditionalTables upd))
          \<and> (upd_RemovedTables upd = [] \<and> fst (processCDCFlowConfigUpdate en script x) = Return None \<longrightarrow>
               length (opt_TableMappings (SyncFlowOptions (x_state (fst (snd (processCDCFlowConfigUpdate en script x))))))
                 = length live + length (upd_AdditionalTables upd)))
       \<and> (upd_AdditionalTables upd \<noteq> [] \<and> AdditionalTablesHasOverlap live (upd_AdditionalTables upd) \<longrightarrow>
            processTableAdditions en script x =
              (Return None,
               x\<lparr>x_calls := x_calls x @
                  [LoggerWarn ''duplicate source/destination tables found in additionalTables'', upload]\<rparr>,
               script))
       \<and> (upd_AdditionalTables upd = [] \<longrightarrow>
            processTableAdditions en script x = (Return None, x\<lparr>x_calls := x_calls x @ [upload]\<rparr>, script))"
proof -
  have a: "opt_TableMappings (SyncFlowOptions (x_state (fst (snd (processTableAdditions en script x)))))
             = live @ upd_AdditionalTables upd"
    if "upd_AdditionalTables upd \<noteq> []" "\<not> AdditionalTablesHasOverlap live (upd_AdditionalTables upd)"
       "fst (processTableAdditions en script x) = Return None"
  proof -
    have "processTableAdditions en script x
            = (Return None, fst (snd (processTableAdditions en script x)),
               snd (snd (processTableAdditions en script x)))"
      using that(3) by (metis prod.collapse)
    from processTableAdditions_success(1) [OF upd that(1) that(2) [unfolded live_def] this]
    show ?thesis by (simp add: live_def)
  qed
  have b: "length (opt_TableMappings (SyncFlowOptions (x_state (fst (snd (processCDCFlowConfigUpdate en script x))))))
             = length live + length (upd_AdditionalTables upd)"
    if "upd_AdditionalTables upd \<noteq> []" "\<not> AdditionalTablesHasOverlap live (upd_AdditionalTables upd)"
       "upd_RemovedTables upd = []" "fst (processCDCFlowConfigUpdate en script x) = Return None"
  proof -
    have "processCDCFlowConfigUpdate en script x
            = (Return None, fst (snd (processCDCFlowConfigUpdate en script x)),
               snd (snd (processCDCFlowConfigUpdate en script x)))"
      using that(4) by (metis prod.collapse)
    from processCDCFlowConfigUpdate_additions [OF upd that(1) that(3) that(2) [unfolded live_def] this]
    show ?thesis by (simp add: live_def)
  qed
  show ?thesis
    using a b processTableAdditions_skip [OF upd, of en script]
    by (simp add: live_def upload_def)
qed

lemma upload_m1 [simp]: "updateFlowConfigWithLatestSettings cfg_m1 (x_state (paused_with u)) = cfg_m1"
  by (simp add: updateFlowConfigWithLatestSettings_def paused_with_def exec_m1_def state_m1_def cfg_m1_def)

text \<open>
  The claim as stated asks for a warning on an empty list too. On an update with no
  additional table, \<open>processTableAdditions\<close> issues the config upload and nothing else.
\<close>

theorem empty_additions_no_warning:
  "upd_AdditionalTables update_remove_n = []
   \<and> processTableAdditions env_ok [] (paused_with update_remove_n)
       = (Return None,
          (paused_with update_remove_n)\<lparr>x_calls := [UpdateCDCConfigInCatalog cfg_m1]\<rparr>, [])"
  by (simp add: processTableAdditions_def update_remove_n_def paused_with_def exec_m1_def
        syncStateToConfigProtoInCatalog_def uploadConfigToCatalog_def issue_def Let_def
        updateFlowConfigWithLatestSettings_def state_m1_def cfg_m1_def)

lemma add_b_eval:
  "fst (processTableAdditions env_ok [ChildCDCFlowDone (Some child_b) None] (paused_with update_add_b))
     = Return None"
  by (simp add: processTableAdditions_def processTableAdditions_append_def update_add_b_def
        paused_with_def exec_m1_def state_m1_def AdditionalTablesHasOverlap_def table_a_def
        table_b_def table_n_def env_ok_def addTables_after_Select_def Let_def child_b_def
        maps_Copy_nilable_def)

theorem table_additions_grow_or_skip_witness:
  "FlowConfigUpdate (x_state (paused_with update_add_b)) = Some update_add_b
   \<and> upd_AdditionalTables update_add_b \<noteq> []
   \<and> \<not> AdditionalTablesHasOverlap (opt_TableMappings (SyncFlowOptions (x_state (paused_with update_add_b))))
         (upd_AdditionalTables update_add_b)
   \<and> fst (processTableAdditions env_ok [ChildCDCFlowDone (Some child_b) None] (paused_with update_add_b))
       = Return None
   \<and> opt_TableMappings (SyncFlowOptions (x_state (fst (snd
         (processTableAdditions env_ok [ChildCDCFlowDone (Some child_b) None] (paused_with update_add_b))))))
       = [table_a, table_n, table_b]"
proof -
  have u: "FlowConfigUpdate (x_state (paused_with update_add_b)) = Some update_add_b"
    by (simp add: paused_with_def exec_m1_def)
  have l: "opt_TableMappings (SyncFlowOptions (x_state (paused_with update_add_b))) = [table_a, table_n]"
    by (simp add: paused_with_def exec_m1_def state_m1_def)
  have n: "\<not> AdditionalTablesHasOverlap [table_a, table_n] (upd_AdditionalTables update_add_b)"
    by (simp add: AdditionalTablesHasOverlap_def update_add_b_def table_a_def table_b_def table_n_def)
  have a: "upd_AdditionalTables update_add_b = [table_b]"
    by (simp add: update_add_b_def)
  show ?thesis
    using table_additions_grow_or_skip [OF u, of env_ok "[ChildCDCFlowDone (Some child_b) None]"] add_b_eval u n
    by (simp add: l a)
qed

subsection \<open>Removed tables\<close>

lemma processTableAdditions_keeps_update:
  assumes upd: "FlowConfigUpdate (x_state x) = Some upd"
    and ok: "processTableAdditions en script x = (Return None, x', script')"
  shows "FlowConfigUpdate (x_state x') = Some upd"
  using ok upd
  by (auto simp: processTableAdditions_def processTableAdditions_append_def Let_def
           split: option.splits prod.splits flow.splits if_splits
           dest!: addTables_loop_Leave addTables_loop_Return)

lemma processTableRemovals_calls:
  assumes "FlowConfigUpdate (x_state x) = Some upd"
  shows "\<exists>n. x_calls (snd (processTableRemovals en x))
              = x_calls x @ take n (removal_calls (x_cfg x) (upd_RemovedTables upd))"
proof (cases "RemoveTablesFromPublication_result en")
  case (Some e1)
  then show ?thesis using assms
    by (intro exI [of _ 1]) (simp add: processTableRemovals_def removal_calls_def Let_def)
next
  case n1: None
  show ?thesis
  proof (cases "RemoveTablesFromRawTable_result en")
    case (Some e2)
    then show ?thesis using assms n1
      by (intro exI [of _ 2]) (simp add: processTableRemovals_def removal_calls_def Let_def numeral_2_eq_2)
  next
    case n2: None
    show ?thesis using assms n1 n2
      by (intro exI [of _ 3])
         (simp add: processTableRemovals_def removal_calls_def Let_def split: option.splits)
  qed
qed

lemma processTableRemovals_success:
  assumes "FlowConfigUpdate (x_state x) = Some upd"
    and "processTableRemovals en x = (None, x')"
  shows "x_calls x' = x_calls x @ removal_calls (x_cfg x) (upd_RemovedTables upd)"
    and "removed_gone (upd_RemovedTables upd) (x_state x')"
    and "x_cfg x' = x_cfg x"
  using assms
  by (auto simp: processTableRemovals_def removal_calls_def removed_gone_def Let_def
        maps_DeleteFunc_def slices_DeleteFunc_def
        split: option.splits)

lemma processCDCFlowConfigUpdate_removals:
  assumes upd: "FlowConfigUpdate (x_state x) = Some upd"
    and rm: "upd_RemovedTables upd \<noteq> []"
    and ok: "processCDCFlowConfigUpdate en script x = (Return None, x', script')"
  shows "removed_gone (upd_RemovedTables upd) (x_state x')
       \<and> (\<exists>before c c'. x_calls x' = before @ removal_calls c (upd_RemovedTables upd)
                                        @ [UpdateCDCConfigInCatalog c'])"
proof -
  let ?x1 = "apply_update_settings upd x"
  obtain r x2 s2 where pa:
    "(if upd_AdditionalTables upd \<noteq> [] then processTableAdditions en script ?x1
      else (Return None, ?x1, script)) = (r, x2, s2)"
    by (cases "(if upd_AdditionalTables upd \<noteq> [] then processTableAdditions en script ?x1
      else (Return None, ?x1, script))")
  obtain e x3 where pr: "processTableRemovals en x2 = (e, x3)"
    by (cases "processTableRemovals en x2")
  from ok upd rm pa pr have r: "r = Return None" and e: "e = None"
    and x': "x' = snd (syncStateToConfigProtoInCatalog x3)"
    by (auto simp: processCDCFlowConfigUpdate_def Let_def split: flow.splits option.splits if_splits)
  have u2: "FlowConfigUpdate (x_state x2) = Some upd"
  proof (cases "upd_AdditionalTables upd = []")
    case True
    with pa upd show ?thesis by auto
  next
    case False
    with pa r have "processTableAdditions en script ?x1 = (Return None, x2, s2)" by simp
    then show ?thesis by (rule processTableAdditions_keeps_update [rotated]) (simp add: upd)
  qed
  from processTableRemovals_success [OF u2 pr [unfolded e]] show ?thesis
    by (auto simp: x' removed_gone_def)
qed

text \<open>
  C6. \<open>processTableRemovals\<close> calls \<open>RemoveTablesFromPublication\<close>,
  \<open>RemoveTablesFromRawTable\<close> and \<open>RemoveTablesFromCatalog\<close> in this order, each
  after the one before it has succeeded (so its calls are always a prefix of the three).
  When it returns no error, all three have been called, no live mapping has a source
  identifier of \<open>RemovedTables\<close>, and no entry of \<open>SrcTableIdNameMapping\<close> has such
  a name as its value. The same holds after a \<open>processCDCFlowConfigUpdate\<close> that returns
  no error on an update with removed tables, where the three calls are followed by the
  upload of the config.
\<close>

theorem table_removals_ordered_and_removed:
  assumes upd: "FlowConfigUpdate (x_state x) = Some upd"
  defines "removed \<equiv> upd_RemovedTables upd"
  defines "activities \<equiv> (\<lambda>c. [RemoveTablesFromPublication c removed, RemoveTablesFromRawTable c removed,
                                RemoveTablesFromCatalog c removed])"
  defines "gone \<equiv> (\<lambda>st.
      (\<forall>tm \<in> set (opt_TableMappings (SyncFlowOptions st)).
          SourceTableIdentifier tm \<notin> SourceTableIdentifier ` set removed)
    \<and> (\<forall>m. opt_SrcTableIdNameMapping (SyncFlowOptions st) = Some m \<longrightarrow>
          (\<forall>(k, v) \<in> set m. v \<notin> SourceTableIdentifier ` set removed)))"
  shows "(\<exists>n. x_calls (snd (processTableRemovals en x)) = x_calls x @ take n (activities (x_cfg x)))
       \<and> (fst (processTableRemovals en x) = None \<longrightarrow>
            x_calls (snd (processTableRemovals en x)) = x_calls x @ activities (x_cfg x)
          \<and> gone (x_state (snd (processTableRemovals en x))))
       \<and> (removed \<noteq> [] \<and> fst (processCDCFlowConfigUpdate en script x) = Return None \<longrightarrow>
            gone (x_state (fst (snd (processCDCFlowConfigUpdate en script x))))
          \<and> (\<exists>before c c'. x_calls (fst (snd (processCDCFlowConfigUpdate en script x)))
                              = before @ activities c @ [UpdateCDCConfigInCatalog c']))"
proof -
  have 1: "\<exists>n. x_calls (snd (processTableRemovals en x)) = x_calls x @ take n (activities (x_cfg x))"
    using processTableRemovals_calls [OF upd, of en]
    by (simp add: activities_def removed_def removal_calls_def)
  have 2: "x_calls (snd (processTableRemovals en x)) = x_calls x @ activities (x_cfg x)
          \<and> gone (x_state (snd (processTableRemovals en x)))"
    if "fst (processTableRemovals en x) = None"
  proof -
    have "processTableRemovals en x = (None, snd (processTableRemovals en x))"
      using that by (metis prod.collapse)
    from processTableRemovals_success(1,2) [OF upd this] show ?thesis
      by (simp add: activities_def removed_def removal_calls_def gone_def removed_gone_def)
  qed
  have 3: "gone (x_state (fst (snd (processCDCFlowConfigUpdate en script x))))
          \<and> (\<exists>before c c'. x_calls (fst (snd (processCDCFlowConfigUpdate en script x)))
                              = before @ activities c @ [UpdateCDCConfigInCatalog c'])"
    if "removed \<noteq> []" "fst (processCDCFlowConfigUpdate en script x) = Return None"
  proof -
    have "processCDCFlowConfigUpdate en script x
            = (Return None, fst (snd (processCDCFlowConfigUpdate en script x)),
               snd (snd (processCDCFlowConfigUpdate en script x)))"
      using that(2) by (metis prod.collapse)
    from processCDCFlowConfigUpdate_removals [OF upd that(1) [unfolded removed_def] this]
    show ?thesis
      by (simp add: activities_def removed_def removal_calls_def gone_def removed_gone_def)
  qed
  show ?thesis using 1 2 3 by blast
qed

theorem table_removals_ordered_and_removed_witness:
  "FlowConfigUpdate (x_state (paused_with update_remove_n)) = Some update_remove_n
   \<and> upd_RemovedTables update_remove_n \<noteq> []
   \<and> fst (processTableRemovals env_ok (paused_with update_remove_n)) = None
   \<and> x_calls (snd (processTableRemovals env_ok (paused_with update_remove_n)))
       = [RemoveTablesFromPublication cfg_m1 [table_n], RemoveTablesFromRawTable cfg_m1 [table_n],
          RemoveTablesFromCatalog cfg_m1 [table_n]]
   \<and> opt_TableMappings (SyncFlowOptions (x_state (snd
          (processTableRemovals env_ok (paused_with update_remove_n))))) = [table_a]
   \<and> opt_SrcTableIdNameMapping (SyncFlowOptions (x_state (snd
          (processTableRemovals env_ok (paused_with update_remove_n))))) = Some [(1, ''public.a'')]"
proof -
  have u: "FlowConfigUpdate (x_state (paused_with update_remove_n)) = Some update_remove_n"
    by (simp add: paused_with_def exec_m1_def)
  have r: "upd_RemovedTables update_remove_n = [table_n]"
    by (simp add: update_remove_n_def)
  have ok: "fst (processTableRemovals env_ok (paused_with update_remove_n)) = None"
    by (simp add: processTableRemovals_def paused_with_def exec_m1_def env_ok_def Let_def)
  have c: "x_calls (paused_with update_remove_n) = []" "x_cfg (paused_with update_remove_n) = cfg_m1"
    by (simp_all add: paused_with_def exec_m1_def)
  have m: "opt_TableMappings (SyncFlowOptions (x_state (snd
          (processTableRemovals env_ok (paused_with update_remove_n))))) = [table_a]"
    "opt_SrcTableIdNameMapping (SyncFlowOptions (x_state (snd
          (processTableRemovals env_ok (paused_with update_remove_n))))) = Some [(1, ''public.a'')]"
    by (simp_all add: processTableRemovals_def paused_with_def exec_m1_def env_ok_def Let_def
          state_m1_def update_remove_n_def slices_DeleteFunc_def maps_DeleteFunc_def
          table_a_def table_n_def)
  show ?thesis
    using table_removals_ordered_and_removed [OF u, of env_ok "[]"] u ok m
    by (simp add: r c)
qed


subsection \<open>The resync pass\<close>

lemma strings_HasSuffix_append [simp]: "strings_HasSuffix (s @ suffix) suffix"
  by (simp add: strings_HasSuffix_def)

lemma strings_TrimSuffix_append [simp]: "strings_TrimSuffix (s @ suffix) suffix = s"
  by (simp add: strings_TrimSuffix_def)

lemma rename_back_add_resync_suffix [simp]: "rename_back (add_resync_suffix mapping) = mapping"
  by (simp add: rename_back_def add_resync_suffix_def)

lemma rename_option_add_resync_suffix:
  "rename_option (add_resync_suffix mapping) =
     (if Engine mapping \<noteq> CH_ENGINE_NULL
      then \<lparr> CurrentName = DestinationTableIdentifier mapping @ ''_resync'',
             NewName = DestinationTableIdentifier mapping \<rparr>
      else \<lparr> CurrentName = DestinationTableIdentifier mapping,
             NewName = DestinationTableIdentifier mapping \<rparr>)"
  by (simp add: rename_option_def add_resync_suffix_def)

lemma setupSnapshot_step_continue:
  assumes "setupSnapshot_exits (setupSnapshot_Select orig e x) ferr = None"
  shows "\<exists>ws. list_all is_LoggerWarn ws
            \<and> setupSnapshot_Select orig e x = x\<lparr>x_calls := x_calls x @ ws\<rparr>"
proof (cases e)
  case CtxDone
  with assms show ?thesis by (simp add: setupSnapshot_exits_def split: if_splits)
next
  case (FlowSignalStateChange val)
  show ?thesis
  proof (cases "req_RequestedFlowState val")
    case STATUS_PAUSED
    with FlowSignalStateChange show ?thesis
      by (intro exI [of _ "[LoggerWarn ''pause requested during setup, ignoring'']"])
         (simp add: setupSnapshot_FlowSignalStateChange_def issue_def)
  next
    case STATUS_TERMINATING
    with FlowSignalStateChange assms show ?thesis
      by (simp add: setupSnapshot_FlowSignalStateChange_def setupSnapshot_exits_def Let_def)
  next
    case STATUS_RESYNC
    with FlowSignalStateChange assms show ?thesis
      by (simp add: setupSnapshot_FlowSignalStateChange_def setupSnapshot_exits_def Let_def
            uploadConfigToCatalog_def)
  qed (use FlowSignalStateChange in \<open>auto simp: setupSnapshot_FlowSignalStateChange_def intro!: exI [of _ "[]"]\<close>)
qed (auto intro!: exI [of _ "[]"])

lemma more_warnings_refl [simp]: "more_warnings x x"
  by (auto simp: more_warnings_def intro!: exI [of _ "[]"])

lemma more_warnings_trans: "more_warnings x y \<Longrightarrow> more_warnings y z \<Longrightarrow> more_warnings x z"
proof -
  assume "more_warnings x y" "more_warnings y z"
  then obtain ws ws' where "list_all is_LoggerWarn ws" "y = x\<lparr>x_calls := x_calls x @ ws\<rparr>"
    "list_all is_LoggerWarn ws'" "z = y\<lparr>x_calls := x_calls y @ ws'\<rparr>"
    by (auto simp: more_warnings_def)
  then have "list_all is_LoggerWarn (ws @ ws')" "z = x\<lparr>x_calls := x_calls x @ (ws @ ws')\<rparr>"
    by simp_all
  then show ?thesis
    unfolding more_warnings_def by blast
qed

lemma more_warnings_same:
  assumes "more_warnings x x'"
  shows "x_state x' = x_state x" "x_cfg x' = x_cfg x" "x_canceled x' = x_canceled x"
  using assms by (auto simp: more_warnings_def)

lemma resync_exit_warnings:
  assumes "more_warnings x y" "resync_exit orig y x' st' d"
  shows "resync_exit orig x x' st' d"
proof -
  from assms(1) obtain ws where ws: "list_all is_LoggerWarn ws" "y = x\<lparr>x_calls := x_calls x @ ws\<rparr>"
    by (auto simp: more_warnings_def)
  let ?C = "(x_cfg x)\<lparr>cfg_Resync := True, cfg_DoInitialSnapshot := True, cfg_TableMappings := orig\<rparr>"
  from assms(2) ws obtain ws' where ws': "list_all is_LoggerWarn ws'"
    "x_calls x' = (x_calls x @ ws) @ ws' @ [UpdateCDCConfigInCatalog ?C]"
    by (auto simp: resync_exit_def Let_def)
  then have "list_all is_LoggerWarn (ws @ ws')"
    "x_calls x' = x_calls x @ (ws @ ws') @ [UpdateCDCConfigInCatalog ?C]"
    using ws by simp_all
  then have "\<exists>w. list_all is_LoggerWarn w \<and> x_calls x' = x_calls x @ w @ [UpdateCDCConfigInCatalog ?C]"
    by blast
  with assms(2) ws show ?thesis
    unfolding resync_exit_def Let_def by auto
qed

lemma setupSnapshot_step_resync:
  assumes "setupSnapshot_exits (setupSnapshot_Select orig e x) ferr
             = Some (Some st', Some (ContinueAsNew_DropFlowWorkflow d))"
    and "ActiveSignal (x_state x) \<noteq> TerminateSignal" "ActiveSignal (x_state x) \<noteq> ResyncSignal"
    and "ActiveSignal st' = ResyncSignal"
  shows "resync_exit orig x (setupSnapshot_Select orig e x) st' d"
proof (cases e)
  case (FlowSignalStateChange val)
  show ?thesis
  proof (cases "req_RequestedFlowState val")
    case STATUS_RESYNC
    with FlowSignalStateChange assms show ?thesis
      by (auto simp: setupSnapshot_FlowSignalStateChange_def setupSnapshot_exits_def Let_def
            uploadConfigToCatalog_def resync_exit_def intro!: exI [of _ "[]"])
  qed (use FlowSignalStateChange assms in
        \<open>auto simp: setupSnapshot_FlowSignalStateChange_def setupSnapshot_exits_def Let_def
               split: if_splits option.splits\<close>)
qed (use assms in \<open>auto simp: setupSnapshot_exits_def split: if_splits option.splits\<close>)

lemma setupFlow_loop_Leave:
  "setupFlow_loop orig script x = (Leave a, x', script') \<Longrightarrow> more_warnings x x'"
proof (induction script arbitrary: x)
  case Nil
  then show ?case by simp
next
  case (Cons e script)
  let ?x1 = "setupSnapshot_Select orig e x"
  show ?case
  proof (cases "setupFlow_registered e")
    case False
    with Cons show ?thesis by simp
  next
    case True
    show ?thesis
    proof (cases "setupSnapshot_exits ?x1
                    (map_option (Errorf ''failed to execute setup workflow'') (setupFlowError_of e))")
      case (Some r)
      with Cons.prems True show ?thesis by simp
    next
      case None
      from setupSnapshot_step_continue [OF None] have w: "more_warnings x ?x1"
        by (simp add: more_warnings_def)
      show ?thesis
      proof (cases "setupFlowOutput_of e")
        case (Some out)
        with Cons.prems True None w show ?thesis by simp
      next
        case n: None
        with Cons.prems True None have "setupFlow_loop orig script ?x1 = (Leave a, x', script')"
          by simp
        from more_warnings_trans [OF w Cons.IH [OF this]] show ?thesis .
      qed
    qed
  qed
qed

lemma setupFlow_loop_resync:
  "setupFlow_loop orig script x = (Return (Some st', Some (ContinueAsNew_DropFlowWorkflow d)), x', script')
   \<Longrightarrow> ActiveSignal (x_state x) \<noteq> TerminateSignal \<Longrightarrow> ActiveSignal (x_state x) \<noteq> ResyncSignal
   \<Longrightarrow> ActiveSignal st' = ResyncSignal \<Longrightarrow> resync_exit orig x x' st' d"
proof (induction script arbitrary: x)
  case Nil
  then show ?case by simp
next
  case (Cons e script)
  let ?x1 = "setupSnapshot_Select orig e x"
  show ?case
  proof (cases "setupFlow_registered e")
    case False
    with Cons show ?thesis by simp
  next
    case True
    show ?thesis
    proof (cases "setupSnapshot_exits ?x1
                    (map_option (Errorf ''failed to execute setup workflow'') (setupFlowError_of e))")
      case (Some r)
      with Cons.prems True have "r = (Some st', Some (ContinueAsNew_DropFlowWorkflow d))" "x' = ?x1"
        by simp_all
      with Some Cons.prems show ?thesis
        using setupSnapshot_step_resync by blast
    next
      case None
      from setupSnapshot_step_continue [OF None] have w: "more_warnings x ?x1"
        by (simp add: more_warnings_def)
      from Cons.prems True None obtain
        "setupFlow_loop orig script ?x1 = (Return (Some st', Some (ContinueAsNew_DropFlowWorkflow d)), x', script')"
        by (auto split: option.splits)
      from Cons.IH [OF this] Cons.prems more_warnings_same [OF w]
      have "resync_exit orig ?x1 x' st' d" by simp
      with w show ?thesis by (rule resync_exit_warnings)
    qed
  qed
qed

lemma snapshotFlow_loop_Leave:
  "snapshotFlow_loop orig script x = (Leave a, x', script') \<Longrightarrow> more_warnings x x'"
proof (induction script arbitrary: x)
  case Nil
  then show ?case by simp
next
  case (Cons e script)
  let ?x1 = "setupSnapshot_Select orig e x"
  show ?case
  proof (cases "snapshotFlow_registered e")
    case False
    with Cons show ?thesis by simp
  next
    case True
    show ?thesis
    proof (cases "setupSnapshot_exits ?x1
                    (map_option (Errorf ''failed to execute snapshot workflow'') (snapshotError_of e))")
      case (Some r)
      with Cons.prems True show ?thesis by simp
    next
      case None
      from setupSnapshot_step_continue [OF None] have w: "more_warnings x ?x1"
        by (simp add: more_warnings_def)
      show ?thesis
      proof (cases "snapshotDone_of e")
        case True
        with Cons.prems \<open>snapshotFlow_registered e\<close> None w show ?thesis by simp
      next
        case n: False
        with Cons.prems True None have "snapshotFlow_loop orig script ?x1 = (Leave a, x', script')"
          by simp
        from more_warnings_trans [OF w Cons.IH [OF this]] show ?thesis .
      qed
    qed
  qed
qed

lemma snapshotFlow_loop_resync:
  "snapshotFlow_loop orig script x = (Return (Some st', Some (ContinueAsNew_DropFlowWorkflow d)), x', script')
   \<Longrightarrow> ActiveSignal (x_state x) \<noteq> TerminateSignal \<Longrightarrow> ActiveSignal (x_state x) \<noteq> ResyncSignal
   \<Longrightarrow> ActiveSignal st' = ResyncSignal \<Longrightarrow> resync_exit orig x x' st' d"
proof (induction script arbitrary: x)
  case Nil
  then show ?case by simp
next
  case (Cons e script)
  let ?x1 = "setupSnapshot_Select orig e x"
  show ?case
  proof (cases "snapshotFlow_registered e")
    case False
    with Cons show ?thesis by simp
  next
    case True
    show ?thesis
    proof (cases "setupSnapshot_exits ?x1
                    (map_option (Errorf ''failed to execute snapshot workflow'') (snapshotError_of e))")
      case (Some r)
      with Cons.prems True have "r = (Some st', Some (ContinueAsNew_DropFlowWorkflow d))" "x' = ?x1"
        by simp_all
      with Some Cons.prems show ?thesis
        using setupSnapshot_step_resync by blast
    next
      case None
      from setupSnapshot_step_continue [OF None] have w: "more_warnings x ?x1"
        by (simp add: more_warnings_def)
      from Cons.prems True None obtain
        "snapshotFlow_loop orig script ?x1 = (Return (Some st', Some (ContinueAsNew_DropFlowWorkflow d)), x', script')"
        by (auto split: option.splits if_splits)
      from Cons.IH [OF this] Cons.prems more_warnings_same [OF w]
      have "resync_exit orig ?x1 x' st' d" by simp
      with w show ?thesis by (rule resync_exit_warnings)
    qed
  qed
qed

lemma renameTables_loop_Leave:
  "renameTables_loop orig script x = (Leave a, x', script') \<Longrightarrow> more_warnings x x'"
proof (induction script arbitrary: x)
  case Nil
  then show ?case by simp
next
  case (Cons e script)
  let ?x1 = "setupSnapshot_Select orig e x"
  show ?case
  proof (cases "renameTables_registered e")
    case False
    with Cons show ?thesis by simp
  next
    case True
    show ?thesis
    proof (cases "setupSnapshot_exits ?x1
                    (renameTablesError_of e)")
      case (Some r)
      with Cons.prems True show ?thesis by simp
    next
      case None
      from setupSnapshot_step_continue [OF None] have w: "more_warnings x ?x1"
        by (simp add: more_warnings_def)
      show ?thesis
      proof (cases "renameTablesDone_of e")
        case True
        with Cons.prems \<open>renameTables_registered e\<close> None w show ?thesis by simp
      next
        case n: False
        with Cons.prems True None have "renameTables_loop orig script ?x1 = (Leave a, x', script')"
          by simp
        from more_warnings_trans [OF w Cons.IH [OF this]] show ?thesis .
      qed
    qed
  qed
qed

lemma renameTables_loop_resync:
  "renameTables_loop orig script x = (Return (Some st', Some (ContinueAsNew_DropFlowWorkflow d)), x', script')
   \<Longrightarrow> ActiveSignal (x_state x) \<noteq> TerminateSignal \<Longrightarrow> ActiveSignal (x_state x) \<noteq> ResyncSignal
   \<Longrightarrow> ActiveSignal st' = ResyncSignal \<Longrightarrow> resync_exit orig x x' st' d"
proof (induction script arbitrary: x)
  case Nil
  then show ?case by simp
next
  case (Cons e script)
  let ?x1 = "setupSnapshot_Select orig e x"
  show ?case
  proof (cases "renameTables_registered e")
    case False
    with Cons show ?thesis by simp
  next
    case True
    show ?thesis
    proof (cases "setupSnapshot_exits ?x1
                    (renameTablesError_of e)")
      case (Some r)
      with Cons.prems True have "r = (Some st', Some (ContinueAsNew_DropFlowWorkflow d))" "x' = ?x1"
        by simp_all
      with Some Cons.prems show ?thesis
        using setupSnapshot_step_resync by blast
    next
      case None
      from setupSnapshot_step_continue [OF None] have w: "more_warnings x ?x1"
        by (simp add: more_warnings_def)
      from Cons.prems True None obtain
        "renameTables_loop orig script ?x1 = (Return (Some st', Some (ContinueAsNew_DropFlowWorkflow d)), x', script')"
        by (auto split: option.splits if_splits)
      from Cons.IH [OF this] Cons.prems more_warnings_same [OF w]
      have "resync_exit orig ?x1 x' st' d" by simp
      with w show ?thesis by (rule resync_exit_warnings)
    qed
  qed
qed

lemma setupSnapshot_exits_not_CDCFlow:
  assumes "setupSnapshot_exits x ferr = Some (a, Some (ContinueAsNew_CDCFlowWorkflow c s))"
  shows "ferr = Some (ContinueAsNew_CDCFlowWorkflow c s)"
  using assms by (auto simp: setupSnapshot_exits_def split: if_splits option.splits)

lemma setupFlow_loop_not_CDCFlow:
  "setupFlow_loop orig script x = (Return (a, Some (ContinueAsNew_CDCFlowWorkflow c s)), x', script')
   \<Longrightarrow> False"
proof (induction script arbitrary: x)
  case (Cons e script)
  then show ?case
    by (cases e) (auto split: if_splits option.splits dest!: setupSnapshot_exits_not_CDCFlow)
qed simp

lemma snapshotFlow_loop_not_CDCFlow:
  "snapshotFlow_loop orig script x = (Return (a, Some (ContinueAsNew_CDCFlowWorkflow c s)), x', script')
   \<Longrightarrow> False"
proof (induction script arbitrary: x)
  case (Cons e script)
  then show ?case
    by (cases e) (auto split: if_splits option.splits dest!: setupSnapshot_exits_not_CDCFlow)
qed simp

lemma renameTables_loop_not_CDCFlow:
  "renameTables_loop orig script x = (Return (a, Some (ContinueAsNew_CDCFlowWorkflow c s)), x', script')
   \<Longrightarrow> False"
proof (induction script arbitrary: x)
  case (Cons e script)
  then show ?case
    by (cases e) (auto split: if_splits option.splits dest!: setupSnapshot_exits_not_CDCFlow)
qed simp

lemma setupSnapshot_finish_result:
  "setupSnapshot_finish x = (r, x') \<Longrightarrow>
     r = Return (Some (x_state x'), Some (ContinueAsNew_CDCFlowWorkflow (x_cfg x) (x_state x')))
   \<and> SyncFlowOptions (x_state x') = SyncFlowOptions (x_state x)
   \<and> x_cfg x' = x_cfg x
   \<and> (\<exists>status. x_calls x' = x_calls x @ [UpdateFlowStatusInCatalog status])"
  by (auto simp: setupSnapshot_finish_def Let_def)

lemma setupSnapshotPhase_completed:
  assumes resync: "cfg_Resync (x_cfg x)"
    and completes: "setupSnapshotPhase en script x
                 = (Return (Some st', Some (ContinueAsNew_CDCFlowWorkflow c' st'')), x')"
  defines "before \<equiv> opt_TableMappings (SyncFlowOptions (x_state x))"
  shows "opt_TableMappings (SyncFlowOptions st') = before"
    and "st'' = st'" and "c' = (x_cfg x)\<lparr>cfg_TableMappings := before\<rparr>"
    and "\<exists>cs. x_calls x' = x_calls x @ cs
            \<and> completed_resync_calls en (x_cfg x) (map add_resync_suffix before) cs"
proof -
  let ?orig = "cfg_TableMappings (x_cfg x)"
  let ?suffixed = "map add_resync_suffix before"
  let ?x1 = "setupSnapshot_suffix x"
  let ?sid = "GetChildWorkflowID ''setup-flow'' (cfg_FlowJobName (x_cfg x)) (OriginalRunID en)"
  let ?nid = "GetChildWorkflowID ''snapshot-flow'' (cfg_FlowJobName (x_cfg x)) (OriginalRunID en)"
  let ?c1 = "(x_cfg x)\<lparr>cfg_TableMappings := ?suffixed\<rparr>"
  let ?x2 = "issue (ExecuteChildWorkflow ?sid SetupFlowWorkflow ?c1) ?x1"
  have x1: "x_cfg ?x1 = ?c1" "x_calls ?x1 = x_calls x"
    "opt_TableMappings (SyncFlowOptions (x_state ?x1)) = ?suffixed"
    using resync by (simp_all add: setupSnapshot_suffix_def Let_def before_def)
  obtain r1 x3 s3 where l1: "setupFlow_loop ?orig script ?x2 = (r1, x3, s3)"
    by (cases "setupFlow_loop ?orig script ?x2")
  have unfold1: "setupSnapshotPhase en script x =
      (case (r1, x3, s3) of
           (Waiting, x3, script3) \<Rightarrow> (Waiting, x3)
         | (Return r, x3, script3) \<Rightarrow> (Return r, x3)
         | (Leave setupFlowOutput, x3, script3) \<Rightarrow>
            (let x4 = updateStatus STATUS_SNAPSHOT
                        (x3\<lparr>x_state := (x_state x3)\<lparr>SyncFlowOptions := (SyncFlowOptions (x_state x3))
                           \<lparr>opt_SrcTableIdNameMapping := out_SrcTableIdNameMapping setupFlowOutput\<rparr>\<rparr>\<rparr>);
                 snapshotFlowID =
                   GetChildWorkflowID ''snapshot-flow'' (cfg_FlowJobName (x_cfg x4)) (OriginalRunID en);
                 x5 = issue (ExecuteChildWorkflow snapshotFlowID SnapshotFlowWorkflow (x_cfg x4)) x4
             in case snapshotFlow_loop ?orig script3 x5 of
                  (Waiting, x6, script6) \<Rightarrow> (Waiting, x6)
                | (Return r, x6, script6) \<Rightarrow> (Return r, x6)
                | (Leave u, x6, script6) \<Rightarrow> setupSnapshot_rename ?orig script6 x6))"
    using l1 by (simp add: setupSnapshotPhase_def Let_def x1)
  from completes unfold1 l1 obtain out where r1: "r1 = Leave out"
    by (cases r1) (auto dest: setupFlow_loop_not_CDCFlow)
  from setupFlow_loop_Leave [OF l1 [unfolded r1]] have w1: "more_warnings ?x2 x3" .
  then obtain ws1 where ws1: "list_all is_LoggerWarn ws1" "x3 = ?x2\<lparr>x_calls := x_calls ?x2 @ ws1\<rparr>"
    by (auto simp: more_warnings_def)
  let ?x4 = "updateStatus STATUS_SNAPSHOT
               (x3\<lparr>x_state := (x_state x3)\<lparr>SyncFlowOptions := (SyncFlowOptions (x_state x3))
                  \<lparr>opt_SrcTableIdNameMapping := out_SrcTableIdNameMapping out\<rparr>\<rparr>\<rparr>)"
  let ?x5 = "issue (ExecuteChildWorkflow ?nid SnapshotFlowWorkflow ?c1) ?x4"
  have c4: "x_cfg ?x4 = ?c1" using ws1 x1 by simp
  obtain r2 x6 s6 where l2: "snapshotFlow_loop ?orig s3 ?x5 = (r2, x6, s6)"
    by (cases "snapshotFlow_loop ?orig s3 ?x5")
  have unfold2: "setupSnapshotPhase en script x =
      (case (r2, x6, s6) of
                  (Waiting, x6, script6) \<Rightarrow> (Waiting, x6)
                | (Return r, x6, script6) \<Rightarrow> (Return r, x6)
                | (Leave u, x6, script6) \<Rightarrow> setupSnapshot_rename ?orig script6 x6)"
    using unfold1 r1 l2 c4 by (simp add: Let_def)
  from completes unfold2 l2 have r2: "r2 = Leave ()"
    by (cases r2) (auto dest: snapshotFlow_loop_not_CDCFlow)
  from snapshotFlow_loop_Leave [OF l2 [unfolded r2]] have w2: "more_warnings ?x5 x6" .
  then obtain ws2 where ws2: "list_all is_LoggerWarn ws2" "x6 = ?x5\<lparr>x_calls := x_calls ?x5 @ ws2\<rparr>"
    by (auto simp: more_warnings_def)
  have x6: "x_cfg x6 = ?c1" "opt_TableMappings (SyncFlowOptions (x_state x6)) = ?suffixed"
    "x_calls x6 = x_calls x @ [ExecuteChildWorkflow ?sid SetupFlowWorkflow ?c1] @ ws1
       @ [UpdateFlowStatusInCatalog STATUS_SNAPSHOT, ExecuteChildWorkflow ?nid SnapshotFlowWorkflow ?c1] @ ws2"
    using ws2 ws1 x1 by simp_all
  let ?opts = "\<lparr> ren_FlowJobName = cfg_FlowJobName (x_cfg x),
                  ren_PeerName = cfg_DestinationName (x_cfg x),
                  ren_SyncedAtColName = cfg_SyncedAtColName (x_cfg x),
                  ren_SoftDeleteColName = cfg_SoftDeleteColName (x_cfg x),
                  ren_RenameTableOptions = map rename_option ?suffixed \<rparr>"
  let ?y1 = "x6\<lparr>x_state := (x_state x6)\<lparr>SyncFlowOptions := (SyncFlowOptions (x_state x6))
                     \<lparr>opt_TableMappings := map rename_back ?suffixed\<rparr>\<rparr>,
                   x_cfg := (x_cfg x6)\<lparr>cfg_TableMappings := map rename_back ?suffixed\<rparr>\<rparr>"
  let ?y2 = "issue (RenameTables ?opts) ?y1"
  obtain r3 y3 s7 where l3: "renameTables_loop ?orig s6 ?y2 = (r3, y3, s7)"
    by (cases "renameTables_loop ?orig s6 ?y2")
  have unfold3: "setupSnapshotPhase en script x =
      (case (r3, y3, s7) of
              (Leave u, x3, script') \<Rightarrow> setupSnapshot_finish x3
            | (Return r, x3, script') \<Rightarrow> (Return r, x3)
            | (Waiting, x3, script') \<Rightarrow> (Waiting, x3))"
    using unfold2 r2 l3 x6 resync by (simp add: setupSnapshot_rename_def Let_def)
  from completes unfold3 l3 have r3: "r3 = Leave ()"
    by (cases r3) (auto dest: renameTables_loop_not_CDCFlow)
  from renameTables_loop_Leave [OF l3 [unfolded r3]] have w3: "more_warnings ?y2 y3" .
  then obtain ws3 where ws3: "list_all is_LoggerWarn ws3" "y3 = ?y2\<lparr>x_calls := x_calls ?y2 @ ws3\<rparr>"
    by (auto simp: more_warnings_def)
  have trip: "map rename_back ?suffixed = before"
    by (simp add: comp_def)
  from completes unfold3 r3 have fin: "setupSnapshot_finish y3
      = (Return (Some st', Some (ContinueAsNew_CDCFlowWorkflow c' st'')), x')"
    by simp
  from setupSnapshot_finish_result [OF fin] obtain status where
    f: "st' = x_state x'" "c' = x_cfg y3" "st'' = x_state x'"
       "SyncFlowOptions (x_state x') = SyncFlowOptions (x_state y3)"
       "x_calls x' = x_calls y3 @ [UpdateFlowStatusInCatalog status]"
    by auto
  show "opt_TableMappings (SyncFlowOptions st') = before"
    using f ws3 trip by simp
  show "st'' = st'" using f by simp
  show "c' = (x_cfg x)\<lparr>cfg_TableMappings := before\<rparr>"
    using f ws3 x6 trip by simp
  have "x_calls x' = x_calls x @ ([ExecuteChildWorkflow ?sid SetupFlowWorkflow ?c1] @ ws1
       @ [UpdateFlowStatusInCatalog STATUS_SNAPSHOT, ExecuteChildWorkflow ?nid SnapshotFlowWorkflow ?c1] @ ws2
       @ [RenameTables ?opts] @ ws3 @ [UpdateFlowStatusInCatalog status])"
    using f ws3 x6 by simp
  then show "\<exists>cs. x_calls x' = x_calls x @ cs \<and> completed_resync_calls en (x_cfg x) ?suffixed cs"
    unfolding completed_resync_calls_def using ws1(1) ws2(1) ws3(1) by blast
qed

lemma config_uploads_simps [simp]:
  "config_uploads [] = []"
  "config_uploads (c # cs) = config_of_call c @ config_uploads cs"
  "config_uploads (cs @ cs') = config_uploads cs @ config_uploads cs'"
  by (simp_all add: config_uploads_def)

lemma config_uploads_warnings [simp]: "list_all is_LoggerWarn ws \<Longrightarrow> config_uploads ws = []"
  by (induction ws) (auto elim: is_LoggerWarn.elims)

lemma resync_exit_uploads:
  assumes "resync_exit orig x x' st' d"
  shows "config_uploads (x_calls x') = config_uploads (x_calls x)
           @ [(x_cfg x)\<lparr>cfg_Resync := True, cfg_DoInitialSnapshot := True, cfg_TableMappings := orig\<rparr>]"
    and "last (x_calls x')
           = UpdateCDCConfigInCatalog
               ((x_cfg x)\<lparr>cfg_Resync := True, cfg_DoInitialSnapshot := True, cfg_TableMappings := orig\<rparr>)"
  using assms by (auto simp: resync_exit_def Let_def)

lemma setupSnapshot_finish_not_DropFlow:
  "setupSnapshot_finish x = (Return (a, Some (ContinueAsNew_DropFlowWorkflow d)), x') \<Longrightarrow> False"
  by (auto simp: setupSnapshot_finish_def Let_def)

lemma setupSnapshot_suffix_frame [simp]:
  "ActiveSignal (x_state (setupSnapshot_suffix x)) = ActiveSignal (x_state x)"
  "x_calls (setupSnapshot_suffix x) = x_calls x"
  "x_canceled (setupSnapshot_suffix x) = x_canceled x"
  "CurrentFlowStatus (x_state (setupSnapshot_suffix x)) = CurrentFlowStatus (x_state x)"
  by (simp_all add: setupSnapshot_suffix_def Let_def)

lemma setupSnapshot_suffix_cfg:
  "\<exists>tms. x_cfg (setupSnapshot_suffix x) = (x_cfg x)\<lparr>cfg_TableMappings := tms\<rparr>"
proof (cases "cfg_Resync (x_cfg x)")
  case True
  then show ?thesis by (auto simp: setupSnapshot_suffix_def Let_def)
next
  case False
  then have "x_cfg (setupSnapshot_suffix x) = (x_cfg x)\<lparr>cfg_TableMappings := cfg_TableMappings (x_cfg x)\<rparr>"
    by (simp add: setupSnapshot_suffix_def)
  then show ?thesis by blast
qed

lemma setupSnapshotPhase_resync:
  assumes nt: "ActiveSignal (x_state x) \<noteq> TerminateSignal"
    and nr: "ActiveSignal (x_state x) \<noteq> ResyncSignal"
    and ret: "setupSnapshotPhase en script x
                = (Return (Some st', Some (ContinueAsNew_DropFlowWorkflow d)), x')"
    and rs: "ActiveSignal st' = ResyncSignal"
  defines "C \<equiv> (x_cfg x)\<lparr>cfg_Resync := True, cfg_DoInitialSnapshot := True\<rparr>"
  shows "x_cfg x' = C \<and> st' = x_state x' \<and> d = DropFlowInput st'
       \<and> (\<exists>stats skip. d = Some \<lparr> drop_FlowJobName = cfg_FlowJobName C,
              drop_FlowConnectionConfigs = Some C, drop_DropFlowStats = stats,
              drop_SkipDestinationDrop = skip, drop_Resync = True \<rparr>)
       \<and> last (x_calls x') = UpdateCDCConfigInCatalog C
       \<and> config_uploads (x_calls x') = config_uploads (x_calls x) @ [C]"
proof -
  let ?orig = "cfg_TableMappings (x_cfg x)"
  let ?x1 = "setupSnapshot_suffix x"
  obtain tms where c1: "x_cfg ?x1 = (x_cfg x)\<lparr>cfg_TableMappings := tms\<rparr>"
    using setupSnapshot_suffix_cfg by blast
  have C: "\<And>t. (x_cfg x)\<lparr>cfg_TableMappings := t, cfg_Resync := True, cfg_DoInitialSnapshot := True,
                         cfg_TableMappings := ?orig\<rparr> = C"
    by (simp add: C_def)
  have key: "x_cfg x' = C \<and> st' = x_state x' \<and> d = DropFlowInput st'
       \<and> (\<exists>stats skip. d = Some \<lparr> drop_FlowJobName = cfg_FlowJobName C,
              drop_FlowConnectionConfigs = Some C, drop_DropFlowStats = stats,
              drop_SkipDestinationDrop = skip, drop_Resync = True \<rparr>)
       \<and> last (x_calls x') = UpdateCDCConfigInCatalog C
       \<and> config_uploads (x_calls x') = config_uploads (x_calls y) @ [C]"
    if "resync_exit ?orig y x' st' d" "x_cfg y = (x_cfg x)\<lparr>cfg_TableMappings := t\<rparr>" for y t
    using that resync_exit_uploads [OF that(1)]
    by (auto simp: resync_exit_def Let_def C)
  let ?sid = "GetChildWorkflowID ''setup-flow'' (cfg_FlowJobName (x_cfg ?x1)) (OriginalRunID en)"
  let ?x2 = "issue (ExecuteChildWorkflow ?sid SetupFlowWorkflow (x_cfg ?x1)) ?x1"
  obtain r1 x3 s3 where l1: "setupFlow_loop ?orig script ?x2 = (r1, x3, s3)"
    by (cases "setupFlow_loop ?orig script ?x2")
  show ?thesis
  proof (cases r1)
    case Waiting
    with ret l1 show ?thesis by (simp add: setupSnapshotPhase_def Let_def)
  next
    case (Return r)
    with ret l1 have "setupFlow_loop ?orig script ?x2
        = (Return (Some st', Some (ContinueAsNew_DropFlowWorkflow d)), x', s3)"
      by (simp add: setupSnapshotPhase_def Let_def)
    from setupFlow_loop_resync [OF this _ _ rs] nt nr have "resync_exit ?orig ?x2 x' st' d"
      by simp
    from key [OF this, of tms] c1 show ?thesis by auto
  next
    case (Leave out)
    from setupFlow_loop_Leave [OF l1 [unfolded Leave]] have w1: "more_warnings ?x2 x3" .
    then obtain ws1 where ws1: "list_all is_LoggerWarn ws1" "x3 = ?x2\<lparr>x_calls := x_calls ?x2 @ ws1\<rparr>"
      by (auto simp: more_warnings_def)
    let ?x4 = "updateStatus STATUS_SNAPSHOT
               (x3\<lparr>x_state := (x_state x3)\<lparr>SyncFlowOptions := (SyncFlowOptions (x_state x3))
                  \<lparr>opt_SrcTableIdNameMapping := out_SrcTableIdNameMapping out\<rparr>\<rparr>\<rparr>)"
    let ?nid = "GetChildWorkflowID ''snapshot-flow'' (cfg_FlowJobName (x_cfg ?x4)) (OriginalRunID en)"
    let ?x5 = "issue (ExecuteChildWorkflow ?nid SnapshotFlowWorkflow (x_cfg ?x4)) ?x4"
    have x5: "x_cfg ?x5 = (x_cfg x)\<lparr>cfg_TableMappings := tms\<rparr>"
      "ActiveSignal (x_state ?x5) = ActiveSignal (x_state x)"
      "config_uploads (x_calls ?x5) = config_uploads (x_calls x)"
      using ws1 c1 by simp_all
    obtain r2 x6 s6 where l2: "snapshotFlow_loop ?orig s3 ?x5 = (r2, x6, s6)"
      by (cases "snapshotFlow_loop ?orig s3 ?x5")
    have unfold2: "setupSnapshotPhase en script x =
      (case (r2, x6, s6) of
                  (Waiting, x6, script6) \<Rightarrow> (Waiting, x6)
                | (Return r, x6, script6) \<Rightarrow> (Return r, x6)
                | (Leave u, x6, script6) \<Rightarrow> setupSnapshot_rename ?orig script6 x6)"
      using l1 Leave l2 by (simp add: setupSnapshotPhase_def Let_def)
    show ?thesis
    proof (cases r2)
      case Waiting
      with ret unfold2 show ?thesis by simp
    next
      case (Return r)
      with ret unfold2 l2 have "snapshotFlow_loop ?orig s3 ?x5
          = (Return (Some st', Some (ContinueAsNew_DropFlowWorkflow d)), x', s6)"
        by simp
      from snapshotFlow_loop_resync [OF this _ _ rs] nt nr x5(2) have "resync_exit ?orig ?x5 x' st' d"
        by simp
      from key [OF this x5(1)] x5(3) show ?thesis by auto
    next
      case l: (Leave u)
      from snapshotFlow_loop_Leave [OF l2 [unfolded l]] have w2: "more_warnings ?x5 x6" .
      then obtain ws2 where ws2: "list_all is_LoggerWarn ws2" "x6 = ?x5\<lparr>x_calls := x_calls ?x5 @ ws2\<rparr>"
        by (auto simp: more_warnings_def)
      have x6: "x_cfg x6 = (x_cfg x)\<lparr>cfg_TableMappings := tms\<rparr>"
        "ActiveSignal (x_state x6) = ActiveSignal (x_state x)"
        "config_uploads (x_calls x6) = config_uploads (x_calls x)"
        using ws2 x5 by simp_all
      from ret unfold2 l have rn: "setupSnapshot_rename ?orig s6 x6
          = (Return (Some st', Some (ContinueAsNew_DropFlowWorkflow d)), x')"
        by simp
      show ?thesis
      proof (cases "cfg_Resync (x_cfg x6)")
        case False
        with rn show ?thesis
          by (auto simp: setupSnapshot_rename_def dest: setupSnapshot_finish_not_DropFlow)
      next
        case True
        let ?m = "opt_TableMappings (SyncFlowOptions (x_state x6))"
        let ?opts = "\<lparr> ren_FlowJobName = cfg_FlowJobName (x_cfg x6),
                  ren_PeerName = cfg_DestinationName (x_cfg x6),
                  ren_SyncedAtColName = cfg_SyncedAtColName (x_cfg x6),
                  ren_SoftDeleteColName = cfg_SoftDeleteColName (x_cfg x6),
                  ren_RenameTableOptions = map rename_option ?m \<rparr>"
        let ?y1 = "x6\<lparr>x_state := (x_state x6)\<lparr>SyncFlowOptions := (SyncFlowOptions (x_state x6))
                     \<lparr>opt_TableMappings := map rename_back ?m\<rparr>\<rparr>,
                   x_cfg := (x_cfg x6)\<lparr>cfg_TableMappings := map rename_back ?m\<rparr>\<rparr>"
        let ?y2 = "issue (RenameTables ?opts) ?y1"
        have y2: "x_cfg ?y2 = (x_cfg x)\<lparr>cfg_TableMappings := map rename_back ?m\<rparr>"
          "ActiveSignal (x_state ?y2) = ActiveSignal (x_state x)"
          "config_uploads (x_calls ?y2) = config_uploads (x_calls x)"
          using x6 by simp_all
        obtain r3 y3 s7 where l3: "renameTables_loop ?orig s6 ?y2 = (r3, y3, s7)"
          by (cases "renameTables_loop ?orig s6 ?y2")
        from rn True l3 have unfold3:
          "(case (r3, y3, s7) of
              (Leave u, x3, script') \<Rightarrow> setupSnapshot_finish x3
            | (Return r, x3, script') \<Rightarrow> (Return r, x3)
            | (Waiting, x3, script') \<Rightarrow> (Waiting, x3))
           = (Return (Some st', Some (ContinueAsNew_DropFlowWorkflow d)), x')"
          by (simp add: setupSnapshot_rename_def Let_def)
        show ?thesis
        proof (cases r3)
          case Waiting
          with unfold3 show ?thesis by simp
        next
          case (Leave u')
          with unfold3 show ?thesis
            by (auto dest: setupSnapshot_finish_not_DropFlow)
        next
          case (Return r)
          with unfold3 l3 have "renameTables_loop ?orig s6 ?y2
              = (Return (Some st', Some (ContinueAsNew_DropFlowWorkflow d)), x', s7)"
            by simp
          from renameTables_loop_resync [OF this _ _ rs] nt nr y2(2)
          have "resync_exit ?orig ?y2 x' st' d"
            by simp
          from key [OF this y2(1)] y2(3) show ?thesis by auto
        qed
      qed
    qed
  qed
qed

text \<open>
  C7. In a resync pass (\<open>cfg.Resync\<close> set) that runs to its end, the setup child and
  the snapshot child are started on a config whose mappings carry \<open>_resync\<close> appended
  to the destination identifier of every mapping with \<open>Engine \<noteq> CH_ENGINE_NULL\<close>
  and the other mappings unchanged; \<open>RenameTables\<close> is asked to rename each suffixed
  name to the name before the pass and each \<open>CH_ENGINE_NULL\<close> name to itself; and
  the state and the config that continue as new hold the live mappings exactly as they
  were before the pass.
\<close>

theorem resync_suffix_round_trip:
  assumes "cfg_Resync (x_cfg x)"
    and "setupSnapshotPhase en script x
           = (Return (Some st', Some (ContinueAsNew_CDCFlowWorkflow c' st'')), x')"
  defines "before \<equiv> opt_TableMappings (SyncFlowOptions (x_state x))"
  defines "suffixed \<equiv> map (\<lambda>m. if Engine m \<noteq> CH_ENGINE_NULL
                 then m\<lparr>DestinationTableIdentifier := DestinationTableIdentifier m @ ''_resync''\<rparr>
                 else m) before"
  shows "opt_TableMappings (SyncFlowOptions st') = before \<and> st'' = st' \<and> cfg_TableMappings c' = before
       \<and> (\<exists>wid. ExecuteChildWorkflow wid SetupFlowWorkflow ((x_cfg x)\<lparr>cfg_TableMappings := suffixed\<rparr>)
                   \<in> set (x_calls x'))
       \<and> (\<exists>wid. ExecuteChildWorkflow wid SnapshotFlowWorkflow ((x_cfg x)\<lparr>cfg_TableMappings := suffixed\<rparr>)
                   \<in> set (x_calls x'))
       \<and> (\<exists>renameOpts. RenameTables renameOpts \<in> set (x_calls x')
             \<and> ren_RenameTableOptions renameOpts =
                 map (\<lambda>m. if Engine m \<noteq> CH_ENGINE_NULL
                           then \<lparr> CurrentName = DestinationTableIdentifier m @ ''_resync'',
                                  NewName = DestinationTableIdentifier m \<rparr>
                           else \<lparr> CurrentName = DestinationTableIdentifier m,
                                  NewName = DestinationTableIdentifier m \<rparr>) before)"
proof -
  have s: "suffixed = map add_resync_suffix before"
    by (simp add: suffixed_def add_resync_suffix_def)
  have o: "map rename_option (map add_resync_suffix before) =
             map (\<lambda>m. if Engine m \<noteq> CH_ENGINE_NULL
                           then \<lparr> CurrentName = DestinationTableIdentifier m @ ''_resync'',
                                  NewName = DestinationTableIdentifier m \<rparr>
                           else \<lparr> CurrentName = DestinationTableIdentifier m,
                                  NewName = DestinationTableIdentifier m \<rparr>) before"
    by (simp add: rename_option_add_resync_suffix comp_def)
  from setupSnapshotPhase_completed [OF assms(1,2)]
  obtain cs where r: "opt_TableMappings (SyncFlowOptions st') = before" "st'' = st'"
    "c' = (x_cfg x)\<lparr>cfg_TableMappings := before\<rparr>" "x_calls x' = x_calls x @ cs"
    "completed_resync_calls en (x_cfg x) (map add_resync_suffix before) cs"
    unfolding before_def by blast
  from r(5) obtain ws1 ws2 ws3 status where cs:
    "cs = [ExecuteChildWorkflow (GetChildWorkflowID ''setup-flow'' (cfg_FlowJobName (x_cfg x)) (OriginalRunID en))
                 SetupFlowWorkflow ((x_cfg x)\<lparr>cfg_TableMappings := suffixed\<rparr>)]
             @ ws1
             @ [UpdateFlowStatusInCatalog STATUS_SNAPSHOT,
                ExecuteChildWorkflow (GetChildWorkflowID ''snapshot-flow'' (cfg_FlowJobName (x_cfg x)) (OriginalRunID en))
                  SnapshotFlowWorkflow ((x_cfg x)\<lparr>cfg_TableMappings := suffixed\<rparr>)]
             @ ws2
             @ [RenameTables \<lparr> ren_FlowJobName = cfg_FlowJobName (x_cfg x),
                                ren_PeerName = cfg_DestinationName (x_cfg x),
                                ren_SyncedAtColName = cfg_SyncedAtColName (x_cfg x),
                                ren_SoftDeleteColName = cfg_SoftDeleteColName (x_cfg x),
                                ren_RenameTableOptions = map rename_option suffixed \<rparr>]
             @ ws3
             @ [UpdateFlowStatusInCatalog status]"
    unfolding completed_resync_calls_def s by blast
  have 1: "\<exists>wid. ExecuteChildWorkflow wid SetupFlowWorkflow ((x_cfg x)\<lparr>cfg_TableMappings := suffixed\<rparr>)
                   \<in> set (x_calls x')"
    unfolding r(4) cs
    by (rule exI [of _ "GetChildWorkflowID ''setup-flow'' (cfg_FlowJobName (x_cfg x)) (OriginalRunID en)"])
       simp
  have 2: "\<exists>wid. ExecuteChildWorkflow wid SnapshotFlowWorkflow ((x_cfg x)\<lparr>cfg_TableMappings := suffixed\<rparr>)
                   \<in> set (x_calls x')"
    unfolding r(4) cs
    by (rule exI [of _ "GetChildWorkflowID ''snapshot-flow'' (cfg_FlowJobName (x_cfg x)) (OriginalRunID en)"])
       simp
  have 3: "\<exists>renameOpts. RenameTables renameOpts \<in> set (x_calls x')
             \<and> ren_RenameTableOptions renameOpts = map rename_option suffixed"
    unfolding r(4) cs
    by (rule exI [of _ "\<lparr> ren_FlowJobName = cfg_FlowJobName (x_cfg x),
                                ren_PeerName = cfg_DestinationName (x_cfg x),
                                ren_SyncedAtColName = cfg_SyncedAtColName (x_cfg x),
                                ren_SoftDeleteColName = cfg_SoftDeleteColName (x_cfg x),
                                ren_RenameTableOptions = map rename_option suffixed \<rparr>"])
       simp
  show ?thesis
    using r(1,2,3) 1 2 3 unfolding s o by simp
qed


lemma resync_run:
  "fst (setupSnapshotPhase env_ok script_resync exec_resync)
     = Return (Some state_after_resync, Some (ContinueAsNew_CDCFlowWorkflow cfg_resync state_after_resync))"
  by (simp add: setupSnapshotPhase_def script_resync_def exec_resync_def setupSnapshot_suffix_def
      cfg_resync_def cfg_m1_def NewCDCFlowWorkflowState_def Let_def setupSnapshot_exits_def
      setupSnapshot_rename_def setupSnapshot_finish_def syncStatusToCatalog_def
      add_resync_suffix_def rename_back_def rename_option_def table_a_def table_n_def
      strings_TrimSuffix_def strings_HasSuffix_def GetChildWorkflowID_def env_ok_def setup_output_def
      state_after_resync_def)

theorem resync_suffix_round_trip_witness:
  "cfg_Resync (x_cfg exec_resync)
   \<and> fst (setupSnapshotPhase env_ok script_resync exec_resync)
       = Return (Some state_after_resync, Some (ContinueAsNew_CDCFlowWorkflow cfg_resync state_after_resync))
   \<and> opt_TableMappings (SyncFlowOptions state_after_resync)
       = opt_TableMappings (SyncFlowOptions (x_state exec_resync))
   \<and> (\<exists>renameOpts. RenameTables renameOpts \<in> set (x_calls (snd (setupSnapshotPhase env_ok script_resync exec_resync)))
         \<and> ren_RenameTableOptions renameOpts
             = [\<lparr> CurrentName = ''a_resync'', NewName = ''a'' \<rparr>, \<lparr> CurrentName = ''n'', NewName = ''n'' \<rparr>])"
proof -
  have r: "cfg_Resync (x_cfg exec_resync)"
    by (simp add: exec_resync_def cfg_resync_def)
  have e: "setupSnapshotPhase env_ok script_resync exec_resync
             = (Return (Some state_after_resync,
                        Some (ContinueAsNew_CDCFlowWorkflow cfg_resync state_after_resync)),
                snd (setupSnapshotPhase env_ok script_resync exec_resync))"
    using resync_run by (metis prod.collapse)
  have m: "opt_TableMappings (SyncFlowOptions (x_state exec_resync)) = [table_a, table_n]"
    by (simp add: exec_resync_def NewCDCFlowWorkflowState_def cfg_resync_def cfg_m1_def Let_def)
  show ?thesis
    using resync_suffix_round_trip [OF r e] r resync_run
    by (simp add: m table_a_def table_n_def)
qed

text \<open>
  C9. When the setup and snapshot phase is left on a resync request (in any of its three
  loops; the state did not carry a terminate or resync signal before), the last call is
  the one upload of the config of this run, and the uploaded config is the config the
  phase was entered with, only with \<open>Resync\<close> and \<open>DoInitialSnapshot\<close> set: its
  table mappings are the saved originals and nothing of the state, so none of the
  suffixed live mappings, is merged into it. \<open>DropFlowInput\<close> carries the same config.
\<close>

theorem nested_resync_uploads_original_mappings:
  assumes "ActiveSignal (x_state x) \<noteq> TerminateSignal" and "ActiveSignal (x_state x) \<noteq> ResyncSignal"
    and "setupSnapshotPhase en script x
           = (Return (Some st', Some (ContinueAsNew_DropFlowWorkflow d)), x')"
    and "ActiveSignal st' = ResyncSignal"
  defines "C \<equiv> (x_cfg x)\<lparr>cfg_Resync := True, cfg_DoInitialSnapshot := True\<rparr>"
  shows "cfg_TableMappings C = cfg_TableMappings (x_cfg x)
       \<and> last (x_calls x') = UpdateCDCConfigInCatalog C
       \<and> config_uploads (x_calls x') = config_uploads (x_calls x) @ [C]
       \<and> (\<exists>dropFlowInput. d = Some dropFlowInput \<and> drop_Resync dropFlowInput
              \<and> drop_FlowConnectionConfigs dropFlowInput = Some C)"
  using setupSnapshotPhase_resync [OF assms(1-4)] unfolding C_def by auto

lemma nested_resync_run:
  "fst (setupSnapshotPhase env_ok [FlowSignalStateChange resync_request] exec_resync)
     = Return (Some state_nested_resync, Some (ContinueAsNew_DropFlowWorkflow (Some drop_resync_m1)))"
  by (simp add: setupSnapshotPhase_def exec_resync_def setupSnapshot_suffix_def
      cfg_resync_def cfg_m1_def NewCDCFlowWorkflowState_def Let_def setupSnapshot_exits_def
      syncStatusToCatalog_def setupSnapshot_FlowSignalStateChange_def resync_request_def
      add_resync_suffix_def table_a_def table_n_def uploadConfigToCatalog_def
      GetChildWorkflowID_def env_ok_def state_nested_resync_def drop_resync_m1_def)

theorem nested_resync_uploads_original_mappings_witness:
  "ActiveSignal (x_state exec_resync) \<noteq> TerminateSignal
   \<and> ActiveSignal (x_state exec_resync) \<noteq> ResyncSignal
   \<and> fst (setupSnapshotPhase env_ok [FlowSignalStateChange resync_request] exec_resync)
       = Return (Some state_nested_resync, Some (ContinueAsNew_DropFlowWorkflow (Some drop_resync_m1)))
   \<and> ActiveSignal state_nested_resync = ResyncSignal
   \<and> last (x_calls (snd (setupSnapshotPhase env_ok [FlowSignalStateChange resync_request] exec_resync)))
       = UpdateCDCConfigInCatalog cfg_resync
   \<and> map DestinationTableIdentifier (cfg_TableMappings cfg_resync) = [''a'', ''n'']
   \<and> map DestinationTableIdentifier (opt_TableMappings (SyncFlowOptions state_nested_resync))
       = [''a_resync'', ''n'']"
proof -
  have a: "ActiveSignal (x_state exec_resync) \<noteq> TerminateSignal"
    "ActiveSignal (x_state exec_resync) \<noteq> ResyncSignal"
    by (simp_all add: exec_resync_def NewCDCFlowWorkflowState_def Let_def)
  have e: "setupSnapshotPhase env_ok [FlowSignalStateChange resync_request] exec_resync
             = (Return (Some state_nested_resync,
                        Some (ContinueAsNew_DropFlowWorkflow (Some drop_resync_m1))),
                snd (setupSnapshotPhase env_ok [FlowSignalStateChange resync_request] exec_resync))"
    using nested_resync_run by (metis prod.collapse)
  have r: "ActiveSignal state_nested_resync = ResyncSignal"
    by (simp add: state_nested_resync_def)
  have c: "(x_cfg exec_resync)\<lparr>cfg_Resync := True, cfg_DoInitialSnapshot := True\<rparr> = cfg_resync"
    by (simp add: exec_resync_def cfg_resync_def cfg_m1_def)
  have m: "map DestinationTableIdentifier (cfg_TableMappings cfg_resync) = [''a'', ''n'']"
    "map DestinationTableIdentifier (opt_TableMappings (SyncFlowOptions state_nested_resync))
       = [''a_resync'', ''n'']"
    by (simp_all add: cfg_resync_def cfg_m1_def state_nested_resync_def add_resync_suffix_def
          table_a_def table_n_def)
  show ?thesis
    using nested_resync_uploads_original_mappings [OF a e r] a nested_resync_run r m unfolding c by simp
qed


subsection \<open>The error counter of the main loop\<close>

lemma mainLoop_FlowSignalStateChange_counts [simp]:
  "ErrorCount (x_state (mainLoop_FlowSignalStateChange val x)) = ErrorCount (x_state x)"
  "LastError (x_state (mainLoop_FlowSignalStateChange val x)) = LastError (x_state x)"
  by (cases "req_RequestedFlowState val";
      simp add: mainLoop_FlowSignalStateChange_def Let_def)+

lemma error_count_inv_Select:
  "error_count_inv e0 t0 m \<Longrightarrow> error_count_inv e0 t0 (mainLoop_Select en e m)"
  by (cases e)
     (auto simp: error_count_inv_def syncFlowFuture_callback_def sleepFuture_callback_def
        mainLoop_FlowSignal_def Let_def split: option.splits if_splits)

lemma error_count_inv_drain:
  "error_count_inv e0 t0 m \<Longrightarrow> error_count_inv e0 t0 (fst (mainLoop_drain en script m))"
proof (induction script arbitrary: m)
  case (Cons e script)
  show ?case
  proof (cases "x_canceled (m_exec m) \<or> is_SelectorIdle e")
    case True
    with Cons.prems show ?thesis by auto
  next
    case False
    show ?thesis
    proof (cases "e = CtxDone")
      case True
      with False Cons.prems show ?thesis by (simp add: error_count_inv_def)
    next
      case ne: False
      with False Cons.IH [OF error_count_inv_Select [OF Cons.prems]] show ?thesis by simp
    qed
  qed
qed simp

lemma error_count_inv_Get:
  "syncFlowFuture_Get script m = (r, m1, script1) \<Longrightarrow> error_count_inv e0 t0 m
   \<Longrightarrow> error_count_inv e0 t0 m1"
  by (auto simp: syncFlowFuture_Get_def error_count_inv_def Let_def split: if_splits list.splits)

lemma mainLoop_finish_counts:
  assumes "error_count_inv e0 t0 m" "mainLoop_finish en script m = (r, m')"
  shows "finish_counts e0 t0 r m'"
proof -
  let ?m0 = "m\<lparr>m_exec := issue CancelSync (m_exec m)\<rparr>"
  have i0: "error_count_inv e0 t0 ?m0"
    using assms(1) by (simp add: error_count_inv_def)
  obtain g m1 s1 where g: "syncFlowFuture_Get script ?m0 = (g, m1, s1)"
    by (cases "syncFlowFuture_Get script ?m0")
  from error_count_inv_Get [OF g i0] have i1: "error_count_inv e0 t0 m1" .
  from error_count_inv_drain [OF i1] have i2: "error_count_inv e0 t0 (fst (mainLoop_drain en s1 m1))" .
  show ?thesis
  proof (cases g)
    case (Leave u)
    with assms(2) g i2 show ?thesis
      by (auto simp: mainLoop_finish_def finish_counts_def error_count_inv_def Let_def
               split: if_splits)
  qed (use assms(2) g in \<open>auto simp: mainLoop_finish_def finish_counts_def\<close>)
qed

lemma mainLoop_run_counts:
  "error_count_inv e0 t0 m \<Longrightarrow> mainLoop_run en script m = (r, m') \<Longrightarrow> finish_counts e0 t0 r m'"
proof (induction en script m rule: mainLoop_run.induct)
  case (1 en script m)
  show ?case
  proof (cases "dropWhile is_SelectorIdle script")
    case Nil
    with "1.prems" show ?thesis
      by (subst (asm) mainLoop_run.simps) (simp add: finish_counts_def)
  next
    case (Cons e script1)
    let ?m1 = "mainLoop_Select en e m"
    let ?m2 = "fst (mainLoop_drain en script1 ?m1)"
    let ?script2 = "snd (mainLoop_drain en script1 ?m1)"
    let ?m3 = "if ShouldWorkflowContinueAsNew ?script2 then ?m2\<lparr>finished := True\<rparr> else ?m2"
    have i2: "error_count_inv e0 t0 ?m2"
      using error_count_inv_drain [OF error_count_inv_Select [OF "1.prems"(1)]] .
    then have i3: "error_count_inv e0 t0 ?m3"
      by (simp add: error_count_inv_def)
    show ?thesis
    proof (cases "x_canceled (m_exec ?m2)")
      case True
      with "1.prems"(2) Cons show ?thesis
        by (subst (asm) mainLoop_run.simps) (auto simp: finish_counts_def Let_def)
    next
      case False
      show ?thesis
      proof (cases "finished ?m3")
        case True
        with "1.prems"(2) Cons False have "mainLoop_finish en (after_idle ?script2) ?m3 = (r, m')"
          by (subst (asm) mainLoop_run.simps) (simp add: Let_def)
        from mainLoop_finish_counts [OF i3 this] show ?thesis .
      next
        case nf: False
        with "1.prems"(2) Cons False have "mainLoop_run en (after_idle ?script2) ?m3 = (r, m')"
          by (subst (asm) mainLoop_run.simps) (simp add: Let_def)
        from "1.IH" [OF Cons refl refl refl False refl nf i3 this] show ?thesis .
      qed
    qed
  qed
qed

lemma mainLoop_FlowSignalStateChange_canceled [simp]:
  "x_canceled (mainLoop_FlowSignalStateChange val x) = x_canceled x"
  by (cases "req_RequestedFlowState val";
      simp add: mainLoop_FlowSignalStateChange_def Let_def)

lemma clean_done_Select:
  "e \<noteq> CtxDone \<Longrightarrow> clean_done m \<Longrightarrow> clean_done (mainLoop_Select en e m)"
  by (cases e) (auto simp: clean_done_def mainLoop_FlowSignal_def Let_def)

lemma error_done_Select:
  "e \<noteq> CtxDone \<Longrightarrow> error_done ec m \<Longrightarrow> error_done ec (mainLoop_Select en e m)"
  by (cases e) (auto simp: error_done_def mainLoop_FlowSignal_def sleepFuture_callback_def Let_def)

lemma mainLoop_drain_keeps:
  assumes "\<And>e m. e \<noteq> CtxDone \<Longrightarrow> P m \<Longrightarrow> P (mainLoop_Select en e m)"
    and "P m" and "CtxDone \<notin> set script"
  shows "P (fst (mainLoop_drain en script m))"
  using assms(2,3)
proof (induction script arbitrary: m)
  case (Cons e script)
  then show ?case
    using assms(1) [of e m] by auto
qed simp

lemma mainLoop_drain_rest: "set (snd (mainLoop_drain en script m)) \<subseteq> set script"
  by (induction script arbitrary: m) auto

lemma after_idle_rest: "set (after_idle script) \<subseteq> set script"
  by (cases script rule: after_idle.cases) auto

lemma mainLoop_finish_clean:
  assumes "clean_done m" "CtxDone \<notin> set script"
  shows "\<exists>st' e m'. mainLoop_finish en script m = (Return (Some st', Some e), m')
           \<and> e \<noteq> ErrCanceled \<and> ErrorCount st' = 0"
proof -
  let ?m0 = "m\<lparr>m_exec := issue CancelSync (m_exec m)\<rparr>"
  have "clean_done ?m0"
    using assms(1) by (simp add: clean_done_def)
  then have d: "clean_done (fst (mainLoop_drain en script ?m0))"
    using assms(2) by (intro mainLoop_drain_keeps [where P = clean_done]) (auto intro: clean_done_Select)
  have g: "syncFlowFuture_Get script ?m0 = (Leave (), ?m0, script)"
    using assms(1) by (simp add: syncFlowFuture_Get_def clean_done_def)
  show ?thesis
    using d by (auto simp: mainLoop_finish_def g Let_def clean_done_def)
qed

lemma mainLoop_finish_error:
  assumes "error_done ec m" "CtxDone \<notin> set script"
  shows "\<exists>st' e m'. mainLoop_finish en script m = (Return (Some st', Some e), m')
           \<and> e \<noteq> ErrCanceled \<and> ErrorCount st' = ec + 1"
proof -
  let ?m0 = "m\<lparr>m_exec := issue CancelSync (m_exec m)\<rparr>"
  have "error_done ec ?m0"
    using assms(1) by (simp add: error_done_def)
  then have d: "error_done ec (fst (mainLoop_drain en script ?m0))"
    using assms(2)
    by (intro mainLoop_drain_keeps [where P = "error_done ec"]) (auto intro: error_done_Select)
  have g: "syncFlowFuture_Get script ?m0 = (Leave (), ?m0, script)"
    using assms(1) by (simp add: syncFlowFuture_Get_def error_done_def)
  show ?thesis
    using d by (auto simp: mainLoop_finish_def g Let_def error_done_def)
qed

text \<open>An iteration of the main loop whose drained selector leaves the flow finished and
  the context not cancelled goes on to the block \<open>if finished\<close>.\<close>

lemma mainLoop_run_finishes:
  assumes "dropWhile is_SelectorIdle s = e # script1"
    and "finished (fst (mainLoop_drain en script1 (mainLoop_Select en e m)))"
    and "\<not> x_canceled (m_exec (fst (mainLoop_drain en script1 (mainLoop_Select en e m))))"
  shows "mainLoop_run en s m
           = mainLoop_finish en (after_idle (snd (mainLoop_drain en script1 (mainLoop_Select en e m))))
               (fst (mainLoop_drain en script1 (mainLoop_Select en e m)))"
proof -
  let ?m2 = "fst (mainLoop_drain en script1 (mainLoop_Select en e m))"
  have eq: "?m2\<lparr>finished := True\<rparr> = ?m2"
    using assms(2) by (cases ?m2) simp
  show ?thesis
    using assms by (subst mainLoop_run.simps) (simp add: Let_def eq del: mainLoop_run.simps)
qed

lemma clean_completion_run:
  assumes "\<not> syncFlowFuture_fired m" "\<not> sleepFuture_added m" "\<not> finishedError m"
    and "\<not> x_canceled (m_exec m)" and "CtxDone \<notin> set script"
  shows "\<exists>st' e m'. mainLoop_run en (SyncFlowDone None now # script) m = (Return (Some st', Some e), m')
           \<and> e \<noteq> ErrCanceled \<and> ErrorCount st' = 0"
proof -
  let ?m1 = "mainLoop_Select en (SyncFlowDone None now) m"
  let ?m2 = "fst (mainLoop_drain en script ?m1)"
  let ?script2 = "snd (mainLoop_drain en script ?m1)"
  have "clean_done ?m1"
    using assms(1-4) by (simp add: clean_done_def syncFlowFuture_callback_def)
  then have d: "clean_done ?m2"
    using assms(5) by (intro mainLoop_drain_keeps [where P = clean_done]) (auto intro: clean_done_Select)
  have r: "CtxDone \<notin> set (after_idle ?script2)"
    using assms(5) mainLoop_drain_rest [of en script ?m1] after_idle_rest [of ?script2] by blast
  have "mainLoop_run en (SyncFlowDone None now # script) m = mainLoop_finish en (after_idle ?script2) ?m2"
    using d by (intro mainLoop_run_finishes) (simp_all add: clean_done_def)
  with mainLoop_finish_clean [OF d r] show ?thesis
    by simp
qed

lemma sleep_fired_drain:
  assumes "sleep_pending ec m" "CtxDone \<notin> set script"
  shows "error_done ec (fst (mainLoop_drain en script (mainLoop_Select en SleepFired m)))"
proof -
  have "error_done ec (mainLoop_Select en SleepFired m)"
    using assms(1) by (simp add: sleep_pending_def error_done_def sleepFuture_callback_def)
  then show ?thesis
    using assms(2)
    by (intro mainLoop_drain_keeps [where P = "error_done ec"]) (auto intro: error_done_Select)
qed

lemma sleep_fired_run:
  assumes "sleep_pending ec m" "CtxDone \<notin> set script"
    and "dropWhile is_SelectorIdle s = SleepFired # script"
  shows "\<exists>st' e m'. mainLoop_run en s m = (Return (Some st', Some e), m')
           \<and> e \<noteq> ErrCanceled \<and> ErrorCount st' = ec + 1"
proof -
  let ?m1 = "mainLoop_Select en SleepFired m"
  let ?m2 = "fst (mainLoop_drain en script ?m1)"
  let ?script2 = "snd (mainLoop_drain en script ?m1)"
  have d: "error_done ec ?m2"
    using assms(1,2) by (rule sleep_fired_drain)
  have r: "CtxDone \<notin> set (after_idle ?script2)"
    using assms(2) mainLoop_drain_rest [of en script ?m1] after_idle_rest [of ?script2] by blast
  have "mainLoop_run en s m = mainLoop_finish en (after_idle ?script2) ?m2"
    using d assms(3) by (intro mainLoop_run_finishes) (simp_all add: error_done_def)
  with mainLoop_finish_error [OF d r] show ?thesis
    by simp
qed

lemma dropWhile_idles:
  "dropWhile is_SelectorIdle (replicate n (SelectorIdle b) @ SleepFired # script) = SleepFired # script"
  by (induction n) simp_all

lemma sync_error_run:
  fixes m :: mainLoop and now :: time
  defines "ec \<equiv> (if LastError (x_state (m_exec m)) + 24 * Hour < now then 0
                  else ErrorCount (x_state (m_exec m)))"
  assumes "\<not> syncFlowFuture_fired m" "\<not> finished m" "\<not> sleepFuture_fired m"
    and "\<not> x_canceled (m_exec m)" and "\<not> is_ErrCanceled err" and "CtxDone \<notin> set script"
  shows "\<exists>st' e m'. mainLoop_run en (SyncFlowDone (Some err) now
                                        # replicate n (SelectorIdle False) @ SleepFired # script) m
                       = (Return (Some st', Some e), m')
           \<and> e \<noteq> ErrCanceled \<and> ErrorCount st' = ec + 1"
proof -
  let ?m1 = "mainLoop_Select en (SyncFlowDone (Some err) now) m"
  have p: "sleep_pending ec ?m1"
    using assms(2-6) by (simp add: sleep_pending_def syncFlowFuture_callback_def Let_def ec_def)
  have nf: "\<not> finished ?m1"
    using assms(2-6) by (simp add: syncFlowFuture_callback_def Let_def)
  show ?thesis
  proof (cases n)
    case 0
    let ?m2 = "fst (mainLoop_drain en script (mainLoop_Select en SleepFired ?m1))"
    let ?script2 = "snd (mainLoop_drain en script (mainLoop_Select en SleepFired ?m1))"
    have c: "\<not> x_canceled (m_exec ?m1)"
      using p by (simp add: sleep_pending_def)
    have dr: "mainLoop_drain en (SleepFired # script) ?m1
                = mainLoop_drain en script (mainLoop_Select en SleepFired ?m1)"
      using c by simp
    have d: "error_done ec ?m2"
      using p assms(7) by (rule sleep_fired_drain)
    have r: "CtxDone \<notin> set (after_idle ?script2)"
      using assms(7) mainLoop_drain_rest [of en script "mainLoop_Select en SleepFired ?m1"]
        after_idle_rest [of ?script2] by blast
    have "mainLoop_run en (SyncFlowDone (Some err) now # SleepFired # script) m
            = mainLoop_finish en
                (after_idle (snd (mainLoop_drain en (SleepFired # script) ?m1)))
                (fst (mainLoop_drain en (SleepFired # script) ?m1))"
    proof (rule mainLoop_run_finishes)
      show "dropWhile is_SelectorIdle (SyncFlowDone (Some err) now # SleepFired # script)
              = SyncFlowDone (Some err) now # SleepFired # script"
        by simp
      show "finished (fst (mainLoop_drain en (SleepFired # script) ?m1))"
        using d unfolding dr by (simp add: error_done_def)
      show "\<not> x_canceled (m_exec (fst (mainLoop_drain en (SleepFired # script) ?m1)))"
        using d unfolding dr by (simp add: error_done_def)
    qed
    then have "mainLoop_run en (SyncFlowDone (Some err) now # SleepFired # script) m
            = mainLoop_finish en (after_idle ?script2) ?m2"
      unfolding dr .
    with mainLoop_finish_error [OF d r] 0 show ?thesis
      by simp
  next
    case (Suc k)
    let ?rest = "replicate k (SelectorIdle False) @ SleepFired # script"
    have c: "\<not> x_canceled (m_exec ?m1)"
      using p by (simp add: sleep_pending_def)
    have "mainLoop_run en (SyncFlowDone (Some err) now # SelectorIdle False # ?rest) m
            = mainLoop_run en ?rest ?m1"
      using nf c by (subst mainLoop_run.simps) (simp add: Let_def del: mainLoop_run.simps)
    with sleep_fired_run [OF p assms(7) dropWhile_idles, of en k False] Suc show ?thesis
      by simp
  qed
qed

text \<open>
  C4. For a main loop that starts with no sleep registered, with \<open>e0\<close> and \<open>t0\<close> the
  \<open>ErrorCount\<close> and \<open>LastError\<close> of the state at that point: when a sync error is
  delivered (the flow not finished, the error not \<open>ErrCanceled\<close>), \<open>ErrorCount\<close>
  becomes zero if more than 24 hours lie between \<open>LastError\<close> and the time of the new
  error and stays otherwise, and \<open>LastError\<close> becomes that time. When the loop finishes
  (it returns a continue-as-new), the count is that value plus one if the sleep
  registered after the error has fired, and zero if it has not. And the loop does
  finish so when the context is not cancelled: after a sync error followed, over any
  number of idle points of the selector, by the firing of its sleep, the run returns a
  continue-as-new with the count after the reset check plus one; after a clean sync
  completion it returns a continue-as-new with the count zero.
\<close>

theorem error_count_reset_and_increment:
  fixes en :: env and m :: mainLoop and script :: "event list" and err :: sync_failure and now :: time
  defines "e0 \<equiv> ErrorCount (x_state (m_exec m))"
  defines "t0 \<equiv> LastError (x_state (m_exec m))"
  assumes "\<not> sleepFuture_added m" and "\<not> sleepFuture_fired m" and "\<not> finishedError m"
  shows "(\<not> syncFlowFuture_fired m \<and> \<not> finished m \<and> \<not> is_ErrCanceled err \<longrightarrow>
            ErrorCount (x_state (m_exec (mainLoop_Select en (SyncFlowDone (Some err) now) m)))
              = (if t0 + 24 * Hour < now then 0 else e0)
          \<and> LastError (x_state (m_exec (mainLoop_Select en (SyncFlowDone (Some err) now) m))) = now)
       \<and> (\<forall>st' e m'. mainLoop_run en script m = (Return (Some st', Some e), m') \<and> e \<noteq> ErrCanceled \<longrightarrow>
            (sleepFuture_fired m' \<longrightarrow>
               ErrorCount st' = (if t0 + 24 * Hour < LastError st' then 0 else e0) + 1)
          \<and> (\<not> sleepFuture_fired m' \<longrightarrow> ErrorCount st' = 0))
       \<and> (\<not> syncFlowFuture_fired m \<and> \<not> finished m \<and> \<not> is_ErrCanceled err
            \<and> \<not> x_canceled (m_exec m) \<and> CtxDone \<notin> set script \<longrightarrow>
            (\<exists>st' e m'. mainLoop_run en (SyncFlowDone (Some err) now
                                          # replicate n (SelectorIdle False) @ SleepFired # script) m
                           = (Return (Some st', Some e), m')
                 \<and> e \<noteq> ErrCanceled
                 \<and> ErrorCount st' = (if t0 + 24 * Hour < now then 0 else e0) + 1))
       \<and> (\<not> syncFlowFuture_fired m \<and> \<not> x_canceled (m_exec m) \<and> CtxDone \<notin> set script \<longrightarrow>
            (\<exists>st' e m'. mainLoop_run en (SyncFlowDone None now # script) m = (Return (Some st', Some e), m')
                 \<and> e \<noteq> ErrCanceled \<and> ErrorCount st' = 0))"
proof -
  have i: "error_count_inv e0 t0 m"
    using assms(3-5) by (simp add: error_count_inv_def e0_def t0_def)
  have a: "ErrorCount (x_state (m_exec (mainLoop_Select en (SyncFlowDone (Some err) now) m)))
              = (if t0 + 24 * Hour < now then 0 else e0)
          \<and> LastError (x_state (m_exec (mainLoop_Select en (SyncFlowDone (Some err) now) m))) = now"
    if "\<not> syncFlowFuture_fired m" "\<not> finished m" "\<not> is_ErrCanceled err"
    using that by (simp add: syncFlowFuture_callback_def Let_def e0_def t0_def)
  have b: "(sleepFuture_fired m' \<longrightarrow>
               ErrorCount st' = (if t0 + 24 * Hour < LastError st' then 0 else e0) + 1)
          \<and> (\<not> sleepFuture_fired m' \<longrightarrow> ErrorCount st' = 0)"
    if "mainLoop_run en script m = (Return (Some st', Some e), m')" "e \<noteq> ErrCanceled" for st' e m'
    using mainLoop_run_counts [OF i that(1)] that(2) by (auto simp: finish_counts_def)
  have c: "\<exists>st' e m'. mainLoop_run en (SyncFlowDone (Some err) now
                                          # replicate n (SelectorIdle False) @ SleepFired # script) m
                           = (Return (Some st', Some e), m')
                 \<and> e \<noteq> ErrCanceled
                 \<and> ErrorCount st' = (if t0 + 24 * Hour < now then 0 else e0) + 1"
    if "\<not> syncFlowFuture_fired m" "\<not> finished m" "\<not> is_ErrCanceled err"
      "\<not> x_canceled (m_exec m)" "CtxDone \<notin> set script"
    unfolding e0_def t0_def using that(1,2) assms(4) that(4,3,5) by (rule sync_error_run)
  have d: "\<exists>st' e m'. mainLoop_run en (SyncFlowDone None now # script) m = (Return (Some st', Some e), m')
                 \<and> e \<noteq> ErrCanceled \<and> ErrorCount st' = 0"
    if "\<not> syncFlowFuture_fired m" "\<not> x_canceled (m_exec m)" "CtxDone \<notin> set script"
    using that(1) assms(3,5) that(2,3) by (rule clean_completion_run)
  show ?thesis
    using a b c d by blast
qed

lemma error_run:
  "fst (mainLoop_run env_ok script_error mainLoop_m1)
     = Return (Some state_after_error, Some (ContinueAsNew_CDCFlowWorkflow cfg_m1 state_after_error))"
  "sleepFuture_fired (snd (mainLoop_run env_ok script_error mainLoop_m1))"
  by (simp_all add: script_error_def mainLoop_m1_def exec_m1_def Let_def syncFlowFuture_callback_def
        sleepFuture_callback_def mainLoop_finish_def syncFlowFuture_Get_def panic_failure_def
        state_m1_def Hour_def sleepFor_of_def min_int32_def Minute_def state_after_error_def
        mainLoop_run.simps)

lemma clean_run:
  "mainLoop_run env_ok script_clean mainLoop_m1
     = (Return (Some state_after_clean, Some (ContinueAsNew_CDCFlowWorkflow cfg_m1 state_after_clean)),
        mainLoop_m1\<lparr>m_exec := exec_m1\<lparr>x_state := state_after_clean, x_calls := [CancelSync]\<rparr>,
                     finished := True, syncFlowFuture_fired := True\<rparr>)"
  by (simp add: script_clean_def mainLoop_m1_def exec_m1_def Let_def syncFlowFuture_callback_def
        mainLoop_finish_def syncFlowFuture_Get_def state_m1_def state_after_clean_def issue_def
        mainLoop_run.simps)

theorem error_count_reset_and_increment_witness:
  "\<not> sleepFuture_added mainLoop_m1 \<and> \<not> sleepFuture_fired mainLoop_m1 \<and> \<not> finishedError mainLoop_m1
   \<and> \<not> syncFlowFuture_fired mainLoop_m1 \<and> \<not> finished mainLoop_m1
   \<and> \<not> x_canceled (m_exec mainLoop_m1) \<and> \<not> is_ErrCanceled panic_failure
   \<and> ErrorCount (x_state (m_exec mainLoop_m1)) = 2
   \<and> fst (mainLoop_run env_ok script_error mainLoop_m1)
       = Return (Some state_after_error, Some (ContinueAsNew_CDCFlowWorkflow cfg_m1 state_after_error))
   \<and> sleepFuture_fired (snd (mainLoop_run env_ok script_error mainLoop_m1))
   \<and> ErrorCount state_after_error = 2 + 1
   \<and> fst (mainLoop_run env_ok script_clean mainLoop_m1)
       = Return (Some state_after_clean, Some (ContinueAsNew_CDCFlowWorkflow cfg_m1 state_after_clean))
   \<and> ErrorCount state_after_clean = 0"
proof -
  have h: "\<not> sleepFuture_added mainLoop_m1" "\<not> sleepFuture_fired mainLoop_m1"
    "\<not> finishedError mainLoop_m1"
    by (simp_all add: mainLoop_m1_def)
  have g: "\<not> syncFlowFuture_fired mainLoop_m1" "\<not> finished mainLoop_m1"
    "\<not> x_canceled (m_exec mainLoop_m1)" "\<not> is_ErrCanceled panic_failure"
    by (simp_all add: mainLoop_m1_def exec_m1_def panic_failure_def)
  have v: "ErrorCount (x_state (m_exec mainLoop_m1)) = 2"
    "LastError (x_state (m_exec mainLoop_m1)) = 0"
    by (simp_all add: mainLoop_m1_def exec_m1_def state_m1_def)
  have t: "\<not> (0 + 24 * Hour < (1 :: int))"
    by (simp add: Hour_def)
  have s: "script_error = SyncFlowDone (Some panic_failure) 1
                           # replicate 0 (SelectorIdle False) @ SleepFired # [SelectorIdle False]"
    "script_clean = SyncFlowDone None 1 # [SelectorIdle False]"
    "CtxDone \<notin> set [SelectorIdle False]"
    by (simp_all add: script_error_def script_clean_def)
  note inst = error_count_reset_and_increment [OF h, where en = env_ok and now = 1 and err = panic_failure
                      and script = "[SelectorIdle False]" and n = 0]
  from inst g s(3)
  have "\<exists>st' e m'. mainLoop_run env_ok script_error mainLoop_m1 = (Return (Some st', Some e), m')
          \<and> e \<noteq> ErrCanceled
          \<and> ErrorCount st' = (if LastError (x_state (m_exec mainLoop_m1)) + 24 * Hour < 1 then 0
                               else ErrorCount (x_state (m_exec mainLoop_m1))) + 1"
    unfolding s(1) by blast
  then have "\<exists>st' e m'. mainLoop_run env_ok script_error mainLoop_m1 = (Return (Some st', Some e), m')
          \<and> ErrorCount st' = 2 + 1"
    using t by (auto simp: v)
  then have e3: "ErrorCount state_after_error = 2 + 1"
    using error_run(1) by auto
  from inst g s(3)
  have "\<exists>st' e m'. mainLoop_run env_ok script_clean mainLoop_m1 = (Return (Some st', Some e), m')
          \<and> e \<noteq> ErrCanceled \<and> ErrorCount st' = 0"
    unfolding s(2) by blast
  then have e0: "ErrorCount state_after_clean = 0"
    using clean_run by auto
  show ?thesis
    using h g v(1) error_run e3 e0 clean_run by simp
qed


subsection \<open>Status updates and cancellation\<close>

lemma status_calls_simps [simp]:
  "status_calls [] = []"
  "status_calls (c # cs) = status_of_call c @ status_calls cs"
  "status_calls (cs @ cs') = status_calls cs @ status_calls cs'"
  by (simp_all add: status_calls_def)

lemma status_trail_quiet:
  "CurrentFlowStatus (x_state y) = CurrentFlowStatus (x_state x)
   \<Longrightarrow> status_calls (x_calls y) = status_calls (x_calls x) \<Longrightarrow> status_trail S x y"
  by (auto simp: status_trail_def intro!: exI [of _ "[]"])

lemma status_trail_refl [simp]: "status_trail S x x"
  by (simp add: status_trail_quiet)

lemma status_trail_trans:
  assumes "status_trail S x y" "status_trail S y z"
  shows "status_trail S x z"
proof -
  from assms obtain a b where a: "set a \<subseteq> S" "status_calls (x_calls y) = status_calls (x_calls x) @ a"
      "CurrentFlowStatus (x_state y) = last (CurrentFlowStatus (x_state x) # a)"
    and b: "set b \<subseteq> S" "status_calls (x_calls z) = status_calls (x_calls y) @ b"
      "CurrentFlowStatus (x_state z) = last (CurrentFlowStatus (x_state y) # b)"
    unfolding status_trail_def by blast
  have "set (a @ b) \<subseteq> S" "status_calls (x_calls z) = status_calls (x_calls x) @ (a @ b)"
    "CurrentFlowStatus (x_state z) = last (CurrentFlowStatus (x_state x) # (a @ b))"
    using a b by (auto simp: last_append)
  then show ?thesis unfolding status_trail_def by blast
qed

lemma status_trail_mono: "status_trail S x y \<Longrightarrow> S \<subseteq> T \<Longrightarrow> status_trail T x y"
  unfolding status_trail_def by blast

lemma status_trail_updateStatus: "s \<in> S \<Longrightarrow> status_trail S x (updateStatus s x)"
  unfolding status_trail_def by (intro exI [of _ "[s]"]) simp

lemma status_trail_updateStatus_after:
  "status_trail S x y \<Longrightarrow> s \<in> S \<Longrightarrow> status_trail S x (updateStatus s y)"
  using status_trail_trans status_trail_updateStatus by blast

lemma status_trail_issue:
  "status_of_call c = [] \<Longrightarrow> status_trail S x y \<Longrightarrow> status_trail S x (issue c y)"
  by (rule status_trail_trans [of S x y]) (auto intro: status_trail_quiet)

lemma quiet_pauseLoop_Select:
  "CurrentFlowStatus (x_state (pauseLoop_Select en e x)) = CurrentFlowStatus (x_state x)"
  "status_calls (x_calls (pauseLoop_Select en e x)) = status_calls (x_calls x)"
  by (cases e; cases "req_RequestedFlowState (case e of FlowSignalStateChange v \<Rightarrow> v)";
      simp add: pauseLoop_FlowSignalStateChange_def Let_def)+

lemma quiet_setupSnapshot_Select:
  "CurrentFlowStatus (x_state (setupSnapshot_Select orig e x)) = CurrentFlowStatus (x_state x)"
  "status_calls (x_calls (setupSnapshot_Select orig e x)) = status_calls (x_calls x)"
  by (cases e; cases "req_RequestedFlowState (case e of FlowSignalStateChange v \<Rightarrow> v)";
      simp add: setupSnapshot_FlowSignalStateChange_def uploadConfigToCatalog_def Let_def)+

lemma quiet_mainLoop_Select:
  "CurrentFlowStatus (x_state (m_exec (mainLoop_Select en e m))) = CurrentFlowStatus (x_state (m_exec m))"
  "status_calls (x_calls (m_exec (mainLoop_Select en e m))) = status_calls (x_calls (m_exec m))"
  by (cases e; cases "req_RequestedFlowState (case e of FlowSignalStateChange v \<Rightarrow> v)";
      simp add: mainLoop_FlowSignalStateChange_def mainLoop_FlowSignal_def
        syncFlowFuture_callback_def sleepFuture_callback_def Let_def split: option.splits)+

lemma quiet_addTables_step:
  assumes "addTables_after_Select upd (fst (addTables_Select e x))
             (fst (snd (addTables_Select e x))) (snd (snd (addTables_Select e x))) = (r, x1)"
  shows "CurrentFlowStatus (x_state x1) = CurrentFlowStatus (x_state x)"
    and "status_calls (x_calls x1) = status_calls (x_calls x)"
  using assms
  by (cases e; auto simp: addTables_after_Select_def addTables_FlowSignalStateChange_def Let_def
           split: if_splits option.splits)+

lemma status_trail_addTables_loop:
  "addTables_loop upd script x = (r, x', script') \<Longrightarrow> status_trail S x x'"
proof (induction script arbitrary: x)
  case (Cons e script)
  show ?case
  proof (cases "addTables_registered e")
    case False
    with Cons show ?thesis by simp
  next
    case True
    obtain r1 x1 where step: "addTables_after_Select upd (fst (addTables_Select e x))
             (fst (snd (addTables_Select e x))) (snd (snd (addTables_Select e x))) = (r1, x1)"
      by (cases "addTables_after_Select upd (fst (addTables_Select e x))
             (fst (snd (addTables_Select e x))) (snd (snd (addTables_Select e x)))")
    have q: "status_trail S x x1"
      using quiet_addTables_step [OF step] by (rule status_trail_quiet)
    show ?thesis
    proof (cases r1)
      case Waiting
      with Cons.prems True step have "addTables_loop upd script x1 = (r, x', script')" by simp
      from status_trail_trans [OF q Cons.IH [OF this]] show ?thesis .
    next
      case (Leave a)
      with Cons.prems True step q show ?thesis by simp
    next
      case (Return a)
      with Cons.prems True step q show ?thesis by simp
    qed
  qed
qed simp

lemma status_trail_processTableAdditions:
  assumes "processTableAdditions en script x = (r, x', script')"
  shows "status_trail {STATUS_SNAPSHOT} x x'"
proof (cases "FlowConfigUpdate (x_state x)")
  case None
  with assms show ?thesis by (simp add: processTableAdditions_def)
next
  case (Some upd)
  show ?thesis
  proof (cases "upd_AdditionalTables upd = []
                \<or> AdditionalTablesHasOverlap (opt_TableMappings (SyncFlowOptions (x_state x)))
                     (upd_AdditionalTables upd)")
    case True
    with assms Some have "x' = snd (syncStateToConfigProtoInCatalog x)
        \<or> x' = snd (syncStateToConfigProtoInCatalog
               (issue (LoggerWarn ''duplicate source/destination tables found in additionalTables'') x))"
      by (auto simp: processTableAdditions_def split: if_splits)
    then show ?thesis
      by (auto intro!: status_trail_quiet)
  next
    case False
    let ?x2 = "issue (AddTablesToPublication (x_cfg x) (upd_AdditionalTables upd))
                 (updateStatus STATUS_SNAPSHOT x)"
    have t2: "status_trail {STATUS_SNAPSHOT} x ?x2"
      by (intro status_trail_issue status_trail_updateStatus) simp_all
    show ?thesis
    proof (cases "AddTablesToPublication_result en")
      case (Some err)
      with assms \<open>FlowConfigUpdate (x_state x) = Some upd\<close> False t2 show ?thesis
        by (auto simp: processTableAdditions_def Let_def)
    next
      case None
      define additionalTablesCfg where "additionalTablesCfg = (x_cfg ?x2)
                          \<lparr> cfg_DoInitialSnapshot := True,
                            cfg_InitialSnapshotOnly := True,
                            cfg_TableMappings := upd_AdditionalTables upd,
                            cfg_Resync := False,
                            cfg_SnapshotNumRowsPerPartition := SnapshotNumRowsPerPartition (x_state ?x2),
                            cfg_SnapshotMaxParallelWorkers := SnapshotMaxParallelWorkers (x_state ?x2),
                            cfg_SnapshotNumTablesInParallel := SnapshotNumTablesInParallel (x_state ?x2) \<rparr>"
      let ?x3 = "issue (ExecuteChildWorkflow
                   (GetChildWorkflowID ''additional-cdc-flow'' (cfg_FlowJobName (x_cfg ?x2)) (GetUUID en))
                   ChildCDCFlowWorkflow additionalTablesCfg) ?x2"
      have t3: "status_trail {STATUS_SNAPSHOT} x ?x3"
        by (intro status_trail_issue t2) simp
      obtain r4 x4 s4 where l: "addTables_loop upd script ?x3 = (r4, x4, s4)"
        by (cases "addTables_loop upd script ?x3")
      from status_trail_trans [OF t3 status_trail_addTables_loop [OF l]]
      have t4: "status_trail {STATUS_SNAPSHOT} x x4" .
      from assms \<open>FlowConfigUpdate (x_state x) = Some upd\<close> False None l
      have "x' = x4 \<or> (\<exists>merged. processTableAdditions_append upd x4 merged s4 = (r, x', script'))"
        by (auto simp: processTableAdditions_def Let_def additionalTablesCfg_def
                 split: flow.splits option.splits)
      then show ?thesis
      proof
        assume "x' = x4"
        with t4 show ?thesis by simp
      next
        assume "\<exists>merged. processTableAdditions_append upd x4 merged s4 = (r, x', script')"
        then have "status_trail {STATUS_SNAPSHOT} x4 x'"
          by (auto simp: processTableAdditions_append_def intro!: status_trail_quiet)
        with t4 show ?thesis by (rule status_trail_trans)
      qed
    qed
  qed
qed

lemma status_trail_processTableRemovals:
  "processTableRemovals en x = (r, x') \<Longrightarrow> status_trail S x x'"
  by (auto simp: processTableRemovals_def Let_def split: option.splits intro!: status_trail_quiet)

lemma status_trail_processCDCFlowConfigUpdate:
  assumes "processCDCFlowConfigUpdate en script x = (r, x', script')"
  shows "status_trail {STATUS_SNAPSHOT} x x'"
proof (cases "FlowConfigUpdate (x_state x)")
  case None
  with assms show ?thesis by (simp add: processCDCFlowConfigUpdate_def)
next
  case (Some upd)
  let ?x1 = "apply_update_settings upd x"
  have t1: "status_trail {STATUS_SNAPSHOT} x ?x1"
    by (rule status_trail_quiet) simp_all
  show ?thesis
  proof (cases "upd_AdditionalTables upd = [] \<and> upd_RemovedTables upd = []")
    case True
    with assms Some have "x' = snd (syncStateToConfigProtoInCatalog ?x1)"
      by (auto simp: processCDCFlowConfigUpdate_def Let_def)
    then have "status_trail {STATUS_SNAPSHOT} ?x1 x'"
      by (auto intro!: status_trail_quiet)
    with t1 show ?thesis by (rule status_trail_trans)
  next
    case False
    obtain r2 x2 s2 where a:
      "(if upd_AdditionalTables upd \<noteq> [] then processTableAdditions en script ?x1
        else (Return None, ?x1, script)) = (r2, x2, s2)"
      by (cases "(if upd_AdditionalTables upd \<noteq> [] then processTableAdditions en script ?x1
        else (Return None, ?x1, script))")
    have t2: "status_trail {STATUS_SNAPSHOT} ?x1 x2"
      using a status_trail_processTableAdditions by (auto split: if_splits)
    obtain e3 x3 where b:
      "(if upd_RemovedTables upd \<noteq> [] then processTableRemovals en x2 else (None, x2)) = (e3, x3)"
      by (cases "(if upd_RemovedTables upd \<noteq> [] then processTableRemovals en x2 else (None, x2))")
    have t3: "status_trail {STATUS_SNAPSHOT} x2 x3"
      using b status_trail_processTableRemovals by (auto split: if_splits)
    from assms Some False a b
    have "x' = x2 \<or> x' = x3 \<or> x' = snd (syncStateToConfigProtoInCatalog x3)"
      by (auto simp: processCDCFlowConfigUpdate_def Let_def split: flow.splits option.splits if_splits)
    moreover have "status_trail {STATUS_SNAPSHOT} x3 (snd (syncStateToConfigProtoInCatalog x3))"
      by (auto intro!: status_trail_quiet)
    ultimately show ?thesis
      using t1 t2 t3 by (metis status_trail_trans)
  qed
qed

lemma status_trail_pauseLoop_receive:
  "pauseLoop_receive en script x = (r, x', script') \<Longrightarrow> status_trail S x x'"
proof (induction script arbitrary: x)
  case Nil
  then show ?case by (auto split: if_splits)
next
  case (Cons e script)
  show ?case
  proof (cases "pauseLoop_blocks x")
    case True
    with Cons.prems have "pauseLoop_receive en script (pauseLoop_Select en e x) = (r, x', script')"
      by simp
    from Cons.IH [OF this] have "status_trail S (pauseLoop_Select en e x) x'" .
    moreover have "status_trail S x (pauseLoop_Select en e x)"
      using quiet_pauseLoop_Select by (rule status_trail_quiet)
    ultimately show ?thesis using status_trail_trans by blast
  next
    case False
    with Cons.prems show ?thesis by simp
  qed
qed

declare pauseLoop.simps [simp del] mainLoop_run.simps [simp del]

lemma pauseLoop_resumes:
  "ActiveSignal (x_state x) \<noteq> PauseSignal \<Longrightarrow>
     pauseLoop en script x =
       (Return (Some (x_state (updateStatus STATUS_RUNNING x)),
                Some (ContinueAsNew_CDCFlowWorkflow (x_cfg (updateStatus STATUS_RUNNING x))
                        (x_state (updateStatus STATUS_RUNNING x)))),
        updateStatus STATUS_RUNNING x)"
  by (subst pauseLoop.simps) (simp add: Let_def)

lemma status_trail_pauseLoop:
  assumes "pauseLoop en script x = (r, x')"
  shows "status_trail {STATUS_SNAPSHOT, STATUS_RUNNING} x x'"
proof -
  let ?S = "{STATUS_SNAPSHOT, STATUS_RUNNING}"
  have resumed: "status_trail ?S y x'" if "ActiveSignal (x_state y) \<noteq> PauseSignal"
    "pauseLoop en s y = (r, x')" for y s
    using that(2) unfolding pauseLoop_resumes [OF that(1)]
    by (auto intro!: status_trail_updateStatus)
  show ?thesis
  proof (cases "ActiveSignal (x_state x) = PauseSignal")
    case False
    from resumed [OF False assms] show ?thesis .
  next
    case True
    obtain g x1 s1 where rc: "pauseLoop_receive en script x = (g, x1, s1)"
      by (cases "pauseLoop_receive en script x")
    have t1: "status_trail ?S x x1"
      using status_trail_pauseLoop_receive [OF rc] .
    show ?thesis
    proof (cases g)
      case Waiting
      with assms True rc t1 show ?thesis
        by (subst (asm) pauseLoop.simps) simp
    next
      case (Return a)
      with assms True rc t1 show ?thesis
        by (subst (asm) pauseLoop.simps) simp
    next
      case (Leave u)
      from pauseLoop_receive_leaves [OF rc [unfolded Leave]] have nb: "\<not> pauseLoop_blocks x1" .
      show ?thesis
      proof (cases "x_canceled x1 \<or> ActiveSignal (x_state x1) = TerminateSignal
                    \<or> ActiveSignal (x_state x1) = ResyncSignal")
        case True
        with assms \<open>ActiveSignal (x_state x) = PauseSignal\<close> rc Leave t1 show ?thesis
          by (subst (asm) pauseLoop.simps) (auto split: if_splits)
      next
        case nx: False
        show ?thesis
        proof (cases "FlowConfigUpdate (x_state x1) \<noteq> None")
          case False
          with assms True rc Leave nx have "pauseLoop en s1 x1 = (r, x')"
            by (subst (asm) pauseLoop.simps) simp
          moreover have "ActiveSignal (x_state x1) \<noteq> PauseSignal"
            using nb nx False by (simp add: pauseLoop_blocks_def)
          ultimately have "status_trail ?S x1 x'" using resumed by blast
          with t1 show ?thesis by (rule status_trail_trans)
        next
          case fu: True
          obtain p x2 s2 where pr: "processCDCFlowConfigUpdate en s1 x1 = (p, x2, s2)"
            by (cases "processCDCFlowConfigUpdate en s1 x1")
          have t2: "status_trail ?S x1 x2"
            using status_trail_processCDCFlowConfigUpdate [OF pr]
            by (rule status_trail_mono) simp
          show ?thesis
          proof (cases "p = Return None")
            case False
            with assms True rc Leave nx fu pr have "x' = x2"
              by (subst (asm) pauseLoop.simps) (auto split: flow.splits option.splits)
            with t1 t2 show ?thesis using status_trail_trans by blast
          next
            case ok: True
            let ?x3 = "x2\<lparr>x_state := (x_state x2)\<lparr>FlowConfigUpdate := None, ActiveSignal := NoopSignal\<rparr>\<rparr>"
            from assms True rc Leave nx fu pr ok have "pauseLoop en s2 ?x3 = (r, x')"
              by (subst (asm) pauseLoop.simps) simp
            then have "status_trail ?S ?x3 x'"
              using resumed [of ?x3 s2] by simp
            moreover have "status_trail ?S x2 ?x3"
              by (rule status_trail_quiet) simp_all
            ultimately show ?thesis
              using t1 t2 status_trail_trans by blast
          qed
        qed
      qed
    qed
  qed
qed

lemma status_trail_pausePhase:
  assumes "pausePhase en script x = (r, x')"
  shows "status_trail {STATUS_PAUSED, STATUS_SNAPSHOT, STATUS_RUNNING} x x'"
proof -
  let ?S = "{STATUS_PAUSED, STATUS_SNAPSHOT, STATUS_RUNNING}"
  have "status_trail ?S x (updateStatus STATUS_PAUSED x)"
    by (rule status_trail_updateStatus) simp
  moreover have "status_trail ?S (updateStatus STATUS_PAUSED x) x'"
  proof (rule status_trail_mono)
    show "status_trail {STATUS_SNAPSHOT, STATUS_RUNNING} (updateStatus STATUS_PAUSED x) x'"
      using assms unfolding pausePhase_def by (rule status_trail_pauseLoop)
  qed auto
  ultimately show ?thesis by (rule status_trail_trans)
qed

lemma status_trail_setupFlow_loop:
  "setupFlow_loop orig script x = (r, x', script') \<Longrightarrow> status_trail S x x'"
proof (induction script arbitrary: x)
  case (Cons e script)
  have q: "status_trail S x (setupSnapshot_Select orig e x)"
    using quiet_setupSnapshot_Select by (rule status_trail_quiet)
  from Cons.prems consider "setupFlow_loop orig script x = (r, x', script')"
    | "x' = setupSnapshot_Select orig e x"
    | "setupFlow_loop orig script (setupSnapshot_Select orig e x) = (r, x', script')"
    by (auto split: if_splits option.splits)
  then show ?case
  proof cases
    case 1
    then show ?thesis by (rule Cons.IH)
  next
    case 2
    with q show ?thesis by simp
  next
    case 3
    from status_trail_trans [OF q Cons.IH [OF 3]] show ?thesis .
  qed
qed simp

lemma status_trail_snapshotFlow_loop:
  "snapshotFlow_loop orig script x = (r, x', script') \<Longrightarrow> status_trail S x x'"
proof (induction script arbitrary: x)
  case (Cons e script)
  have q: "status_trail S x (setupSnapshot_Select orig e x)"
    using quiet_setupSnapshot_Select by (rule status_trail_quiet)
  from Cons.prems consider "snapshotFlow_loop orig script x = (r, x', script')"
    | "x' = setupSnapshot_Select orig e x"
    | "snapshotFlow_loop orig script (setupSnapshot_Select orig e x) = (r, x', script')"
    by (auto split: if_splits option.splits)
  then show ?case
  proof cases
    case 1
    then show ?thesis by (rule Cons.IH)
  next
    case 2
    with q show ?thesis by simp
  next
    case 3
    from status_trail_trans [OF q Cons.IH [OF 3]] show ?thesis .
  qed
qed simp

lemma status_trail_renameTables_loop:
  "renameTables_loop orig script x = (r, x', script') \<Longrightarrow> status_trail S x x'"
proof (induction script arbitrary: x)
  case (Cons e script)
  have q: "status_trail S x (setupSnapshot_Select orig e x)"
    using quiet_setupSnapshot_Select by (rule status_trail_quiet)
  from Cons.prems consider "renameTables_loop orig script x = (r, x', script')"
    | "x' = setupSnapshot_Select orig e x"
    | "renameTables_loop orig script (setupSnapshot_Select orig e x) = (r, x', script')"
    by (auto split: if_splits option.splits)
  then show ?case
  proof cases
    case 1
    then show ?thesis by (rule Cons.IH)
  next
    case 2
    with q show ?thesis by simp
  next
    case 3
    from status_trail_trans [OF q Cons.IH [OF 3]] show ?thesis .
  qed
qed simp

lemma status_trail_setupSnapshot_finish:
  "setupSnapshot_finish x = (r, x') \<Longrightarrow> status_trail {STATUS_SNAPSHOT, STATUS_COMPLETED, STATUS_RUNNING} x x'"
  by (auto simp: setupSnapshot_finish_def Let_def intro!: status_trail_updateStatus)

lemma status_trail_setupSnapshot_rename:
  assumes "setupSnapshot_rename orig script x = (r, x')"
  shows "status_trail {STATUS_SNAPSHOT, STATUS_COMPLETED, STATUS_RUNNING} x x'"
proof (cases "cfg_Resync (x_cfg x)")
  case False
  with assms show ?thesis
    by (simp add: setupSnapshot_rename_def status_trail_setupSnapshot_finish)
next
  case True
  let ?S = "{STATUS_SNAPSHOT, STATUS_COMPLETED, STATUS_RUNNING}"
  let ?m = "opt_TableMappings (SyncFlowOptions (x_state x))"
  let ?opts = "\<lparr> ren_FlowJobName = cfg_FlowJobName (x_cfg x),
                  ren_PeerName = cfg_DestinationName (x_cfg x),
                  ren_SyncedAtColName = cfg_SyncedAtColName (x_cfg x),
                  ren_SoftDeleteColName = cfg_SoftDeleteColName (x_cfg x),
                  ren_RenameTableOptions = map rename_option ?m \<rparr>"
  let ?y1 = "x\<lparr>x_state := (x_state x)\<lparr>SyncFlowOptions := (SyncFlowOptions (x_state x))
                     \<lparr>opt_TableMappings := map rename_back ?m\<rparr>\<rparr>,
                   x_cfg := (x_cfg x)\<lparr>cfg_TableMappings := map rename_back ?m\<rparr>\<rparr>"
  let ?y2 = "issue (RenameTables ?opts) ?y1"
  have t2: "status_trail ?S x ?y2"
    by (rule status_trail_quiet) simp_all
  obtain r3 y3 s3 where l: "renameTables_loop orig script ?y2 = (r3, y3, s3)"
    by (cases "renameTables_loop orig script ?y2")
  have t3: "status_trail ?S ?y2 y3"
    using l by (rule status_trail_renameTables_loop)
  from assms True l have "x' = y3 \<or> setupSnapshot_finish y3 = (r, x')"
    by (auto simp: setupSnapshot_rename_def Let_def split: flow.splits)
  then have "status_trail ?S y3 x'"
    using status_trail_setupSnapshot_finish by auto
  with t2 t3 show ?thesis
    using status_trail_trans by blast
qed

lemma status_trail_setupSnapshotPhase:
  assumes "setupSnapshotPhase en script x = (r, x')"
  shows "status_trail {STATUS_SNAPSHOT, STATUS_COMPLETED, STATUS_RUNNING} x x'"
proof -
  let ?S = "{STATUS_SNAPSHOT, STATUS_COMPLETED, STATUS_RUNNING}"
  let ?orig = "cfg_TableMappings (x_cfg x)"
  let ?x1 = "setupSnapshot_suffix x"
  let ?sid = "GetChildWorkflowID ''setup-flow'' (cfg_FlowJobName (x_cfg ?x1)) (OriginalRunID en)"
  let ?x2 = "issue (ExecuteChildWorkflow ?sid SetupFlowWorkflow (x_cfg ?x1)) ?x1"
  have t2: "status_trail ?S x ?x2"
    by (rule status_trail_quiet) simp_all
  obtain r1 x3 s3 where l1: "setupFlow_loop ?orig script ?x2 = (r1, x3, s3)"
    by (cases "setupFlow_loop ?orig script ?x2")
  have t3: "status_trail ?S ?x2 x3"
    using l1 by (rule status_trail_setupFlow_loop)
  show ?thesis
  proof (cases r1)
    case Waiting
    with assms l1 have "x' = x3" by (simp add: setupSnapshotPhase_def Let_def)
    with t2 t3 show ?thesis using status_trail_trans by blast
  next
    case (Return a)
    with assms l1 have "x' = x3" by (simp add: setupSnapshotPhase_def Let_def)
    with t2 t3 show ?thesis using status_trail_trans by blast
  next
    case (Leave out)
    let ?x4 = "updateStatus STATUS_SNAPSHOT
               (x3\<lparr>x_state := (x_state x3)\<lparr>SyncFlowOptions := (SyncFlowOptions (x_state x3))
                  \<lparr>opt_SrcTableIdNameMapping := out_SrcTableIdNameMapping out\<rparr>\<rparr>\<rparr>)"
    let ?nid = "GetChildWorkflowID ''snapshot-flow'' (cfg_FlowJobName (x_cfg ?x4)) (OriginalRunID en)"
    let ?x5 = "issue (ExecuteChildWorkflow ?nid SnapshotFlowWorkflow (x_cfg ?x4)) ?x4"
    have "status_trail ?S x3 ?x5"
      unfolding status_trail_def by (intro exI [of _ "[STATUS_SNAPSHOT]"]) simp
    with t2 t3 have t5: "status_trail ?S x ?x5"
      using status_trail_trans by blast
    obtain r2 x6 s6 where l2: "snapshotFlow_loop ?orig s3 ?x5 = (r2, x6, s6)"
      by (cases "snapshotFlow_loop ?orig s3 ?x5")
    have t6: "status_trail ?S ?x5 x6"
      using l2 by (rule status_trail_snapshotFlow_loop)
    from assms l1 Leave l2 have "x' = x6 \<or> setupSnapshot_rename ?orig s6 x6 = (r, x')"
      by (auto simp: setupSnapshotPhase_def Let_def split: flow.splits)
    then have "status_trail ?S x6 x'"
      using status_trail_setupSnapshot_rename by auto
    with t5 t6 show ?thesis
      using status_trail_trans by blast
  qed
qed

lemma status_trail_mainLoop_Select:
  "status_trail S (m_exec m) (m_exec (mainLoop_Select en e m))"
  using quiet_mainLoop_Select by (rule status_trail_quiet)

lemma status_trail_mainLoop_drain:
  "status_trail S (m_exec m) (m_exec (fst (mainLoop_drain en script m)))"
proof (induction script arbitrary: m)
  case (Cons e script)
  show ?case
  proof (cases "x_canceled (m_exec m) \<or> is_SelectorIdle e")
    case True
    then show ?thesis by auto
  next
    case False
    show ?thesis
    proof (cases "e = CtxDone")
      case True
      with False show ?thesis by (auto intro!: status_trail_quiet)
    next
      case ne: False
      with False status_trail_trans [OF status_trail_mainLoop_Select Cons.IH] show ?thesis
        by simp
    qed
  qed
qed simp

lemma status_trail_syncFlowFuture_Get:
  "syncFlowFuture_Get script m = (r, m1, script1) \<Longrightarrow> status_trail S (m_exec m) (m_exec m1)"
  by (auto simp: syncFlowFuture_Get_def Let_def split: if_splits list.splits
           intro!: status_trail_quiet)

lemma mainLoop_finish_trail:
  assumes "mainLoop_finish en script m = (r, m')"
  shows "status_trail {STATUS_RUNNING, STATUS_TERMINATED} (m_exec m) (m_exec m')"
    and "nil_result_terminated r m'"
proof -
  let ?S = "{STATUS_RUNNING, STATUS_TERMINATED}"
  let ?m0 = "m\<lparr>m_exec := issue CancelSync (m_exec m)\<rparr>"
  have t0: "status_trail ?S (m_exec m) (m_exec ?m0)"
    by (rule status_trail_quiet) simp_all
  obtain g m1 s1 where g: "syncFlowFuture_Get script ?m0 = (g, m1, s1)"
    by (cases "syncFlowFuture_Get script ?m0")
  have t1: "status_trail ?S (m_exec ?m0) (m_exec m1)"
    using g by (rule status_trail_syncFlowFuture_Get)
  let ?m2 = "fst (mainLoop_drain en s1 m1)"
  have t2: "status_trail ?S (m_exec m1) (m_exec ?m2)"
    by (rule status_trail_mainLoop_drain)
  have t012: "status_trail ?S (m_exec m) (m_exec ?m2)"
    using t0 t1 t2 status_trail_trans by blast
  have t01: "status_trail ?S (m_exec m) (m_exec m1)"
    using t0 t1 status_trail_trans by blast
  show "status_trail ?S (m_exec m) (m_exec m')"
  proof (cases g)
    case (Leave u)
    show ?thesis
    proof (cases "x_canceled (m_exec ?m2)")
      case True
      with assms g Leave have "m_exec m' = updateStatus STATUS_TERMINATED (m_exec ?m2)"
        by (auto simp: mainLoop_finish_def Let_def)
      with t012 show ?thesis
        by (simp add: status_trail_updateStatus_after)
    next
      case False
      with assms g Leave have "CurrentFlowStatus (x_state (m_exec m')) = CurrentFlowStatus (x_state (m_exec ?m2))"
        "status_calls (x_calls (m_exec m')) = status_calls (x_calls (m_exec ?m2))"
        by (auto simp: mainLoop_finish_def Let_def split: if_splits)
      then have "status_trail ?S (m_exec ?m2) (m_exec m')"
        by (rule status_trail_quiet)
      with t012 show ?thesis by (rule status_trail_trans)
    qed
  qed (use assms g t01 in \<open>auto simp: mainLoop_finish_def\<close>)
  show "nil_result_terminated r m'"
    using assms g
    by (cases g) (auto simp: mainLoop_finish_def nil_result_terminated_def Let_def split: if_splits)
qed

lemma mainLoop_run_trail:
  "mainLoop_run en script m = (r, m') \<Longrightarrow>
     status_trail {STATUS_RUNNING, STATUS_TERMINATED} (m_exec m) (m_exec m') \<and> nil_result_terminated r m'"
proof (induction en script m rule: mainLoop_run.induct)
  case (1 en script m)
  let ?S = "{STATUS_RUNNING, STATUS_TERMINATED}"
  show ?case
  proof (cases "dropWhile is_SelectorIdle script")
    case Nil
    with "1.prems" show ?thesis
      by (subst (asm) mainLoop_run.simps) (auto simp: nil_result_terminated_def)
  next
    case (Cons e script1)
    let ?m1 = "mainLoop_Select en e m"
    let ?m2 = "fst (mainLoop_drain en script1 ?m1)"
    let ?script2 = "snd (mainLoop_drain en script1 ?m1)"
    let ?m3 = "if ShouldWorkflowContinueAsNew ?script2 then ?m2\<lparr>finished := True\<rparr> else ?m2"
    have t2: "status_trail ?S (m_exec m) (m_exec ?m2)"
      using status_trail_trans [OF status_trail_mainLoop_Select status_trail_mainLoop_drain] .
    have "status_trail ?S (m_exec ?m2) (m_exec ?m3)"
      by (rule status_trail_quiet) simp_all
    with t2 have t3: "status_trail ?S (m_exec m) (m_exec ?m3)"
      by (rule status_trail_trans)
    show ?thesis
    proof (cases "x_canceled (m_exec ?m2)")
      case True
      with "1.prems" Cons t2 show ?thesis
        by (subst (asm) mainLoop_run.simps) (auto simp: nil_result_terminated_def Let_def)
    next
      case False
      show ?thesis
      proof (cases "finished ?m3")
        case True
        with "1.prems" Cons False have "mainLoop_finish en (after_idle ?script2) ?m3 = (r, m')"
          by (subst (asm) mainLoop_run.simps) (simp add: Let_def)
        from mainLoop_finish_trail [OF this] t3 show ?thesis
          using status_trail_trans by blast
      next
        case nf: False
        with "1.prems" Cons False have "mainLoop_run en (after_idle ?script2) ?m3 = (r, m')"
          by (subst (asm) mainLoop_run.simps) (simp add: Let_def)
        from "1.IH" [OF Cons refl refl refl False refl nf this] t3 show ?thesis
          using status_trail_trans by blast
      qed
    qed
  qed
qed

lemma mainPhase_trail:
  assumes "mainPhase en script x = (r, x')"
  shows "status_trail {STATUS_RUNNING, STATUS_TERMINATED} x x'"
    and "\<forall>err. r = Return (None, err) \<longrightarrow>
           err = Some ErrCanceled \<and> CurrentFlowStatus (x_state x') = STATUS_TERMINATED
         \<and> x_calls x' \<noteq> [] \<and> last (x_calls x') = UpdateFlowStatusInCatalog STATUS_TERMINATED"
proof -
  let ?S = "{STATUS_RUNNING, STATUS_TERMINATED}"
  let ?x2 = "updateStatus STATUS_RUNNING (issue (SyncFlow (x_cfg x) (SyncFlowOptions (x_state x))) x)"
  let ?m0 = "\<lparr> m_exec = ?x2, finished = False, finishedError = False,
                  syncFlowFuture_fired = False, sleepFuture_added = False, sleepFuture_fired = False \<rparr>"
  obtain r' m' where run: "mainLoop_run en script ?m0 = (r', m')"
    by (cases "mainLoop_run en script ?m0")
  with assms have e: "r = r'" "x' = m_exec m'"
    by (simp_all add: mainPhase_def Let_def)
  have "status_trail ?S x ?x2"
    by (intro status_trail_updateStatus_after status_trail_issue) simp_all
  moreover from mainLoop_run_trail [OF run] have "status_trail ?S ?x2 (m_exec m')"
    "nil_result_terminated r' m'"
    by simp_all
  ultimately show "status_trail ?S x x'"
    "\<forall>err. r = Return (None, err) \<longrightarrow>
           err = Some ErrCanceled \<and> CurrentFlowStatus (x_state x') = STATUS_TERMINATED
         \<and> x_calls x' \<noteq> [] \<and> last (x_calls x') = UpdateFlowStatusInCatalog STATUS_TERMINATED"
    using e status_trail_trans by (auto simp: nil_result_terminated_def)
qed

lemma CDCFlowWorkflow_phases:
  assumes "CDCFlowWorkflow en script (Some c) state0 = (r, cs, final)"
  defines "x0 \<equiv> entry_exec c state0"
  shows "\<exists>x1 x'. status_trail {} x0 x1 \<and> x_state x1 = x_state x0
          \<and> final = Some (x_state x') \<and> cs = x_calls x'
          \<and> ((x' = x1 \<and> (\<forall>ret. r \<noteq> Return (ret, Some ErrCanceled)))
             \<or> (ActiveSignal (x_state x0) = PauseSignal \<and> pausePhase en script x1 = (r, x'))
             \<or> (ActiveSignal (x_state x0) \<noteq> PauseSignal
                  \<and> CurrentFlowStatus (x_state x0) \<noteq> STATUS_RUNNING
                  \<and> setupSnapshotPhase en script x1 = (r, x'))
             \<or> (ActiveSignal (x_state x0) \<noteq> PauseSignal
                  \<and> CurrentFlowStatus (x_state x0) = STATUS_RUNNING
                  \<and> mainPhase en script x1 = (r, x')))"
proof -
  let ?x1 = "issue (SetQueryHandler CDCFlowStateQuery) x0"
  let ?x2 = "issue (SetQueryHandler FlowStatusQuery) ?x1"
  let ?x3 = "issue (GetFlowMetadataContext (CurrentFlowStatus (x_state ?x2)) (cfg_Resync (x_cfg ?x2))) ?x2"
  have q: "status_trail {} x0 ?x1" "status_trail {} x0 ?x2" "status_trail {} x0 ?x3"
    by (rule status_trail_quiet; simp)+
  have unf: "CDCFlowWorkflow en script (Some c) state0 =
      (case SetQueryHandler_result en CDCFlowStateQuery of
               Some err \<Rightarrow>
                 leaving (Return (Some (x_state ?x1),
                                  Some (Errorf ''failed to set `cdc-flow-state` query handler'' err)), ?x1)
             | None \<Rightarrow>
                (case SetQueryHandler_result en FlowStatusQuery of
                      Some err \<Rightarrow>
                        leaving (Return (Some (x_state ?x2),
                                         Some (Errorf ''failed to set `flow-status` query handler'' err)), ?x2)
                    | None \<Rightarrow>
                        if CurrentFlowStatus (x_state ?x2) = STATUS_COMPLETED then
                          leaving (Return (Some (x_state ?x2), None), ?x2)
                        else if ActiveSignal (x_state ?x2) = PauseSignal then
                          leaving (pausePhase en script ?x2)
                        else
                          (case GetFlowMetadataContext_result en of
                                Some err \<Rightarrow>
                                  leaving (Return (Some (x_state ?x3),
                                                   Some (Errorf ''failed to get flow metadata context'' err)), ?x3)
                              | None \<Rightarrow>
                                  if CurrentFlowStatus (x_state ?x3) \<noteq> STATUS_RUNNING
                                  then leaving (setupSnapshotPhase en script ?x3)
                                  else leaving (mainPhase en script ?x3))))"
    by (simp only: CDCFlowWorkflow_def Let_def x0_def entry_exec_def option.case)
  show ?thesis
  proof (cases "SetQueryHandler_result en CDCFlowStateQuery")
    case (Some err)
    with assms(1) unf q(1) show ?thesis
      by (intro exI [of _ ?x1]) (auto simp: leaving_def)
  next
    case n1: None
    show ?thesis
    proof (cases "SetQueryHandler_result en FlowStatusQuery")
      case (Some err)
      with assms(1) unf n1 q(2) show ?thesis
        by (intro exI [of _ ?x2]) (auto simp: leaving_def)
    next
      case n2: None
      show ?thesis
      proof (cases "CurrentFlowStatus (x_state x0) = STATUS_COMPLETED")
        case True
        with assms(1) unf n1 n2 q(2) show ?thesis
          by (intro exI [of _ ?x2]) (auto simp: leaving_def)
      next
        case nc: False
        show ?thesis
        proof (cases "ActiveSignal (x_state x0) = PauseSignal")
          case True
          obtain r' x' where ph: "pausePhase en script ?x2 = (r', x')"
            by (cases "pausePhase en script ?x2")
          with assms(1) unf n1 n2 nc True have "r = r'" "cs = x_calls x'" "final = Some (x_state x')"
            by (simp_all add: leaving_def)
          with ph q(2) True show ?thesis
            by (intro exI [of _ ?x2] exI [of _ x']) simp
        next
          case np: False
          show ?thesis
          proof (cases "GetFlowMetadataContext_result en")
            case (Some err)
            with assms(1) unf n1 n2 nc np q(3) show ?thesis
              by (intro exI [of _ ?x3]) (auto simp: leaving_def)
          next
            case n3: None
            show ?thesis
            proof (cases "CurrentFlowStatus (x_state x0) = STATUS_RUNNING")
              case True
              obtain r' x' where ph: "mainPhase en script ?x3 = (r', x')"
                by (cases "mainPhase en script ?x3")
              with assms(1) unf n1 n2 nc np n3 True
              have "r = r'" "cs = x_calls x'" "final = Some (x_state x')"
                by (simp_all add: leaving_def)
              with ph q(3) True np show ?thesis
                by (intro exI [of _ ?x3] exI [of _ x']) simp
            next
              case False
              obtain r' x' where ph: "setupSnapshotPhase en script ?x3 = (r', x')"
                by (cases "setupSnapshotPhase en script ?x3")
              with assms(1) unf n1 n2 nc np n3 False
              have "r = r'" "cs = x_calls x'" "final = Some (x_state x')"
                by (simp_all add: leaving_def)
              with ph q(3) False np show ?thesis
                by (intro exI [of _ ?x3] exI [of _ x']) simp
            qed
          qed
        qed
      qed
    qed
  qed
qed

lemma entry_exec_status:
  "status_calls (x_calls (entry_exec c state0)) = (case state0 of None \<Rightarrow> [STATUS_SETUP] | Some s \<Rightarrow> [])"
  "CurrentFlowStatus (x_state (entry_exec c state0))
     = (case state0 of None \<Rightarrow> STATUS_SETUP | Some s \<Rightarrow> CurrentFlowStatus s)"
  "ActiveSignal (x_state (entry_exec c state0))
     = (case state0 of None \<Rightarrow> NoopSignal | Some s \<Rightarrow> ActiveSignal s)"
  by (simp_all add: entry_exec_def NewCDCFlowWorkflowState_def syncStatusToCatalog_def Let_def
        split: option.splits)

text \<open>
  C2. In every run with a config, at every point where the workflow returns, continues
  as new or waits, the status that the state holds is the status of the last
  status-update call issued in the run (a new state begins with the call for Setup); it
  is the status the state came in with only when the run has issued no such call. So no
  value is ever assigned to \<open>CurrentFlowStatus\<close> without the call that carries it
  having been issued by then.
\<close>

theorem status_mirrored_to_catalog:
  assumes "CDCFlowWorkflow en script (Some c) state0 = (r, cs, final)"
  shows "\<exists>st sts. final = Some st
          \<and> status_calls cs = (case state0 of None \<Rightarrow> [STATUS_SETUP] | Some s \<Rightarrow> []) @ sts
          \<and> CurrentFlowStatus st
               = last ((case state0 of None \<Rightarrow> STATUS_SETUP | Some s \<Rightarrow> CurrentFlowStatus s) # sts)"
proof -
  let ?x0 = "entry_exec c state0"
  from CDCFlowWorkflow_phases [OF assms] obtain x1 x' where
    p: "status_trail {} ?x0 x1" "final = Some (x_state x')" "cs = x_calls x'"
    "x' = x1 \<or> pausePhase en script x1 = (r, x') \<or> setupSnapshotPhase en script x1 = (r, x')
       \<or> mainPhase en script x1 = (r, x')"
    by blast
  from p(4) have "status_trail UNIV x1 x'"
    using status_trail_pausePhase status_trail_setupSnapshotPhase mainPhase_trail(1)
    by (metis status_trail_mono status_trail_refl subset_UNIV)
  with p(1) have "status_trail UNIV ?x0 x'"
    using status_trail_mono status_trail_trans by blast
  then obtain sts where "status_calls (x_calls x') = status_calls (x_calls ?x0) @ sts"
    "CurrentFlowStatus (x_state x') = last (CurrentFlowStatus (x_state ?x0) # sts)"
    unfolding status_trail_def by blast
  then show ?thesis
    using p(2,3) unfolding entry_exec_status by blast
qed

lemmas eval_defs = CDCFlowWorkflow_def leaving_def Let_def env_ok_def CDCFlowStateQuery_def
  FlowStatusQuery_def pausePhase_def pauseLoop.simps pauseLoop_blocks_def state_paused_def
  state_m1_def mainPhase_def mainLoop_run.simps mainLoop_finish_def syncFlowFuture_Get_def
  script_cancel_late_def terminate_request_def mainLoop_FlowSignalStateChange_def
  canceled_failure_def updateFlowConfigWithLatestSettings_def cfg_m1_def

lemma late_cancel_run:
  "CDCFlowWorkflow env_ok script_cancel_late (Some cfg_m1) (Some state_m1)
     = (Return (None, Some ErrCanceled),
        [SetQueryHandler ''cdc-flow-state'', SetQueryHandler ''flow-status'',
         GetFlowMetadataContext STATUS_RUNNING False,
         SyncFlow cfg_m1 (SyncFlowOptions state_m1),
         UpdateFlowStatusInCatalog STATUS_RUNNING,
         UpdateCDCConfigInCatalog cfg_m1,
         CancelSync,
         UpdateFlowStatusInCatalog STATUS_TERMINATED],
        Some (state_m1\<lparr>ActiveSignal := TerminateSignal,
                         DropFlowInput := Some \<lparr> drop_FlowJobName = ''m1'',
                                                  drop_FlowConnectionConfigs = Some cfg_m1,
                                                  drop_DropFlowStats = True,
                                                  drop_SkipDestinationDrop = False,
                                                  drop_Resync = False \<rparr>,
                         CurrentFlowStatus := STATUS_TERMINATED\<rparr>))"
  by (simp add: eval_defs)

text \<open>
  C1. The claim: whenever the context is cancelled, in the pause loop, in the setup and
  snapshot phase or in the main loop, status Terminated is written to the state and sent
  to the catalog before the cancellation error is returned. The code does so at one exit
  only, the check after the drain in the block \<open>if finished\<close>: the fourth run below,
  cancelled while that block waits for the sync, ends with the status update for
  Terminated. The first three runs are cancelled while the workflow is blocked in the
  \<open>Select\<close> of the pause loop, of the setup loop and of the main loop: each returns the
  cancellation error after the calls listed, none of which is a status update for
  Terminated, and the state keeps the status it had.
\<close>

theorem cancellation_without_terminated:
  "CDCFlowWorkflow env_ok [CtxDone] (Some cfg_m1) (Some state_paused)
     = (Return (Some (state_paused\<lparr>CurrentFlowStatus := STATUS_PAUSED\<rparr>), Some ErrCanceled),
        [SetQueryHandler ''cdc-flow-state'', SetQueryHandler ''flow-status'',
         UpdateFlowStatusInCatalog STATUS_PAUSED],
        Some (state_paused\<lparr>CurrentFlowStatus := STATUS_PAUSED\<rparr>))
   \<and> CDCFlowWorkflow env_ok [CtxDone] (Some cfg_m1) None
     = (Return (None, Some ErrCanceled),
        [UpdateFlowStatusInCatalog STATUS_SETUP,
         SetQueryHandler ''cdc-flow-state'', SetQueryHandler ''flow-status'',
         GetFlowMetadataContext STATUS_SETUP False,
         ExecuteChildWorkflow ''setup-flow-m1-run'' SetupFlowWorkflow cfg_m1],
        Some (fst (NewCDCFlowWorkflowState cfg_m1)))
   \<and> CDCFlowWorkflow env_ok [CtxDone] (Some cfg_m1) (Some state_m1)
     = (Return (Some state_m1, Some ErrCanceled),
        [SetQueryHandler ''cdc-flow-state'', SetQueryHandler ''flow-status'',
         GetFlowMetadataContext STATUS_RUNNING False,
         SyncFlow cfg_m1 (SyncFlowOptions state_m1),
         UpdateFlowStatusInCatalog STATUS_RUNNING],
        Some state_m1)
   \<and> CurrentFlowStatus state_m1 = STATUS_RUNNING
   \<and> fst (CDCFlowWorkflow env_ok script_cancel_late (Some cfg_m1) (Some state_m1))
       = Return (None, Some ErrCanceled)
   \<and> last (fst (snd (CDCFlowWorkflow env_ok script_cancel_late (Some cfg_m1) (Some state_m1))))
       = UpdateFlowStatusInCatalog STATUS_TERMINATED
   \<and> map_option CurrentFlowStatus
       (snd (snd (CDCFlowWorkflow env_ok script_cancel_late (Some cfg_m1) (Some state_m1))))
       = Some STATUS_TERMINATED"
  unfolding late_cancel_run
  by (simp add: eval_defs setupSnapshotPhase_def setupSnapshot_suffix_def setupSnapshot_exits_def
        NewCDCFlowWorkflowState_def syncStatusToCatalog_def GetChildWorkflowID_def)

theorem status_mirrored_to_catalog_witness:
  "status_calls (fst (snd (CDCFlowWorkflow env_ok script_resync (Some cfg_resync) None)))
     = [STATUS_SETUP, STATUS_SNAPSHOT, STATUS_RUNNING]
   \<and> map_option CurrentFlowStatus (snd (snd (CDCFlowWorkflow env_ok script_resync (Some cfg_resync) None)))
     = Some STATUS_RUNNING"
proof -
  have e: "CDCFlowWorkflow env_ok script_resync (Some cfg_resync) None
             = (fst (CDCFlowWorkflow env_ok script_resync (Some cfg_resync) None),
                fst (snd (CDCFlowWorkflow env_ok script_resync (Some cfg_resync) None)),
                snd (snd (CDCFlowWorkflow env_ok script_resync (Some cfg_resync) None)))"
    by simp
  have c: "status_calls (fst (snd (CDCFlowWorkflow env_ok script_resync (Some cfg_resync) None)))
     = [STATUS_SETUP, STATUS_SNAPSHOT, STATUS_RUNNING]"
    by (simp add: eval_defs setupSnapshotPhase_def setupSnapshot_suffix_def setupSnapshot_exits_def
        NewCDCFlowWorkflowState_def syncStatusToCatalog_def GetChildWorkflowID_def
        script_resync_def cfg_resync_def setupSnapshot_rename_def setupSnapshot_finish_def
        setup_output_def)
  from status_mirrored_to_catalog [OF e] obtain st sts where
    "snd (snd (CDCFlowWorkflow env_ok script_resync (Some cfg_resync) None)) = Some st"
    "status_calls (fst (snd (CDCFlowWorkflow env_ok script_resync (Some cfg_resync) None)))
       = [STATUS_SETUP] @ sts"
    "CurrentFlowStatus st = last (STATUS_SETUP # sts)"
    by auto
  with c show ?thesis by auto
qed

end
